theory Spec2Isabelle
  imports Complex_Main "HOL-Library.Multiset" "HOL-Library.AList"
begin

section \<open>Numeric model\<close>

text \<open>
  Go's \<^verbatim>\<open>float64\<close> is modelled by \<open>f64\<close>: a finite value carries a real number, and the
  three non-finite values are constructors of their own, so that every
  \<^verbatim>\<open>math.IsNaN\<close> / \<^verbatim>\<open>math.IsInf\<close> check of the source is a branch of the model.
  Arithmetic on finite values is exact, with one exception: the executor prints the
  difference \<open>1 - tolerance\<close> with 18 decimals, so the digits of that float64 difference
  decide the result, and there the subtraction is rounded to the nearest float64
  (\<open>round_f64\<close> below). Elsewhere binary rounding, overflow and signed zero are not
  modelled. Non-finite values come from the inputs, from a division by zero and
  from the logarithm of a non-positive number, and propagate by the IEEE rules.
  Where the source has checked that a value is finite, the model may continue on the
  real number it carries (\<open>val\<close>).
\<close>

datatype f64 = Fin real | PInf | NInf | NaN

fun IsNaN :: "f64 \<Rightarrow> bool" where
  "IsNaN NaN = True"
| "IsNaN _ = False"

fun IsInf :: "f64 \<Rightarrow> bool" where
  "IsInf PInf = True"
| "IsInf NInf = True"
| "IsInf _ = False"

fun val :: "f64 \<Rightarrow> real" where
  "val (Fin r) = r"
| "val _ = 0"

text \<open>
  Errors of the packages modelled here: the sentinel errors by name, the others by message.
  \<open>Panic\<close> is a Go panic (here: the overflow panics of the SDK's number types), which ends
  the computation without a result.
\<close>

datatype error =
    ErrInvalidPrecision
  | ErrAmountNil
  | ErrAmountNegative
  | ErrNotFinite
  | ErrConversionFailed
  | ErrInsufficientData
  | ErrNoValidPools
  | ErrInvalidVaultValue
  | ErrInvalidLiquidUSDC
  | ErrInvalidTargetAllocations
  | ErrMissingPoolData
  | ErrMissingTokenData
  | ErrInvalidScoringParams
  | ErrUSDCNotFound
  | ErrSimulationFailed
  | ErrInvalidPoolData
  | ErrInvalidScoringParameters
  | Failure string
  | Panic string

subsection \<open>Decimal formatting and the SDK's 18-digit decimals\<close>

text \<open>
  \<^verbatim>\<open>fmt.Sprintf("%.Nf", x)\<close> prints \<open>x\<close> rounded to \<open>N\<close> decimal places, ties to even.
  \<open>rhe\<close> is that rounding to an integer; \<open>sprintf_f n x\<close> is the number the string denotes.
\<close>

definition rhe :: "real \<Rightarrow> int" where
  "rhe y = (let f = \<lfloor>y\<rfloor>; d = y - of_int f in
     if d < 1/2 then f else if 1/2 < d then f + 1 else if even f then f else f + 1)"

definition sprintf_f :: "nat \<Rightarrow> real \<Rightarrow> real" where
  "sprintf_f n x = of_int (rhe (x * 10 ^ n)) / 10 ^ n"

text \<open>
  \<^verbatim>\<open>sdkmath.LegacyDec\<close> is a fixed-point decimal with 18 fractional digits: \<^verbatim>\<open>Mul\<close> and
  \<^verbatim>\<open>Quo\<close> round the exact result to 18 digits (ties to even), \<^verbatim>\<open>TruncateInt\<close> drops the
  fraction (toward zero).
\<close>

definition dec_round :: "real \<Rightarrow> real" where
  "dec_round y = of_int (rhe (y * 10 ^ 18)) / 10 ^ 18"

definition dec_mul :: "real \<Rightarrow> real \<Rightarrow> real" where
  "dec_mul a b = dec_round (a * b)"

definition dec_quo :: "real \<Rightarrow> real \<Rightarrow> real" where
  "dec_quo a b = dec_round (a / b)"

definition TruncateInt :: "real \<Rightarrow> int" where
  "TruncateInt d = (if 0 \<le> d then \<lfloor>d\<rfloor> else \<lceil>d\<rceil>)"

text \<open>The loop \<^verbatim>\<open>factor := 1; for i < precision { factor = factor.Mul(10) }\<close>.\<close>

fun dec_factor :: "nat \<Rightarrow> real" where
  "dec_factor 0 = 1"
| "dec_factor (Suc i) = dec_mul (dec_factor i) 10"

text \<open>
  The size limits of the SDK's number types (package \<^verbatim>\<open>cosmossdk.io/math\<close>, a dependency
  of the repository): an \<^verbatim>\<open>Int\<close> has at most \<open>MaxBitLen = 256\<close> bits, and the integer
  \<open>d \<cdot> 10\<^sup>1\<^sup>8\<close> that represents a \<^verbatim>\<open>LegacyDec\<close> \<open>d\<close> has at most \<open>maxDecBitLen = 315\<close>
  bits. \<^verbatim>\<open>LegacyNewDecFromStr\<close> returns an error for a longer number; \<^verbatim>\<open>Mul\<close> and \<^verbatim>\<open>Quo\<close>
  panic with "Int overflow" when their result is longer. The limits are checked in the
  conversions of \<^verbatim>\<open>utils/conversion.go\<close> and in the executor's minimum amounts, where
  the amounts are arbitrary. The planner's other integer and decimal arithmetic is
  modelled without them, and a panic of a conversion inside the planner is handled like
  the conversion's errors: there the model has a result where the code would panic on
  amounts beyond these sizes, so what is proved of every result of the model holds of
  every result of the code.
\<close>

definition MaxBitLen :: nat where
  "MaxBitLen = 256"

definition maxDecBitLen :: nat where
  "maxDecBitLen = 315"

definition int_out_of_range :: "int \<Rightarrow> bool" where
  "int_out_of_range i = (2 ^ MaxBitLen \<le> \<bar>i\<bar>)"

definition dec_out_of_range :: "real \<Rightarrow> bool" where
  "dec_out_of_range d = (2 ^ maxDecBitLen \<le> \<bar>d\<bar> * 10 ^ 18)"

text \<open>\<^verbatim>\<open>LegacyDec.Mul\<close> and \<^verbatim>\<open>LegacyDec.Quo\<close> with their overflow panic.\<close>

definition LegacyDec_Mul :: "real \<Rightarrow> real \<Rightarrow> error + real" where
  "LegacyDec_Mul a b =
     (let c = dec_mul a b in if dec_out_of_range c then Inl (Panic ''Int overflow'') else Inr c)"

definition LegacyDec_Quo :: "real \<Rightarrow> real \<Rightarrow> error + real" where
  "LegacyDec_Quo a b =
     (let c = dec_quo a b in if dec_out_of_range c then Inl (Panic ''Int overflow'') else Inr c)"

subsection \<open>Rounding to float64\<close>

text \<open>
  The float64 nearest to a real number, ties to even: 53 significant bits in the binade
  \<open>[2\<^sup>e, 2\<^sup>e\<^sup>+\<^sup>1)\<close> of the number, so neighbours are \<open>ulp = 2\<^sup>e\<^sup>-\<^sup>5\<^sup>2\<close> apart; below \<open>2\<^sup>-\<^sup>1\<^sup>0\<^sup>2\<^sup>2\<close> the
  spacing stays that of the lowest binade (subnormal numbers), and a result of \<open>2\<^sup>1\<^sup>0\<^sup>2\<^sup>4\<close> or
  more is an infinity.
\<close>

definition float_exponent :: "real \<Rightarrow> int" where
  "float_exponent x = max \<lfloor>log 2 \<bar>x\<bar>\<rfloor> (- 1022)"

definition ulp :: "real \<Rightarrow> real" where
  "ulp x = 2 powr of_int (float_exponent x - 52)"

definition round_f64 :: "real \<Rightarrow> f64" where
  "round_f64 x =
     (if x = 0 then Fin 0
      else
        let r = of_int (rhe (x / ulp x)) * ulp x in
        if 2 ^ 1024 \<le> \<bar>r\<bar> then (if 0 < x then PInf else NInf) else Fin r)"

text \<open>A real number is a float64 when rounding leaves it unchanged.\<close>

definition representable :: "real \<Rightarrow> bool" where
  "representable x = (round_f64 x = Fin x)"

subsection \<open>utils/conversion.go\<close>

text \<open>
  \<^verbatim>\<open>SDKIntToFloat64\<close>: the amount is \<open>None\<close> for a nil \<^verbatim>\<open>sdkmath.Int\<close>. \<^verbatim>\<open>Quo\<close> panics when
  its result is out of range. The final \<^verbatim>\<open>result.Float64()\<close> parses the decimal's digits
  into the nearest float64; in the model it is the identity (exact arithmetic on finite
  values), and its two error branches do not arise, a decimal in range being far below
  the largest float64. What the parsing does to the round trip is the lemma
  \<open>roundtrip_parsed\<close>.
\<close>

definition SDKIntToFloat64 :: "int option \<Rightarrow> int \<Rightarrow> error + real" where
  "SDKIntToFloat64 amount precision =
     (if precision < 0 \<or> 18 < precision then Inl ErrInvalidPrecision
      else case amount of
        None \<Rightarrow> Inl ErrAmountNil
      | Some a \<Rightarrow>
          if a < 0 then Inl ErrAmountNegative
          else LegacyDec_Quo (of_int a) (dec_factor (nat precision)))"

text \<open>
  \<^verbatim>\<open>Float64ToSDKInt\<close>: the amount is printed with \<open>precision\<close> decimals and parsed by
  \<^verbatim>\<open>LegacyNewDecFromStr\<close>, whose only possible error on these digits is the range error
  (returned as \<^verbatim>\<open>ErrConversionFailed\<close>); \<^verbatim>\<open>Mul\<close> panics when the product is out of range.
  \<^verbatim>\<open>TruncateInt\<close> builds an \<^verbatim>\<open>Int\<close>, which panics beyond \<open>MaxBitLen\<close> bits: that cannot
  happen to a decimal in range (\<open>TruncateInt_in_range\<close> below), so it is no branch here.
\<close>

definition Float64ToSDKInt :: "f64 \<Rightarrow> int \<Rightarrow> error + int" where
  "Float64ToSDKInt amount precision =
     (if precision < 0 \<or> 18 < precision then Inl ErrInvalidPrecision
      else if IsNaN amount \<or> IsInf amount then Inl ErrNotFinite
      else if val amount < 0 then Inl ErrAmountNegative
      else if val amount = 0 then Inr 0
      else
        let decAmount = sprintf_f (nat precision) (val amount) in
        if dec_out_of_range decAmount then Inl ErrConversionFailed
        else
          (case LegacyDec_Mul decAmount (dec_factor (nat precision)) of
             Inl e \<Rightarrow> Inl e
           | Inr product \<Rightarrow>
               let result = TruncateInt product in
               if result < 0 then Inl ErrAmountNegative else Inr result))"

text \<open>Arithmetic of float64.\<close>

fun fneg :: "f64 \<Rightarrow> f64" where
  "fneg (Fin a) = Fin (- a)"
| "fneg PInf = NInf"
| "fneg NInf = PInf"
| "fneg NaN = NaN"

fun fabs :: "f64 \<Rightarrow> f64" where
  "fabs (Fin a) = Fin \<bar>a\<bar>"
| "fabs PInf = PInf"
| "fabs NInf = PInf"
| "fabs NaN = NaN"

fun fadd :: "f64 \<Rightarrow> f64 \<Rightarrow> f64" where
  "fadd (Fin a) (Fin b) = Fin (a + b)"
| "fadd NaN _ = NaN"
| "fadd _ NaN = NaN"
| "fadd PInf NInf = NaN"
| "fadd NInf PInf = NaN"
| "fadd PInf _ = PInf"
| "fadd _ PInf = PInf"
| "fadd NInf _ = NInf"
| "fadd _ NInf = NInf"

definition fsub :: "f64 \<Rightarrow> f64 \<Rightarrow> f64" where
  "fsub a b = fadd a (fneg b)"


fun fmul :: "f64 \<Rightarrow> f64 \<Rightarrow> f64" where
  "fmul (Fin a) (Fin b) = Fin (a * b)"
| "fmul NaN _ = NaN"
| "fmul _ NaN = NaN"
| "fmul PInf (Fin b) = (if b = 0 then NaN else if 0 < b then PInf else NInf)"
| "fmul NInf (Fin b) = (if b = 0 then NaN else if 0 < b then NInf else PInf)"
| "fmul (Fin a) PInf = (if a = 0 then NaN else if 0 < a then PInf else NInf)"
| "fmul (Fin a) NInf = (if a = 0 then NaN else if 0 < a then NInf else PInf)"
| "fmul PInf PInf = PInf"
| "fmul NInf NInf = PInf"
| "fmul PInf NInf = NInf"
| "fmul NInf PInf = NInf"

fun fdiv :: "f64 \<Rightarrow> f64 \<Rightarrow> f64" where
  "fdiv (Fin a) (Fin b) =
     (if b = 0 then (if a = 0 then NaN else if 0 < a then PInf else NInf) else Fin (a / b))"
| "fdiv NaN _ = NaN"
| "fdiv _ NaN = NaN"
| "fdiv (Fin a) _ = Fin 0"
| "fdiv PInf (Fin b) = (if 0 \<le> b then PInf else NInf)"
| "fdiv NInf (Fin b) = (if 0 \<le> b then NInf else PInf)"
| "fdiv _ _ = NaN"

text \<open>\<^verbatim>\<open>math.Log10\<close>, \<^verbatim>\<open>math.Min\<close>, \<^verbatim>\<open>math.Max\<close>; \<^verbatim>\<open>math.Pow(x, 2)\<close> is \<open>fmul x x\<close>.\<close>

fun flog10 :: "f64 \<Rightarrow> f64" where
  "flog10 (Fin a) = (if a < 0 then NaN else if a = 0 then NInf else Fin (log 10 a))"
| "flog10 PInf = PInf"
| "flog10 NInf = NaN"
| "flog10 NaN = NaN"

fun fmin :: "f64 \<Rightarrow> f64 \<Rightarrow> f64" where
  "fmin NaN _ = NaN"
| "fmin _ NaN = NaN"
| "fmin NInf _ = NInf"
| "fmin _ NInf = NInf"
| "fmin PInf y = y"
| "fmin x PInf = x"
| "fmin (Fin a) (Fin b) = Fin (min a b)"

fun fmax :: "f64 \<Rightarrow> f64 \<Rightarrow> f64" where
  "fmax NaN _ = NaN"
| "fmax _ NaN = NaN"
| "fmax PInf _ = PInf"
| "fmax _ PInf = PInf"
| "fmax NInf y = y"
| "fmax x NInf = x"
| "fmax (Fin a) (Fin b) = Fin (max a b)"

text \<open>Comparisons of float64: every comparison with NaN is false.\<close>

fun fless :: "f64 \<Rightarrow> f64 \<Rightarrow> bool" where
  "fless (Fin a) (Fin b) = (a < b)"
| "fless (Fin a) PInf = True"
| "fless NInf (Fin b) = True"
| "fless NInf PInf = True"
| "fless _ _ = False"

fun fle :: "f64 \<Rightarrow> f64 \<Rightarrow> bool" where
  "fle (Fin a) (Fin b) = (a \<le> b)"
| "fle (Fin a) PInf = True"
| "fle NInf (Fin b) = True"
| "fle NInf PInf = True"
| "fle PInf PInf = True"
| "fle NInf NInf = True"
| "fle _ _ = False"

section \<open>Data model (internal/types)\<close>

type_synonym PoolID = nat

record Coin =
  Denom :: string
  Amount :: int

datatype SubActionType = SubActionSwap | SubActionDepositLP | SubActionWithdrawLP | SubActionNoOp

record SubAction =
  Type :: SubActionType
  TokenIn :: Coin
  TokenOutDenom :: string
  PoolIDForSwap :: PoolID
  PoolIDToDeposit :: PoolID
  AmountsToDeposit :: "Coin list"
  PoolIDToWithdraw :: PoolID
  LPSharesToWithdraw :: int
  TargetDenomOnExit :: string
  ExpectedTokenOut :: int
  ExpectedAmountsOut :: "Coin list"
  ExpectedSlippage :: f64
  ExpectedSharesOut :: int
  SlippageTolerancePct :: f64

section \<open>Minimum-output embedding (internal/wallet/transactions.go)\<close>







text \<open>A swap and a deposit with every field at Go's zero value, to be updated field by field.\<close>

definition zeroCoin :: Coin where
  "zeroCoin = \<lparr>Denom = [], Amount = 0\<rparr>"

definition zeroSubAction :: SubAction where
  "zeroSubAction =
     \<lparr>Type = SubActionNoOp, TokenIn = zeroCoin, TokenOutDenom = [], PoolIDForSwap = 0,
      PoolIDToDeposit = 0, AmountsToDeposit = [], PoolIDToWithdraw = 0, LPSharesToWithdraw = 0,
      TargetDenomOnExit = [], ExpectedTokenOut = 0, ExpectedAmountsOut = [],
      ExpectedSlippage = Fin 0, ExpectedSharesOut = 0, SlippageTolerancePct = Fin 0\<rparr>"

section \<open>Volatility (internal/analyzer)\<close>

text \<open>
  A price sample: the timestamp as an integer (\<^verbatim>\<open>time.Time\<close> compared with \<^verbatim>\<open>Before\<close>) and the
  price. Price samples are finite numbers here (the price feed validates them), so the
  price is a real.
\<close>

record PriceData =
  Timestamp :: int
  Price :: real

text \<open>
  The loop \<^verbatim>\<open>for i := 1; i < n; i++\<close> over consecutive samples: a pair with a non-positive price
  is skipped, every other pair appends \<^verbatim>\<open>math.Log(current / previous)\<close>.
\<close>

fun logReturns_loop :: "PriceData list \<Rightarrow> real list" where
  "logReturns_loop (previous # current # rest) =
     (if Price previous \<le> 0 \<or> Price current \<le> 0 then logReturns_loop (current # rest)
      else ln (Price current / Price previous) # logReturns_loop (current # rest))"
| "logReturns_loop _ = []"

text \<open>
  \<^verbatim>\<open>CalculateVolatility\<close>. \<^verbatim>\<open>sort.Slice\<close> is not a stable sort, so the sorting function is the
  parameter \<open>srt\<close>. The two accumulation loops are left folds. \<^verbatim>\<open>math.Sqrt\<close> of a negative
  annualization factor is NaN, and NaN times anything is NaN.
\<close>

definition CalculateVolatility ::
  "(PriceData list \<Rightarrow> PriceData list) \<Rightarrow> PriceData list \<Rightarrow> real \<Rightarrow> error + f64" where
  "CalculateVolatility srt prices annualizationFactor =
     (if length prices < 2 then Inl ErrInsufficientData
      else
        let logReturns = logReturns_loop (srt prices);
            numReturns = length logReturns
        in if numReturns = 0 then Inl ErrInsufficientData
           else
             let sum = foldl (\<lambda>s r. s + r) 0 logReturns;
                 mean = sum / of_nat numReturns;
                 sumSqDiff = foldl (\<lambda>s r. s + (r - mean)\<^sup>2) 0 logReturns;
                 variance = sumSqDiff / of_nat numReturns;
                 stdDev = sqrt variance
             in if annualizationFactor < 0 then Inr NaN
                else Inr (Fin (stdDev * sqrt annualizationFactor)))"

text \<open>
  The specification's words: the usable returns are the log-returns of the consecutive
  pairs in which both prices are positive; the population standard deviation divides by
  the number of returns.
\<close>

definition usable_returns :: "PriceData list \<Rightarrow> real list" where
  "usable_returns ps =
     map (\<lambda>(a, b). ln (Price b / Price a))
       (filter (\<lambda>(a, b). 0 < Price a \<and> 0 < Price b) (zip ps (tl ps)))"

definition mean_of :: "real list \<Rightarrow> real" where
  "mean_of xs = sum_list xs / of_nat (length xs)"

definition population_stddev :: "real list \<Rightarrow> real" where
  "population_stddev xs = sqrt ((\<Sum>x\<leftarrow>xs. (x - mean_of xs)\<^sup>2) / of_nat (length xs))"

section \<open>Scoring parameters and score results (internal/types)\<close>

record ScoringParameters =
  MaxPools :: int
  MinAllocation :: f64
  MaxAllocation :: f64
  RebalanceThresholdAmount :: f64
  MaxRebalancePercentPerCycle :: f64
  MinLiquidUSDCBuffer :: f64
  SmartShieldSlippagePercent :: f64
  NormalPoolSlippagePercent :: f64
  ViableSwapReductionFactor :: f64
  ViableDepositReductionFactor :: f64
  AprCoefficient :: f64
  TradingVolumeCoefficient :: f64
  EdenWeight :: f64
  UsdcFeeWeight :: f64
  PriceImpactWeight :: f64
  IlRiskCoefficient :: f64
  VolatilityCoefficient :: f64
  NewPoolCoefficient :: f64
  PoolMaturityDays :: int
  IlHoldingPeriodYears :: f64
  IlConfidenceFactor :: f64
  SmartShieldReductionFactor :: f64
  TvlCoefficient :: f64
  MinTVLThreshold :: f64
  SmartShieldBonus :: f64
  ContinuityCoefficient :: f64
  ContinuityLookbackDays :: int
  SentimentImpactFactor :: f64
  OptimizationIntervalCycles :: int
  LearningRate :: f64
  MaxParameterChange :: f64
  ElysForcedAllocationMinimum :: f64

record ScoreComponents =
  WeightedAPR :: f64
  ILRisk :: f64
  AnnualizedVolatility :: f64
  RewardScoreComponent :: f64
  RiskScoreComponent :: f64
  TvlScoreComponent :: f64
  BonusScoreComponent :: f64
  SentimentAdjustment :: f64

record PoolScoreResult =
  PoolID :: PoolID
  Score :: f64
  Components :: ScoreComponents

section \<open>Target allocations (internal/analyzer/SelectTopPools.go)\<close>

text \<open>
  A Go map that the code iterates over is an association list with distinct keys:
  \<open>AList.update\<close> is the assignment \<^verbatim>\<open>m[k] = v\<close>, \<open>AList.delete\<close> is \<^verbatim>\<open>delete(m, k)\<close>, \<open>map_of\<close> is
  the lookup. The iteration order of a Go map is unspecified; arithmetic on finite
  values is exact here, so no result depends on it.
\<close>

type_synonym 'v gomap = "(PoolID \<times> 'v) list"

definition maxAllocationIterations :: nat where
  "maxAllocationIterations = 20"

text \<open>The minimum that applies to a pool: the forced minimum for the ELYS pool, \<^verbatim>\<open>MinAllocation\<close> otherwise.\<close>

definition minRequired :: "ScoringParameters \<Rightarrow> PoolID \<Rightarrow> PoolID \<Rightarrow> real" where
  "minRequired params elysPoolID pid =
     (if pid = elysPoolID \<and> elysPoolID \<noteq> 0 then val (ElysForcedAllocationMinimum params)
      else val (MinAllocation params))"

text \<open>Step 2: every selected pool has a score result, finite and positive.\<close>

fun collectValidPools ::
  "PoolID list \<Rightarrow> (PoolID \<rightharpoonup> PoolScoreResult) \<Rightarrow> error + (PoolID \<times> real) list" where
  "collectValidPools [] scoredPoolsMap = Inr []"
| "collectValidPools (pid # pids) scoredPoolsMap =
     (case scoredPoolsMap pid of
        None \<Rightarrow> Inl (Failure ''score result not found for selected pool ID'')
      | Some scoreResult \<Rightarrow>
          if IsNaN (Score scoreResult) \<or> IsInf (Score scoreResult) then
            Inl (Failure ''pool has invalid score'')
          else if val (Score scoreResult) \<le> 0 then
            Inl (Failure ''pool has non-positive score'')
          else (case collectValidPools pids scoredPoolsMap of
                  Inl e \<Rightarrow> Inl e
                | Inr rest \<Rightarrow> Inr ((pid, val (Score scoreResult)) # rest)))"

text \<open>
  Step 4, the inner loop over the unlocked pools: the proportional share is stored, and a
  pool below its minimum or above the maximum is locked there.
\<close>

fun checkUnlocked ::
  "ScoringParameters \<Rightarrow> PoolID \<Rightarrow> real \<Rightarrow> real \<Rightarrow> (PoolID \<times> real) list
   \<Rightarrow> real gomap \<times> real gomap \<times> PoolID list \<times> bool
   \<Rightarrow> real gomap \<times> real gomap \<times> PoolID list \<times> bool" where
  "checkUnlocked params elysPoolID totalUnlockedScore remainingPercent [] st = st"
| "checkUnlocked params elysPoolID totalUnlockedScore remainingPercent ((pid, score) # rest)
     (allocations, lockedAllocations, poolsToLock, madeChanges) =
     (let currentAlloc = (score / totalUnlockedScore) * remainingPercent;
          allocations = AList.update pid currentAlloc allocations;
          minAlloc = minRequired params elysPoolID pid
      in if currentAlloc < minAlloc then
           checkUnlocked params elysPoolID totalUnlockedScore remainingPercent rest
             (allocations, AList.update pid minAlloc lockedAllocations, poolsToLock @ [pid], True)
         else if val (MaxAllocation params) < currentAlloc then
           checkUnlocked params elysPoolID totalUnlockedScore remainingPercent rest
             (allocations, AList.update pid (val (MaxAllocation params)) lockedAllocations,
              poolsToLock @ [pid], True)
         else
           checkUnlocked params elysPoolID totalUnlockedScore remainingPercent rest
             (allocations, lockedAllocations, poolsToLock, madeChanges))"

text \<open>
  Step 4, the loop \<^verbatim>\<open>for madeChanges && iteration < maxAllocationIterations\<close>. The state is
  (iteration, madeChanges, allocations, lockedAllocations, unlockedPoolScores); the
  \<^verbatim>\<open>break\<close> on an empty unlocked set leaves the loop with \<open>madeChanges = False\<close>.
\<close>

function enforceConstraints ::
  "ScoringParameters \<Rightarrow> PoolID \<Rightarrow> nat \<times> bool \<times> real gomap \<times> real gomap \<times> real gomap
   \<Rightarrow> error + (nat \<times> bool \<times> real gomap \<times> real gomap \<times> real gomap)" where
  "enforceConstraints params elysPoolID
     (iteration, madeChanges, allocations, lockedAllocations, unlockedPoolScores) =
     (if madeChanges \<and> iteration < maxAllocationIterations then
        let iteration = iteration + 1;
            remainingPercent = foldl (\<lambda>r (pid, lockedAlloc). r - lockedAlloc) 1 lockedAllocations
        in if remainingPercent < - (1 / 100000) then
             Inl (Failure ''allocation constraint enforcement resulted in over-allocation'')
           else
             let remainingPercent = (if remainingPercent < 0 then 0 else remainingPercent);
                 totalUnlockedScore = foldl (\<lambda>t (pid, score). t + score) 0 unlockedPoolScores
             in if unlockedPoolScores = [] then
                  Inr (iteration, False, allocations, lockedAllocations, unlockedPoolScores)
                else if totalUnlockedScore \<le> 0 then
                  Inl (Failure ''total unlocked score is non-positive during constraint enforcement'')
                else
                  (case checkUnlocked params elysPoolID totalUnlockedScore remainingPercent
                          unlockedPoolScores (allocations, lockedAllocations, [], False) of
                     (allocations, lockedAllocations, poolsToLock, madeChanges) \<Rightarrow>
                       enforceConstraints params elysPoolID
                         (iteration, madeChanges, allocations, lockedAllocations,
                          foldl (\<lambda>u pid. AList.delete pid u) unlockedPoolScores poolsToLock))
      else Inr (iteration, madeChanges, allocations, lockedAllocations, unlockedPoolScores))"
  by pat_completeness auto
termination
  by (relation "measure (\<lambda>(params, elysPoolID, iteration, rest). maxAllocationIterations - iteration)")
     auto

declare enforceConstraints.simps [simp del]

text \<open>Step 5, the assignment loop over the selected IDs, accumulating \<^verbatim>\<open>finalSum\<close>.\<close>

fun assignFinal ::
  "real gomap \<Rightarrow> real gomap \<Rightarrow> PoolID list \<Rightarrow> real gomap \<times> real \<Rightarrow> error + (real gomap \<times> real)" where
  "assignFinal lockedAllocations allocations [] st = Inr st"
| "assignFinal lockedAllocations allocations (pid # pids) (targetAllocations, finalSum) =
     (case map_of lockedAllocations pid of
        Some lockedVal \<Rightarrow>
          assignFinal lockedAllocations allocations pids
            (AList.update pid lockedVal targetAllocations, finalSum + lockedVal)
      | None \<Rightarrow>
          (case map_of allocations pid of
             Some unlocked \<Rightarrow>
               assignFinal lockedAllocations allocations pids
                 (AList.update pid unlocked targetAllocations, finalSum + unlocked)
           | None \<Rightarrow> Inl (Failure ''allocation not found for pool'')))"

definition DetermineTargetAllocations ::
  "PoolID list \<Rightarrow> (PoolID \<rightharpoonup> PoolScoreResult) \<Rightarrow> ScoringParameters \<Rightarrow> PoolID
   \<Rightarrow> error + real gomap" where
  "DetermineTargetAllocations selectedPoolIDs scoredPoolsMap params elysPoolID =
     (let numSelected = length selectedPoolIDs in
      if numSelected = 0 then Inr []
      else if IsNaN (MinAllocation params) \<or> IsInf (MinAllocation params) then
        Inl (Failure ''MinAllocation is not finite'')
      else if IsNaN (MaxAllocation params) \<or> IsInf (MaxAllocation params) then
        Inl (Failure ''MaxAllocation is not finite'')
      else if val (MinAllocation params) < 0 then Inl (Failure ''MinAllocation cannot be negative'')
      else if val (MaxAllocation params) \<le> 0 then Inl (Failure ''MaxAllocation must be positive'')
      else if val (MaxAllocation params) < val (MinAllocation params) then
        Inl (Failure ''MinAllocation cannot be greater than MaxAllocation'')
      else if IsNaN (ElysForcedAllocationMinimum params) \<or> IsInf (ElysForcedAllocationMinimum params) then
        Inl (Failure ''ElysForcedAllocationMinimum is not finite'')
      else if val (ElysForcedAllocationMinimum params) < 0 \<or> 1 < val (ElysForcedAllocationMinimum params) then
        Inl (Failure ''ElysForcedAllocationMinimum must be between 0 and 1'')
      else
        let elysPoolInSelection = (elysPoolID \<in> set selectedPoolIDs);
            minTotalRequired =
              (if elysPoolInSelection \<and> elysPoolID \<noteq> 0 then
                 val (ElysForcedAllocationMinimum params)
                   + of_nat (numSelected - 1) * val (MinAllocation params)
               else of_nat numSelected * val (MinAllocation params))
        in if 100001 / 100000 < minTotalRequired then
             Inl (Failure ''minimum allocation constraints cannot be satisfied'')
           else
             let equalShare = 1 / of_nat numSelected in
             if val (MaxAllocation params) < equalShare then
               Inl (Failure ''equal distribution violates MaxAllocation constraint'')
             else
               (case collectValidPools selectedPoolIDs scoredPoolsMap of
                  Inl e \<Rightarrow> Inl e
                | Inr validPools \<Rightarrow>
                    let totalScore = foldl (\<lambda>t (pid, score). t + score) 0 validPools in
                    if totalScore \<le> 0 then
                      Inl (Failure ''total score of selected pools is non-positive'')
                    else
                      let allocations =
                            foldl (\<lambda>m (pid, score). AList.update pid (score / totalScore) m) [] validPools;
                          unlockedPoolScores =
                            foldl (\<lambda>m (pid, score). AList.update pid score m) [] validPools
                      in
                      (case enforceConstraints params elysPoolID
                              (0, True, allocations, [], unlockedPoolScores) of
                         Inl e \<Rightarrow> Inl e
                       | Inr (iteration, madeChanges, allocations, lockedAllocations, unlocked) \<Rightarrow>
                           if iteration = maxAllocationIterations \<and> madeChanges then
                             Inl (Failure ''allocation constraint enforcement failed to converge'')
                           else
                             (case assignFinal lockedAllocations allocations selectedPoolIDs ([], 0) of
                                Inl e \<Rightarrow> Inl e
                              | Inr (targetAllocations, finalSum) \<Rightarrow>
                                  if 1 / 1000 < \<bar>finalSum - 1\<bar> then
                                    Inl (Failure ''final allocation sum deviates significantly from 1.0'')
                                  else if finalSum > 0 then
                                    let scaleFactor = 1 / finalSum;
                                        targetAllocations =
                                          map (\<lambda>(pid, alloc). (pid, alloc * scaleFactor)) targetAllocations
                                    in if list_ex (\<lambda>(pid, alloc).
                                             alloc < minRequired params elysPoolID pid - 1 / 100000
                                             \<or> val (MaxAllocation params) + 1 / 100000 < alloc)
                                           targetAllocations
                                       then Inl (Failure ''final allocation violates constraints'')
                                       else Inr targetAllocations
                                  else Inl (Failure ''final allocation sum is zero'')))))"

text \<open>Go's zero values of the parameter and result structs, to be updated field by field.\<close>

definition zeroParams :: ScoringParameters where
  "zeroParams =
     \<lparr>MaxPools = 0, MinAllocation = Fin 0, MaxAllocation = Fin 0, RebalanceThresholdAmount = Fin 0,
      MaxRebalancePercentPerCycle = Fin 0, MinLiquidUSDCBuffer = Fin 0,
      SmartShieldSlippagePercent = Fin 0, NormalPoolSlippagePercent = Fin 0,
      ViableSwapReductionFactor = Fin 0, ViableDepositReductionFactor = Fin 0,
      AprCoefficient = Fin 0, TradingVolumeCoefficient = Fin 0, EdenWeight = Fin 0,
      UsdcFeeWeight = Fin 0, PriceImpactWeight = Fin 0, IlRiskCoefficient = Fin 0,
      VolatilityCoefficient = Fin 0, NewPoolCoefficient = Fin 0, PoolMaturityDays = 0,
      IlHoldingPeriodYears = Fin 0, IlConfidenceFactor = Fin 0, SmartShieldReductionFactor = Fin 0,
      TvlCoefficient = Fin 0, MinTVLThreshold = Fin 0, SmartShieldBonus = Fin 0,
      ContinuityCoefficient = Fin 0, ContinuityLookbackDays = 0, SentimentImpactFactor = Fin 0,
      OptimizationIntervalCycles = 0, LearningRate = Fin 0, MaxParameterChange = Fin 0,
      ElysForcedAllocationMinimum = Fin 0\<rparr>"

definition zeroComponents :: ScoreComponents where
  "zeroComponents =
     \<lparr>WeightedAPR = Fin 0, ILRisk = Fin 0, AnnualizedVolatility = Fin 0,
      RewardScoreComponent = Fin 0, RiskScoreComponent = Fin 0, TvlScoreComponent = Fin 0,
      BonusScoreComponent = Fin 0, SentimentAdjustment = Fin 0\<rparr>"

definition scored :: "PoolID \<Rightarrow> real \<Rightarrow> PoolScoreResult" where
  "scored pid s = \<lparr>PoolID = pid, Score = Fin s, Components = zeroComponents\<rparr>"

section \<open>Tokens and pools (internal/types)\<close>

text \<open>
  The field \<^verbatim>\<open>Denom\<close> of a token is \<open>TokenDenom\<close> here and the field \<^verbatim>\<open>Score\<close> of a pool is
  \<open>PoolScore\<close>: the plain names are fields of \<open>Coin\<close> and \<open>PoolScoreResult\<close>.
\<close>

record Token =
  Symbol :: string
  TokenDenom :: string
  IBCDenom :: string
  Precision :: int
  PriceUSD :: f64
  OracleSourced :: bool
  PriceSeries :: "PriceData list"
  Volatility :: f64

record Pool =
  ID :: PoolID
  TokenA :: Token
  TokenB :: Token
  BalanceA :: int
  BalanceB :: int
  WeightA :: f64
  WeightB :: f64
  TvlUSD :: f64
  Volume7dUSD :: f64
  EdenRewardsAPR :: f64
  UsdcFeesAPR :: f64
  PriceImpactAPR :: f64
  IsSmartShielded :: bool
  AgeInDays :: int
  SwapFee :: f64
  SentimentScore :: f64
  TotalShares :: int
  PoolScore :: PoolScoreResult
  HasCurrentPosition :: bool
  CurrentPositionAgeDays :: int
  EstimatedPositionValue :: f64

section \<open>Pool selection (internal/analyzer/SelectTopPools.go)\<close>

text \<open>The test "this pool contains ELYS": the pool has metadata and one of its tokens has denom \<^verbatim>\<open>uelys\<close>.\<close>

definition containsElys :: "(PoolID \<rightharpoonup> Pool) \<Rightarrow> PoolID \<Rightarrow> bool" where
  "containsElys poolsDataMap pid =
     (case poolsDataMap pid of
        None \<Rightarrow> False
      | Some poolData \<Rightarrow>
          TokenDenom (TokenA poolData) = ''uelys'' \<or> TokenDenom (TokenB poolData) = ''uelys'')"

text \<open>
  The first loop of \<^verbatim>\<open>SelectTopPools\<close>: a non-finite score aborts; every other result is
  appended to the valid list; an ELYS pool becomes the forced pool if it is the first one
  seen, or if the inner scan of \<^verbatim>\<open>scoredPools\<close> finds an entry of the current forced pool
  with a smaller score. The state is (validScoredPools, elysPoolID, elysPoolFound).
\<close>

fun filterValid ::
  "PoolScoreResult list \<Rightarrow> (PoolID \<rightharpoonup> Pool) \<Rightarrow> PoolScoreResult list
   \<Rightarrow> PoolScoreResult list \<times> PoolID \<times> bool
   \<Rightarrow> error + (PoolScoreResult list \<times> PoolID \<times> bool)" where
  "filterValid scoredPools poolsDataMap [] st = Inr st"
| "filterValid scoredPools poolsDataMap (poolScore # rest)
     (validScoredPools, elysPoolID, elysPoolFound) =
     (if IsNaN (Score poolScore) \<or> IsInf (Score poolScore) then
        Inl (Failure ''pool has invalid score'')
      else
        let validScoredPools = validScoredPools @ [poolScore] in
        if containsElys poolsDataMap (PoolID poolScore) then
          if \<not> elysPoolFound then
            filterValid scoredPools poolsDataMap rest (validScoredPools, PoolID poolScore, True)
          else
            filterValid scoredPools poolsDataMap rest
              (validScoredPools,
               (if list_ex (\<lambda>existingPoolScore.
                      PoolID existingPoolScore = elysPoolID
                      \<and> fless (Score existingPoolScore) (Score poolScore)) scoredPools
                then PoolID poolScore else elysPoolID),
               elysPoolFound)
        else filterValid scoredPools poolsDataMap rest (validScoredPools, elysPoolID, elysPoolFound))"

text \<open>
  \<^verbatim>\<open>SelectTopPools\<close>. \<^verbatim>\<open>sort.Slice\<close> (descending by score, not stable) is the parameter \<open>srt\<close>.
  The result is the selected IDs and the forced (ELYS) pool ID, 0 if there is none.
\<close>

definition SelectTopPools ::
  "(PoolScoreResult list \<Rightarrow> PoolScoreResult list) \<Rightarrow> PoolScoreResult list \<Rightarrow> ScoringParameters
   \<Rightarrow> (PoolID \<rightharpoonup> Pool) \<Rightarrow> error + (PoolID list \<times> PoolID)" where
  "SelectTopPools srt scoredPools params poolsDataMap =
     (if scoredPools = [] then Inl (Failure ''no pools provided for selection'')
      else if MaxPools params \<le> 0 then Inl (Failure ''MaxPools parameter must be positive'')
      else
        (case filterValid scoredPools poolsDataMap scoredPools ([], 0, False) of
           Inl e \<Rightarrow> Inl e
         | Inr (validScoredPools, elysPoolID, elysPoolFound) \<Rightarrow>
             if validScoredPools = [] then Inl ErrNoValidPools
             else
               let sorted = srt validScoredPools;
                   numberOfPoolsToSelect =
                     (if int (length sorted) < MaxPools params then length sorted
                      else nat (MaxPools params));
                   selectedPoolsList = map PoolID (take numberOfPoolsToSelect sorted);
                   selectedPoolsList =
                     (if elysPoolFound \<and> elysPoolID \<notin> set selectedPoolsList then
                        (if selectedPoolsList \<noteq> [] then butlast selectedPoolsList
                         else selectedPoolsList) @ [elysPoolID]
                      else selectedPoolsList)
               in Inr (selectedPoolsList, elysPoolID)))"

text \<open>
  The specification's words: the candidates for the forced pool are the scored pools that
  contain the forced asset; the top-N are the first \<open>MaxPools\<close> results in descending score
  order.
\<close>

definition elysCandidates :: "(PoolID \<rightharpoonup> Pool) \<Rightarrow> PoolScoreResult list \<Rightarrow> PoolScoreResult list" where
  "elysCandidates poolsDataMap scoredPools =
     filter (\<lambda>r. containsElys poolsDataMap (PoolID r)) scoredPools"

definition topN ::
  "(PoolScoreResult list \<Rightarrow> PoolScoreResult list) \<Rightarrow> PoolScoreResult list \<Rightarrow> ScoringParameters
   \<Rightarrow> PoolScoreResult list" where
  "topN srt scoredPools params = take (nat (MaxPools params)) (srt scoredPools)"

text \<open>What \<^verbatim>\<open>sort.Slice\<close> guarantees with the comparison \<^verbatim>\<open>score[i] > score[j]\<close>.\<close>

definition sortsDescending ::
  "(PoolScoreResult list \<Rightarrow> PoolScoreResult list) \<Rightarrow> PoolScoreResult list \<Rightarrow> bool" where
  "sortsDescending srt xs =
     (mset (srt xs) = mset xs \<and> sorted_wrt (\<lambda>a b. \<not> fless (Score a) (Score b)) (srt xs))"

text \<open>A pool ID is a highest-scoring candidate: it is the ID of a candidate that no candidate outscores.\<close>

definition isBestCandidate :: "(PoolID \<rightharpoonup> Pool) \<Rightarrow> PoolScoreResult list \<Rightarrow> PoolID \<Rightarrow> bool" where
  "isBestCandidate poolsDataMap scoredPools pid =
     (\<exists>c \<in> set (elysCandidates poolsDataMap scoredPools).
        PoolID c = pid
        \<and> (\<forall>c' \<in> set (elysCandidates poolsDataMap scoredPools). val (Score c') \<le> val (Score c)))"

text \<open>
  The invariant of the first loop of \<^verbatim>\<open>SelectTopPools\<close> after the results \<open>seen\<close>: no forced
  pool yet (ID 0) if no candidate was seen, a highest-scoring candidate otherwise.
\<close>

definition elysInv :: "(PoolID \<rightharpoonup> Pool) \<Rightarrow> PoolScoreResult list \<Rightarrow> PoolID \<Rightarrow> bool \<Rightarrow> bool" where
  "elysInv poolsDataMap seen elysPoolID elysPoolFound =
     (if elysCandidates poolsDataMap seen = [] then \<not> elysPoolFound \<and> elysPoolID = 0
      else elysPoolFound \<and> isBestCandidate poolsDataMap seen elysPoolID)"

text \<open>One sorting function with the guarantee of \<^verbatim>\<open>sort.Slice\<close>, for running the model on finite scores.\<close>

definition sortByScoreDesc :: "PoolScoreResult list \<Rightarrow> PoolScoreResult list" where
  "sortByScoreDesc xs = rev (sort_key (\<lambda>r. val (Score r)) xs)"

text \<open>Go's zero values of a token and of a pool, and a pool that holds the given denoms.\<close>

definition zeroToken :: Token where
  "zeroToken =
     \<lparr>Symbol = [], TokenDenom = [], IBCDenom = [], Precision = 0, PriceUSD = Fin 0,
      OracleSourced = False, PriceSeries = [], Volatility = Fin 0\<rparr>"

definition zeroPool :: Pool where
  "zeroPool =
     \<lparr>ID = 0, TokenA = zeroToken, TokenB = zeroToken, BalanceA = 0, BalanceB = 0,
      WeightA = Fin 0, WeightB = Fin 0, TvlUSD = Fin 0, Volume7dUSD = Fin 0,
      EdenRewardsAPR = Fin 0, UsdcFeesAPR = Fin 0, PriceImpactAPR = Fin 0,
      IsSmartShielded = False, AgeInDays = 0, SwapFee = Fin 0, SentimentScore = Fin 0,
      TotalShares = 0, PoolScore = scored 0 0, HasCurrentPosition = False,
      CurrentPositionAgeDays = 0, EstimatedPositionValue = Fin 0\<rparr>"

definition poolOf :: "PoolID \<Rightarrow> string \<Rightarrow> string \<Rightarrow> Pool" where
  "poolOf pid denomA denomB =
     zeroPool\<lparr>ID := pid, TokenA := zeroToken\<lparr>TokenDenom := denomA\<rparr>,
              TokenB := zeroToken\<lparr>TokenDenom := denomB\<rparr>\<rparr>"

section \<open>Action planner (internal/planner/planner.go)\<close>

text \<open>
  A vault position and the planner's high-level action. Their pool ID fields are
  \<open>PositionPoolID\<close> and \<open>ActionPoolID\<close> (\<open>PoolID\<close> is the field of a score result).
\<close>

record Position =
  PositionPoolID :: PoolID
  LPShares :: int
  AgeDays :: int
  EstimatedValue :: f64

record ExtendedAction =
  ActionPoolID :: PoolID
  DeltaUSD :: f64
  TargetLPShares :: int

text \<open>The fields of the three simulation results that the planner reads.\<close>

record SwapEstimationResult =
  TokenOutAmount :: int
  SwapSlippage :: f64

record JoinPoolEstimationResult =
  ShareAmountOut :: Coin
  JoinSlippage :: f64

record ExitPoolEstimationResult =
  AmountsOut :: "Coin list"
  ExitSlippage :: f64

text \<open>
  What the planner calls outside itself: the three RPC simulations (swap: amount, denom
  in, denom out; join: pool, amounts in; leave: pool, shares in, denom out) and the two
  calls of \<^verbatim>\<open>sort.Slice\<close> (withdrawals ascending by \<^verbatim>\<open>DeltaUSD\<close>, deposits descending).
\<close>

record Externals =
  SimulateSwap :: "int \<Rightarrow> string \<Rightarrow> string \<Rightarrow> error + SwapEstimationResult"
  SimulateJoinPool :: "PoolID \<Rightarrow> Coin list \<Rightarrow> error + JoinPoolEstimationResult"
  SimulateLeavePool :: "PoolID \<Rightarrow> int \<Rightarrow> string \<Rightarrow> error + ExitPoolEstimationResult"
  sortWithdrawals :: "ExtendedAction list \<Rightarrow> ExtendedAction list"
  sortDeposits :: "ExtendedAction list \<Rightarrow> ExtendedAction list"

text \<open>\<^verbatim>\<open>sdkmath.Int.Quo\<close> truncates toward zero; \<^verbatim>\<open>int64(x)\<close> of a finite float drops the fraction.\<close>

definition Quo :: "int \<Rightarrow> int \<Rightarrow> int" where
  "Quo a b = sgn a * sgn b * (\<bar>a\<bar> div \<bar>b\<bar>)"

definition validateScoringParams :: "ScoringParameters \<Rightarrow> error + unit" where
  "validateScoringParams params =
     (if IsNaN (RebalanceThresholdAmount params) \<or> IsInf (RebalanceThresholdAmount params) then
        Inl (Failure ''rebalance threshold is not finite'')
      else if fless (RebalanceThresholdAmount params) (Fin 0) then
        Inl (Failure ''rebalance threshold cannot be negative'')
      else if fless (Fin 100) (RebalanceThresholdAmount params) then
        Inl (Failure ''rebalance threshold cannot exceed 100%'')
      else if IsNaN (MaxRebalancePercentPerCycle params) \<or> IsInf (MaxRebalancePercentPerCycle params) then
        Inl (Failure ''max rebalance percent per cycle is not finite'')
      else if fless (MaxRebalancePercentPerCycle params) (Fin 0) then
        Inl (Failure ''max rebalance percent per cycle cannot be negative'')
      else if fless (Fin 100) (MaxRebalancePercentPerCycle params) then
        Inl (Failure ''max rebalance percent per cycle cannot exceed 100%'')
      else if IsNaN (SmartShieldSlippagePercent params) \<or> IsInf (SmartShieldSlippagePercent params) then
        Inl (Failure ''smart shield slippage percent is not finite'')
      else if fless (SmartShieldSlippagePercent params) (Fin 0)
              \<or> fless (Fin 100) (SmartShieldSlippagePercent params) then
        Inl (Failure ''smart shield slippage percent must be between 0 and 100'')
      else if IsNaN (NormalPoolSlippagePercent params) \<or> IsInf (NormalPoolSlippagePercent params) then
        Inl (Failure ''normal pool slippage percent is not finite'')
      else if fless (NormalPoolSlippagePercent params) (Fin 0)
              \<or> fless (Fin 100) (NormalPoolSlippagePercent params) then
        Inl (Failure ''normal pool slippage percent must be between 0 and 100'')
      else if IsNaN (ViableSwapReductionFactor params) \<or> IsInf (ViableSwapReductionFactor params) then
        Inl (Failure ''viable swap reduction factor is not finite'')
      else if fle (ViableSwapReductionFactor params) (Fin 0)
              \<or> fless (Fin 1) (ViableSwapReductionFactor params) then
        Inl (Failure ''viable swap reduction factor must be between 0 and 1'')
      else if IsNaN (ViableDepositReductionFactor params) \<or> IsInf (ViableDepositReductionFactor params) then
        Inl (Failure ''viable deposit reduction factor is not finite'')
      else if fle (ViableDepositReductionFactor params) (Fin 0)
              \<or> fless (Fin 1) (ViableDepositReductionFactor params) then
        Inl (Failure ''viable deposit reduction factor must be between 0 and 1'')
      else Inr ())"

text \<open>
  \<^verbatim>\<open>validateInputs\<close>. The target allocations are a Go map (an association list here); a nil
  map (targets, pools, tokens) is \<open>None\<close>. The loop over the allocations returns at the first
  bad entry and sums the others. A nil \<^verbatim>\<open>LPShares\<close> is not modelled.
\<close>

fun sumAllocations :: "f64 gomap \<Rightarrow> f64 \<Rightarrow> error + f64" where
  "sumAllocations [] totalAllocation = Inr totalAllocation"
| "sumAllocations ((poolID, allocation) # rest) totalAllocation =
     (if IsNaN allocation \<or> IsInf allocation then Inl ErrInvalidTargetAllocations
      else if fless allocation (Fin 0) then Inl ErrInvalidTargetAllocations
      else if fless (Fin 1) allocation then Inl ErrInvalidTargetAllocations
      else sumAllocations rest (fadd totalAllocation allocation))"

fun validatePositions :: "Position list \<Rightarrow> error + unit" where
  "validatePositions [] = Inr ()"
| "validatePositions (pos # rest) =
     (if PositionPoolID pos = 0 then Inl (Failure ''position has invalid pool ID'')
      else if LPShares pos < 0 then Inl (Failure ''position has invalid LP shares'')
      else if IsNaN (EstimatedValue pos) \<or> IsInf (EstimatedValue pos) then
        Inl (Failure ''position has invalid estimated value'')
      else if fless (EstimatedValue pos) (Fin 0) then
        Inl (Failure ''position has negative estimated value'')
      else validatePositions rest)"

definition validateInputs ::
  "Position list \<Rightarrow> f64 \<Rightarrow> f64 gomap option \<Rightarrow> f64 \<Rightarrow> (PoolID \<rightharpoonup> Pool) option
   \<Rightarrow> (string \<times> Token) list option \<Rightarrow> ScoringParameters \<Rightarrow> string \<Rightarrow> error + unit" where
  "validateInputs currentPositions initialLiquidUSDC targetAllocations totalVaultValueUSD
     poolsData tokenDataMap scoringParams tendermintRPCEndpoint =
     (if IsNaN initialLiquidUSDC \<or> IsInf initialLiquidUSDC then Inl ErrInvalidLiquidUSDC
      else if fless initialLiquidUSDC (Fin 0) then Inl ErrInvalidLiquidUSDC
      else if IsNaN totalVaultValueUSD \<or> IsInf totalVaultValueUSD then Inl ErrInvalidVaultValue
      else case targetAllocations of
        None \<Rightarrow> Inl ErrInvalidTargetAllocations
      | Some allocs \<Rightarrow>
          (case sumAllocations allocs (Fin 0) of
             Inl e \<Rightarrow> Inl e
           | Inr totalAllocation \<Rightarrow>
               if fless (Fin (1 / 100)) (fabs (fsub totalAllocation (Fin 1))) then
                 Inl ErrInvalidTargetAllocations
               else
                 (case validatePositions currentPositions of
                    Inl e \<Rightarrow> Inl e
                  | Inr _ \<Rightarrow>
                      if poolsData = None then Inl ErrMissingPoolData
                      else case tokenDataMap of
                        None \<Rightarrow> Inl ErrMissingTokenData
                      | Some tokens \<Rightarrow>
                          if tokens = [] then Inl ErrMissingTokenData
                          else case validateScoringParams scoringParams of
                            Inl e \<Rightarrow> Inl ErrInvalidScoringParams
                          | Inr _ \<Rightarrow>
                              if tendermintRPCEndpoint = [] then
                                Inl (Failure ''tendermint RPC endpoint cannot be empty'')
                              else Inr ())))"

text \<open>\<^verbatim>\<open>validateAndGetUSDCToken\<close>: the first token of the map with symbol USDC, then its checks.\<close>

definition validateAndGetUSDCToken :: "(string \<times> Token) list \<Rightarrow> error + Token" where
  "validateAndGetUSDCToken tokenDataMap =
     (case find (\<lambda>token. Symbol token = ''USDC'') (map snd tokenDataMap) of
        None \<Rightarrow> Inl ErrUSDCNotFound
      | Some usdcToken \<Rightarrow>
          if IBCDenom usdcToken = [] then Inl ErrUSDCNotFound
          else if Precision usdcToken < 0 \<or> 18 < Precision usdcToken then Inl ErrUSDCNotFound
          else if IsNaN (PriceUSD usdcToken) \<or> IsInf (PriceUSD usdcToken) then Inl ErrUSDCNotFound
          else if fless (Fin (1 / 10)) (fabs (fsub (PriceUSD usdcToken) (Fin 1))) then
            Inl ErrUSDCNotFound
          else Inr usdcToken)"

definition findPosition :: "Position list \<Rightarrow> PoolID \<Rightarrow> Position option" where
  "findPosition positions poolID = find (\<lambda>pos. PositionPoolID pos = poolID) positions"

definition getSlippageLimit :: "Pool \<Rightarrow> ScoringParameters \<Rightarrow> f64" where
  "getSlippageLimit pool scoringParams =
     (if IsSmartShielded pool then fdiv (SmartShieldSlippagePercent scoringParams) (Fin 100)
      else fdiv (NormalPoolSlippagePercent scoringParams) (Fin 100))"

text \<open>
  \<^verbatim>\<open>calculateTargetShares\<close>: the share ratio is printed with \<^verbatim>\<open>%f\<close> (6 decimals), multiplied
  by the pool's total shares as an SDK decimal and truncated.
\<close>

definition calculateTargetShares :: "f64 \<Rightarrow> PoolID \<Rightarrow> (PoolID \<rightharpoonup> Pool) \<Rightarrow> error + int" where
  "calculateTargetShares targetUSD poolID poolsData =
     (if fle targetUSD (Fin 0) then Inr 0
      else case poolsData poolID of
        None \<Rightarrow> Inl (Failure ''pool data not found'')
      | Some poolInfo \<Rightarrow>
          if TotalShares poolInfo = 0 then Inl (Failure ''pool has zero total shares'')
          else if fle (TvlUSD poolInfo) (Fin 0) then Inl (Failure ''pool has invalid TVL'')
          else
            let shareRatio = fdiv targetUSD (TvlUSD poolInfo) in
            if IsNaN shareRatio \<or> IsInf shareRatio then
              Inl (Failure ''share ratio calculation failed'')
            else Inr (TruncateInt (dec_mul (sprintf_f 6 (val shareRatio))
                                           (of_int (TotalShares poolInfo)))))"

text \<open>
  \<^verbatim>\<open>analyzeRequiredChanges\<close>: the loop over all pool IDs involved, with the withdrawals and
  the deposits found so far. The IDs are the keys of a Go map, taken here in the order of
  first insertion (positions, then targets).
\<close>

fun analyzeLoop ::
  "Position list \<Rightarrow> f64 gomap \<Rightarrow> f64 \<Rightarrow> (PoolID \<rightharpoonup> Pool) \<Rightarrow> ScoringParameters \<Rightarrow> PoolID list
   \<Rightarrow> ExtendedAction list \<times> ExtendedAction list
   \<Rightarrow> error + (ExtendedAction list \<times> ExtendedAction list)" where
  "analyzeLoop currentPositions targetAllocations totalVaultValueUSD poolsData scoringParams []
     st = Inr st"
| "analyzeLoop currentPositions targetAllocations totalVaultValueUSD poolsData scoringParams
     (poolID # rest) (withdrawals, deposits) =
     (let currentUSD = (case findPosition currentPositions poolID of
                          Some currentPos \<Rightarrow> EstimatedValue currentPos
                        | None \<Rightarrow> Fin 0);
          targetAllocation = (case map_of targetAllocations poolID of
                                Some a \<Rightarrow> a
                              | None \<Rightarrow> Fin 0);
          targetUSD = fmul totalVaultValueUSD targetAllocation
      in if IsNaN currentUSD \<or> IsInf currentUSD then
           Inl (Failure ''current USD value is not finite'')
         else if IsNaN targetUSD \<or> IsInf targetUSD then
           Inl (Failure ''target USD value is not finite'')
         else
           let deltaUSD = fsub targetUSD currentUSD;
               deltaPercentage =
                 (if fless (Fin 0) targetUSD then fmul (fdiv deltaUSD targetUSD) (Fin 100)
                  else if fless (Fin 0) currentUSD then Fin (- 100)
                  else Fin 0)
           in if IsNaN deltaPercentage \<or> IsInf deltaPercentage then
                Inl (Failure ''delta percentage calculation failed'')
              else if fless deltaPercentage (fneg (RebalanceThresholdAmount scoringParams)) then
                (case calculateTargetShares targetUSD poolID poolsData of
                   Inl e \<Rightarrow> Inl e
                 | Inr targetShares \<Rightarrow>
                     analyzeLoop currentPositions targetAllocations totalVaultValueUSD poolsData
                       scoringParams rest
                       (withdrawals @ [\<lparr>ActionPoolID = poolID, DeltaUSD = deltaUSD,
                                         TargetLPShares = targetShares\<rparr>], deposits))
              else if fless (RebalanceThresholdAmount scoringParams) deltaPercentage then
                (case calculateTargetShares targetUSD poolID poolsData of
                   Inl e \<Rightarrow> Inl e
                 | Inr targetShares \<Rightarrow>
                     analyzeLoop currentPositions targetAllocations totalVaultValueUSD poolsData
                       scoringParams rest
                       (withdrawals, deposits @ [\<lparr>ActionPoolID = poolID, DeltaUSD = deltaUSD,
                                                   TargetLPShares = targetShares\<rparr>]))
              else
                analyzeLoop currentPositions targetAllocations totalVaultValueUSD poolsData
                  scoringParams rest (withdrawals, deposits))"

definition analyzeRequiredChanges ::
  "Position list \<Rightarrow> f64 gomap \<Rightarrow> f64 \<Rightarrow> (PoolID \<rightharpoonup> Pool) \<Rightarrow> ScoringParameters
   \<Rightarrow> error + (ExtendedAction list \<times> ExtendedAction list)" where
  "analyzeRequiredChanges currentPositions targetAllocations totalVaultValueUSD poolsData
     scoringParams =
     (let allPoolIDs =
            rev (remdups (rev (map PositionPoolID currentPositions @ map fst targetAllocations)))
      in analyzeLoop currentPositions targetAllocations totalVaultValueUSD poolsData
           scoringParams allPoolIDs ([], []))"

text \<open>
  \<^verbatim>\<open>applyRebalancingLimits\<close>: only \<^verbatim>\<open>DeltaUSD\<close> of a withdrawal is scaled; \<^verbatim>\<open>TargetLPShares\<close> is
  copied as it is (the source comments "will be recalculated based on scaled DeltaUSD").
\<close>

definition applyRebalancingLimits ::
  "ExtendedAction list \<Rightarrow> ExtendedAction list \<Rightarrow> f64 \<Rightarrow> ScoringParameters
   \<Rightarrow> ExtendedAction list \<times> ExtendedAction list" where
  "applyRebalancingLimits withdrawals deposits totalVaultValueUSD scoringParams =
     (let maxWithdrawalUSD =
            fmul totalVaultValueUSD (fdiv (MaxRebalancePercentPerCycle scoringParams) (Fin 100));
          totalWithdrawalUSD = foldl (\<lambda>t w. fadd t (fabs (DeltaUSD w))) (Fin 0) withdrawals
      in if fle totalWithdrawalUSD maxWithdrawalUSD then (withdrawals, deposits)
         else
           let scalingFactor = fdiv maxWithdrawalUSD totalWithdrawalUSD;
               cappedWithdrawals =
                 map (\<lambda>w. \<lparr>ActionPoolID = ActionPoolID w,
                            DeltaUSD = fmul (DeltaUSD w) scalingFactor,
                            TargetLPShares = TargetLPShares w\<rparr>) withdrawals
           in (cappedWithdrawals, deposits))"

definition validateExitEstimation :: "ExitPoolEstimationResult \<Rightarrow> error + unit" where
  "validateExitEstimation exitEst =
     (if IsNaN (ExitSlippage exitEst) \<or> IsInf (ExitSlippage exitEst) then
        Inl (Failure ''exit estimation slippage is not finite'')
      else if fless (ExitSlippage exitEst) (Fin 0) then
        Inl (Failure ''exit estimation slippage is negative'')
      else if AmountsOut exitEst = [] then
        Inl (Failure ''exit estimation returned no amounts'')
      else Inr ())"

text \<open>
  The inner loop of \<^verbatim>\<open>processWithdrawals\<close> over the coins of an exit estimation: USDC is
  added to the simulated liquid USDC, every other denom to the consolidation map.
\<close>

fun trackReceived ::
  "Token \<Rightarrow> Coin list \<Rightarrow> f64 \<times> (string \<times> int) list \<Rightarrow> error + (f64 \<times> (string \<times> int) list)" where
  "trackReceived usdcToken [] st = Inr st"
| "trackReceived usdcToken (coinOut # rest) (simulatedLiquidUSDC, tempNonUSDCAssets) =
     (if Denom coinOut = IBCDenom usdcToken then
        (case SDKIntToFloat64 (Some (Amount coinOut)) (Precision usdcToken) of
           Inl e \<Rightarrow> Inl e
         | Inr usdcReceived \<Rightarrow>
             trackReceived usdcToken rest
               (fadd simulatedLiquidUSDC (Fin usdcReceived), tempNonUSDCAssets))
      else
        trackReceived usdcToken rest
          (simulatedLiquidUSDC,
           (case map_of tempNonUSDCAssets (Denom coinOut) of
              Some existing \<Rightarrow>
                AList.update (Denom coinOut) (existing + Amount coinOut) tempNonUSDCAssets
            | None \<Rightarrow> AList.update (Denom coinOut) (Amount coinOut) tempNonUSDCAssets)))"

text \<open>
  The loop of \<^verbatim>\<open>processWithdrawals\<close>. The state is (actions, simulatedLiquidUSDC,
  tempNonUSDCAssets). The shares to withdraw are the position's shares minus the action's
  \<^verbatim>\<open>TargetLPShares\<close>; \<^verbatim>\<open>DeltaUSD\<close> is not read.
\<close>

fun withdrawalsLoop ::
  "Externals \<Rightarrow> Position list \<Rightarrow> (PoolID \<rightharpoonup> Pool) \<Rightarrow> Token \<Rightarrow> ScoringParameters
   \<Rightarrow> ExtendedAction list \<Rightarrow> SubAction list \<times> f64 \<times> (string \<times> int) list
   \<Rightarrow> error + (SubAction list \<times> f64 \<times> (string \<times> int) list)" where
  "withdrawalsLoop ext currentPositions poolsData usdcToken scoringParams [] st = Inr st"
| "withdrawalsLoop ext currentPositions poolsData usdcToken scoringParams (withdrawal # rest)
     (actions, simulatedLiquidUSDC, tempNonUSDCAssets) =
     (case findPosition currentPositions (ActionPoolID withdrawal) of
        None \<Rightarrow>
          withdrawalsLoop ext currentPositions poolsData usdcToken scoringParams rest
            (actions, simulatedLiquidUSDC, tempNonUSDCAssets)
      | Some currentPos \<Rightarrow>
          let sharesToWithdraw = LPShares currentPos - TargetLPShares withdrawal in
          if sharesToWithdraw \<le> 0 then
            withdrawalsLoop ext currentPositions poolsData usdcToken scoringParams rest
              (actions, simulatedLiquidUSDC, tempNonUSDCAssets)
          else
            (case poolsData (ActionPoolID withdrawal) of
               None \<Rightarrow> Inl (Failure ''pool data missing for withdrawal'')
             | Some poolInfo \<Rightarrow>
                 (case SimulateLeavePool ext (ActionPoolID withdrawal) sharesToWithdraw
                         (IBCDenom usdcToken) of
                    Inl e \<Rightarrow> Inl ErrSimulationFailed
                  | Inr exitEst \<Rightarrow>
                      (case validateExitEstimation exitEst of
                         Inl e \<Rightarrow> Inl e
                       | Inr _ \<Rightarrow>
                           let maxSlippage = getSlippageLimit poolInfo scoringParams;
                               actions = actions @
                                 [zeroSubAction\<lparr>Type := SubActionWithdrawLP,
                                    PoolIDToWithdraw := ActionPoolID withdrawal,
                                    LPSharesToWithdraw := sharesToWithdraw,
                                    TargetDenomOnExit := IBCDenom usdcToken,
                                    ExpectedAmountsOut := AmountsOut exitEst,
                                    ExpectedSlippage := ExitSlippage exitEst,
                                    SlippageTolerancePct := maxSlippage\<rparr>]
                           in (case trackReceived usdcToken (AmountsOut exitEst)
                                      (simulatedLiquidUSDC, tempNonUSDCAssets) of
                                 Inl e \<Rightarrow> Inl e
                               | Inr (simulatedLiquidUSDC, tempNonUSDCAssets) \<Rightarrow>
                                   withdrawalsLoop ext currentPositions poolsData usdcToken
                                     scoringParams rest
                                     (actions, simulatedLiquidUSDC, tempNonUSDCAssets))))))"

definition processWithdrawals ::
  "Externals \<Rightarrow> ExtendedAction list \<Rightarrow> Position list \<Rightarrow> (PoolID \<rightharpoonup> Pool) \<Rightarrow> f64 \<Rightarrow> Token
   \<Rightarrow> ScoringParameters \<Rightarrow> error + (SubAction list \<times> f64 \<times> (string \<times> int) list)" where
  "processWithdrawals ext withdrawals currentPositions poolsData simulatedLiquidUSDC usdcToken
     scoringParams =
     withdrawalsLoop ext currentPositions poolsData usdcToken scoringParams
       (sortWithdrawals ext withdrawals) ([], simulatedLiquidUSDC, [])"

text \<open>
  \<^verbatim>\<open>findViableSwapAmount\<close>: at most 20 tries; a try that is not viable reduces the amount
  through a float with 18 decimals. \<open>None\<close> is the error "no viable swap amount".
\<close>

fun findViableSwapLoop ::
  "Externals \<Rightarrow> nat \<Rightarrow> int \<Rightarrow> string \<Rightarrow> string \<Rightarrow> f64 \<Rightarrow> f64
   \<Rightarrow> (SwapEstimationResult \<times> int) option" where
  "findViableSwapLoop ext 0 currentAmount fromDenom toDenom maxSlippage reductionFactor = None"
| "findViableSwapLoop ext (Suc retriesLeft) currentAmount fromDenom toDenom maxSlippage
     reductionFactor =
     (if currentAmount = 0 then None
      else
        let sim = SimulateSwap ext currentAmount fromDenom toDenom in
        case (case sim of Inr swapEst \<Rightarrow>
                (if fle (SwapSlippage swapEst) maxSlippage then Some swapEst else None)
              | Inl e \<Rightarrow> None) of
          Some swapEst \<Rightarrow> Some (swapEst, currentAmount)
        | None \<Rightarrow>
            (case SDKIntToFloat64 (Some currentAmount) 18 of
               Inl e \<Rightarrow> None
             | Inr currentAmountFloat \<Rightarrow>
                 (case Float64ToSDKInt (fmul (Fin currentAmountFloat) reductionFactor) 18 of
                    Inl e \<Rightarrow> None
                  | Inr reduced \<Rightarrow>
                      findViableSwapLoop ext retriesLeft reduced fromDenom toDenom maxSlippage
                        reductionFactor)))"

definition findViableSwapAmount ::
  "Externals \<Rightarrow> int \<Rightarrow> string \<Rightarrow> string \<Rightarrow> f64 \<Rightarrow> f64 \<Rightarrow> (SwapEstimationResult \<times> int) option" where
  "findViableSwapAmount ext maxAmount fromDenom toDenom maxSlippage reductionFactor =
     findViableSwapLoop ext 20 maxAmount fromDenom toDenom maxSlippage reductionFactor"

text \<open>The loop of \<^verbatim>\<open>processConsolidation\<close> over the consolidation map; the state is (actions, simulatedLiquidUSDC).\<close>

fun consolidationLoop ::
  "Externals \<Rightarrow> Token \<Rightarrow> ScoringParameters \<Rightarrow> f64 \<Rightarrow> (string \<times> int) list
   \<Rightarrow> SubAction list \<times> f64 \<Rightarrow> error + (SubAction list \<times> f64)" where
  "consolidationLoop ext usdcToken scoringParams maxSlippage [] st = Inr st"
| "consolidationLoop ext usdcToken scoringParams maxSlippage ((denom, amount) # rest)
     (actions, simulatedLiquidUSDC) =
     (if amount = 0 then
        consolidationLoop ext usdcToken scoringParams maxSlippage rest (actions, simulatedLiquidUSDC)
      else if denom = IBCDenom usdcToken then
        Inl (Failure ''found USDC in non-USDC assets map'')
      else
        (case findViableSwapAmount ext amount denom (IBCDenom usdcToken) maxSlippage
                (ViableSwapReductionFactor scoringParams) of
           None \<Rightarrow>
             consolidationLoop ext usdcToken scoringParams maxSlippage rest
               (actions, simulatedLiquidUSDC)
         | Some (swapEst, finalAmount) \<Rightarrow>
             if finalAmount = 0 then
               consolidationLoop ext usdcToken scoringParams maxSlippage rest
                 (actions, simulatedLiquidUSDC)
             else
               (case SDKIntToFloat64 (Some (TokenOutAmount swapEst)) (Precision usdcToken) of
                  Inl e \<Rightarrow> Inl e
                | Inr usdcReceived \<Rightarrow>
                    consolidationLoop ext usdcToken scoringParams maxSlippage rest
                      (actions @
                         [zeroSubAction\<lparr>Type := SubActionSwap,
                            TokenIn := \<lparr>Denom = denom, Amount = finalAmount\<rparr>,
                            TokenOutDenom := IBCDenom usdcToken,
                            ExpectedTokenOut := TokenOutAmount swapEst,
                            ExpectedSlippage := SwapSlippage swapEst,
                            SlippageTolerancePct := maxSlippage\<rparr>],
                       fadd simulatedLiquidUSDC (Fin usdcReceived)))))"

definition processConsolidation ::
  "Externals \<Rightarrow> (string \<times> int) list \<Rightarrow> f64 \<Rightarrow> Token \<Rightarrow> ScoringParameters
   \<Rightarrow> error + (SubAction list \<times> f64)" where
  "processConsolidation ext tempNonUSDCAssets simulatedLiquidUSDC usdcToken scoringParams =
     (if tempNonUSDCAssets = [] then Inr ([], simulatedLiquidUSDC)
      else
        let maxSlippage = fdiv (NormalPoolSlippagePercent scoringParams) (Fin 100) in
        consolidationLoop ext usdcToken scoringParams maxSlippage tempNonUSDCAssets
          ([], simulatedLiquidUSDC))"

text \<open>
  \<^verbatim>\<open>findViableDepositAmount\<close>: the full amount, then once the amount times
  \<^verbatim>\<open>int64(factor * 100)\<close> over 100. \<open>None\<close> is the error "no viable deposit amount".
  \<^verbatim>\<open>amountsIn[0]\<close> is the one coin of the list that \<^verbatim>\<open>processDeposits\<close> builds.
\<close>

definition findViableDepositAmount ::
  "Externals \<Rightarrow> PoolID \<Rightarrow> Coin list \<Rightarrow> Pool \<Rightarrow> ScoringParameters
   \<Rightarrow> (JoinPoolEstimationResult \<times> int) option" where
  "findViableDepositAmount ext poolID amountsIn poolInfo scoringParams =
     (let maxSlippage = getSlippageLimit poolInfo scoringParams in
      case (case SimulateJoinPool ext poolID amountsIn of
              Inr joinEst \<Rightarrow> (if fle (JoinSlippage joinEst) maxSlippage then Some joinEst else None)
            | Inl e \<Rightarrow> None) of
        Some joinEst \<Rightarrow> Some (joinEst, Amount (hd amountsIn))
      | None \<Rightarrow>
          let reductionFactorInt =
                TruncateInt (val (fmul (ViableDepositReductionFactor scoringParams) (Fin 100)));
              reducedAmount = Quo (Amount (hd amountsIn) * reductionFactorInt) 100;
              reducedAmountsIn = [\<lparr>Denom = Denom (hd amountsIn), Amount = reducedAmount\<rparr>]
          in case SimulateJoinPool ext poolID reducedAmountsIn of
               Inr joinEst \<Rightarrow>
                 (if fle (JoinSlippage joinEst) maxSlippage then Some (joinEst, reducedAmount)
                  else None)
             | Inl e \<Rightarrow> None)"

text \<open>
  The body of the loop of \<^verbatim>\<open>processDeposits\<close> for one deposit; the state is (actions,
  simulatedLiquidUSDC), and a \<^verbatim>\<open>continue\<close> returns the state unchanged. The source returns
  the actions only; the model keeps the simulated liquid USDC in the result, to state what
  it is after each deposit.
\<close>

definition depositStep ::
  "Externals \<Rightarrow> (PoolID \<rightharpoonup> Pool) \<Rightarrow> Token \<Rightarrow> ScoringParameters \<Rightarrow> ExtendedAction
   \<Rightarrow> SubAction list \<times> f64 \<Rightarrow> error + (SubAction list \<times> f64)" where
  "depositStep ext poolsData usdcToken scoringParams deposit st =
     (case st of (actions, simulatedLiquidUSDC) \<Rightarrow>
      case poolsData (ActionPoolID deposit) of
        None \<Rightarrow> Inl (Failure ''pool data missing for deposit'')
      | Some poolInfo \<Rightarrow>
          let targetUSDCAmount = DeltaUSD deposit in
          if fle targetUSDCAmount (Fin 0) then Inr (actions, simulatedLiquidUSDC)
          else
            let maxAvailableForDeposit =
                  fsub simulatedLiquidUSDC (MinLiquidUSDCBuffer scoringParams);
                maxAvailableForDeposit =
                  (if fless maxAvailableForDeposit (Fin 0) then Fin 0 else maxAvailableForDeposit);
                targetUSDCAmount =
                  (if fless maxAvailableForDeposit targetUSDCAmount then maxAvailableForDeposit
                   else targetUSDCAmount)
            in if fless targetUSDCAmount (Fin 1) then Inr (actions, simulatedLiquidUSDC)
               else
                 (case Float64ToSDKInt targetUSDCAmount (Precision usdcToken) of
                    Inl e \<Rightarrow> Inl e
                  | Inr usdcAmount \<Rightarrow>
                      let amountsIn = [\<lparr>Denom = IBCDenom usdcToken, Amount = usdcAmount\<rparr>] in
                      (case findViableDepositAmount ext (ActionPoolID deposit) amountsIn poolInfo
                              scoringParams of
                         None \<Rightarrow> Inr (actions, simulatedLiquidUSDC)
                       | Some (joinEst, finalAmount) \<Rightarrow>
                           if finalAmount = 0 then Inr (actions, simulatedLiquidUSDC)
                           else
                             let maxSlippage = getSlippageLimit poolInfo scoringParams;
                                 actions = actions @
                                   [zeroSubAction\<lparr>Type := SubActionDepositLP,
                                      PoolIDToDeposit := ActionPoolID deposit,
                                      AmountsToDeposit :=
                                        [\<lparr>Denom = IBCDenom usdcToken, Amount = finalAmount\<rparr>],
                                      ExpectedSharesOut := Amount (ShareAmountOut joinEst),
                                      ExpectedSlippage := JoinSlippage joinEst,
                                      SlippageTolerancePct := maxSlippage\<rparr>]
                             in (case SDKIntToFloat64 (Some finalAmount) (Precision usdcToken) of
                                   Inl e \<Rightarrow> Inl e
                                 | Inr usedUSDC \<Rightarrow>
                                     Inr (actions, fsub simulatedLiquidUSDC (Fin usedUSDC))))))"

text \<open>The loop of \<^verbatim>\<open>processDeposits\<close>: an error of the body ends the planning.\<close>

fun depositsLoop ::
  "Externals \<Rightarrow> (PoolID \<rightharpoonup> Pool) \<Rightarrow> Token \<Rightarrow> ScoringParameters \<Rightarrow> ExtendedAction list
   \<Rightarrow> SubAction list \<times> f64 \<Rightarrow> error + (SubAction list \<times> f64)" where
  "depositsLoop ext poolsData usdcToken scoringParams [] st = Inr st"
| "depositsLoop ext poolsData usdcToken scoringParams (deposit # rest) st =
     (case depositStep ext poolsData usdcToken scoringParams deposit st of
        Inl e \<Rightarrow> Inl e
      | Inr st' \<Rightarrow> depositsLoop ext poolsData usdcToken scoringParams rest st')"

definition processDeposits ::
  "Externals \<Rightarrow> ExtendedAction list \<Rightarrow> (PoolID \<rightharpoonup> Pool) \<Rightarrow> f64 \<Rightarrow> Token \<Rightarrow> ScoringParameters
   \<Rightarrow> error + SubAction list" where
  "processDeposits ext deposits poolsData simulatedLiquidUSDC usdcToken scoringParams =
     (case depositsLoop ext poolsData usdcToken scoringParams (sortDeposits ext deposits)
             ([], simulatedLiquidUSDC) of
        Inl e \<Rightarrow> Inl e
      | Inr (actions, finalLiquidUSDC) \<Rightarrow> Inr actions)"

text \<open>
  To state what the deposit phase does to the buffer: the USDC that a deposit action puts
  in, in whole USDC; the \<open>allowable\<close> amount of the specification; and a run of deposited
  amounts that keeps the buffer \<open>b\<close> up to \<open>eps\<close>: each amount is positive, is deposited
  only when at least one USDC is allowable, is at most the amount allowable at that moment
  plus \<open>eps\<close>, and comes off the liquid USDC before the next one.
\<close>

definition depositedUSDC :: "Token \<Rightarrow> SubAction \<Rightarrow> real" where
  "depositedUSDC usdcToken a =
     of_int (sum_list (map Amount (AmountsToDeposit a))) / 10 ^ nat (Precision usdcToken)"

definition allowable :: "real \<Rightarrow> real \<Rightarrow> real" where
  "allowable s b = max 0 (s - b)"

fun keepsBuffer :: "real \<Rightarrow> real \<Rightarrow> real \<Rightarrow> real list \<Rightarrow> bool" where
  "keepsBuffer b eps s [] = True"
| "keepsBuffer b eps s (x # xs) =
     (0 < x \<and> 1 \<le> allowable s b \<and> x \<le> allowable s b + eps \<and> keepsBuffer b eps (s - x) xs)"

text \<open>
  \<^verbatim>\<open>GenerateActionPlan\<close>: validation, the empty-vault cases, the USDC token, the analysis,
  the withdrawal cap, then withdrawals, consolidation and deposits. The result is the
  pair (withdrawals and consolidation swaps, deposits).
\<close>

definition GenerateActionPlan ::
  "Externals \<Rightarrow> Position list \<Rightarrow> f64 \<Rightarrow> f64 gomap option \<Rightarrow> f64 \<Rightarrow> (PoolID \<rightharpoonup> Pool) option
   \<Rightarrow> (string \<times> Token) list option \<Rightarrow> ScoringParameters \<Rightarrow> string
   \<Rightarrow> error + (SubAction list \<times> SubAction list)" where
  "GenerateActionPlan ext currentPositions initialLiquidUSDC targetAllocations totalVaultValueUSD
     poolsData tokenDataMap scoringParams tendermintRPCEndpoint =
     (case validateInputs currentPositions initialLiquidUSDC targetAllocations totalVaultValueUSD
             poolsData tokenDataMap scoringParams tendermintRPCEndpoint of
        Inl e \<Rightarrow> Inl e
      | Inr _ \<Rightarrow>
          if fle totalVaultValueUSD (Fin 0) \<and> fle initialLiquidUSDC (Fin 0) then Inr ([], [])
          else
            let totalVaultValueUSD =
                  (if fle totalVaultValueUSD (Fin 0) \<and> fless (Fin 0) initialLiquidUSDC
                   then initialLiquidUSDC else totalVaultValueUSD)
            in case validateAndGetUSDCToken (the tokenDataMap) of
                 Inl e \<Rightarrow> Inl e
               | Inr usdcToken \<Rightarrow>
                   (case analyzeRequiredChanges currentPositions (the targetAllocations)
                           totalVaultValueUSD (the poolsData) scoringParams of
                      Inl e \<Rightarrow> Inl e
                    | Inr (highLevelWithdrawals, highLevelDeposits) \<Rightarrow>
                        (case applyRebalancingLimits highLevelWithdrawals highLevelDeposits
                                totalVaultValueUSD scoringParams of
                           (highLevelWithdrawals, highLevelDeposits) \<Rightarrow>
                             (case processWithdrawals ext highLevelWithdrawals currentPositions
                                     (the poolsData) initialLiquidUSDC usdcToken scoringParams of
                                Inl e \<Rightarrow> Inl e
                              | Inr (withdrawalActions, newLiquidUSDC, tempNonUSDCAssets) \<Rightarrow>
                                  (case processConsolidation ext tempNonUSDCAssets newLiquidUSDC
                                          usdcToken scoringParams of
                                     Inl e \<Rightarrow> Inl e
                                   | Inr (consolidationActions, finalLiquidUSDC) \<Rightarrow>
                                       (case processDeposits ext highLevelDeposits (the poolsData)
                                               finalLiquidUSDC usdcToken scoringParams of
                                          Inl e \<Rightarrow> Inl e
                                        | Inr depositActions \<Rightarrow>
                                            Inr (withdrawalActions @ consolidationActions,
                                                 depositActions)))))))"

subsection \<open>A concrete vault for running the planner\<close>

text \<open>
  One position of 1000000 LP shares worth 2000 USD in pool 7, 2000 USDC liquid, and a
  target that moves everything to pool 8. A quarter of the vault value may be withdrawn
  per cycle; 50 USDC stay liquid. The simulations are linear and without slippage: an LP
  share of any pool redeems 2000 micro-USDC.
\<close>

definition usdcToken0 :: Token where
  "usdcToken0 = zeroToken\<lparr>Symbol := ''USDC'', TokenDenom := ''uusdc'', IBCDenom := ''ibc/usdc'',
                           Precision := 6, PriceUSD := Fin 1\<rparr>"

definition planParams0 :: ScoringParameters where
  "planParams0 = zeroParams\<lparr>MaxPools := 2, MinAllocation := Fin (1 / 10), MaxAllocation := Fin 1,
       RebalanceThresholdAmount := Fin 5, MaxRebalancePercentPerCycle := Fin 25,
       MinLiquidUSDCBuffer := Fin 50, SmartShieldSlippagePercent := Fin 1,
       NormalPoolSlippagePercent := Fin 3, ViableSwapReductionFactor := Fin (9 / 10),
       ViableDepositReductionFactor := Fin (9 / 10)\<rparr>"

definition externals0 :: Externals where
  "externals0 =
     \<lparr>SimulateSwap = (\<lambda>amount denomIn denomOut.
         Inr \<lparr>TokenOutAmount = amount, SwapSlippage = Fin 0\<rparr>),
      SimulateJoinPool = (\<lambda>poolID amountsIn.
         Inr \<lparr>ShareAmountOut = \<lparr>Denom = ''lp'', Amount = sum_list (map Amount amountsIn) div 2000\<rparr>,
              JoinSlippage = Fin 0\<rparr>),
      SimulateLeavePool = (\<lambda>poolID sharesIn denomOut.
         Inr \<lparr>AmountsOut = [\<lparr>Denom = denomOut, Amount = sharesIn * 2000\<rparr>], ExitSlippage = Fin 0\<rparr>),
      sortWithdrawals = sort_key (\<lambda>w. val (DeltaUSD w)),
      sortDeposits = (\<lambda>ds. rev (sort_key (\<lambda>w. val (DeltaUSD w)) ds))\<rparr>"

definition pools0 :: "PoolID \<rightharpoonup> Pool" where
  "pools0 = [7 \<mapsto> (poolOf 7 ''uatom'' ''uusdc'')\<lparr>TvlUSD := Fin 1000000, TotalShares := 500000000\<rparr>,
             8 \<mapsto> (poolOf 8 ''uelys'' ''uusdc'')\<lparr>TvlUSD := Fin 1000000, TotalShares := 500000000\<rparr>]"

definition positions0 :: "Position list" where
  "positions0 = [\<lparr>PositionPoolID = 7, LPShares = 1000000, AgeDays = 10, EstimatedValue = Fin 2000\<rparr>]"

text \<open>
  The USD value that the emitted \<^verbatim>\<open>WithdrawLP\<close> actions take out of pools: their expected
  USDC amounts, in whole USDC. The cap of the specification:
  \<open>total_value \<cdot> max_withdraw_pct_per_cycle / 100\<close>.
\<close>

definition withdrawnUSD :: "Token \<Rightarrow> SubAction list \<Rightarrow> real" where
  "withdrawnUSD usdcToken actions =
     (\<Sum>a \<leftarrow> filter (\<lambda>a. Type a = SubActionWithdrawLP) actions.
        \<Sum>c \<leftarrow> filter (\<lambda>c. Denom c = IBCDenom usdcToken) (ExpectedAmountsOut a).
          of_int (Amount c) / 10 ^ nat (Precision usdcToken))"

definition maxWithdrawUSD :: "f64 \<Rightarrow> ScoringParameters \<Rightarrow> real" where
  "maxWithdrawUSD totalVaultValueUSD scoringParams =
     val totalVaultValueUSD * (val (MaxRebalancePercentPerCycle scoringParams) / 100)"

section \<open>Pool scoring (internal/analyzer, CalculatePoolScore)\<close>

text \<open>\<^verbatim>\<open>x != y\<close> on float64 is \<open>\<not> feq x y\<close>: NaN differs from everything, itself included.\<close>

fun feq :: "f64 \<Rightarrow> f64 \<Rightarrow> bool" where
  "feq (Fin a) (Fin b) = (a = b)"
| "feq PInf PInf = True"
| "feq NInf NInf = True"
| "feq _ _ = False"

definition isFinite :: "f64 \<Rightarrow> bool" where
  "isFinite x = (\<not> IsNaN x \<and> \<not> IsInf x)"

definition ValidatePoolData :: "Pool \<Rightarrow> error + unit" where
  "ValidatePoolData pool =
     (if ID pool = 0 then Inl (Failure ''pool ID cannot be zero'')
      else if Symbol (TokenA pool) = [] then Inl (Failure ''TokenA symbol cannot be empty'')
      else if Symbol (TokenB pool) = [] then Inl (Failure ''TokenB symbol cannot be empty'')
      else if fless (TvlUSD pool) (Fin 0) then Inl (Failure ''TVL cannot be negative'')
      else if fless (Volume7dUSD pool) (Fin 0) then Inl (Failure ''7-day volume cannot be negative'')
      else if IsNaN (EdenRewardsAPR pool) \<or> IsInf (EdenRewardsAPR pool) then
        Inl (Failure ''eden rewards apr must be finite'')
      else if IsNaN (UsdcFeesAPR pool) \<or> IsInf (UsdcFeesAPR pool) then
        Inl (Failure ''usdc fees apr must be finite'')
      else if IsNaN (PriceImpactAPR pool) \<or> IsInf (PriceImpactAPR pool) then
        Inl (Failure ''price impact apr must be finite'')
      else if fless (Volatility (TokenA pool)) (Fin 0) then
        Inl (Failure ''TokenA volatility cannot be negative'')
      else if IsNaN (Volatility (TokenA pool)) \<or> IsInf (Volatility (TokenA pool)) then
        Inl (Failure ''TokenA volatility must be finite'')
      else if AgeInDays pool < 0 then Inl (Failure ''pool age cannot be negative'')
      else
        let totalWeight = fadd (WeightA pool) (WeightB pool) in
        if fle totalWeight (Fin 0) \<or> fless (Fin (1 / 100)) (fabs (fsub totalWeight (Fin 1))) then
          Inl (Failure ''pool weights must be positive and sum to approximately 1.0'')
        else if \<not> feq (SentimentScore pool) (Fin 0)
                \<and> (fless (SentimentScore pool) (Fin (- 1)) \<or> fless (Fin 1) (SentimentScore pool)) then
          Inl (Failure ''sentiment score must be between -1.0 and 1.0'')
        else if HasCurrentPosition pool \<and> CurrentPositionAgeDays pool < 0 then
          Inl (Failure ''current position age cannot be negative when position exists'')
        else Inr ())"

definition ValidateScoringParameters :: "ScoringParameters \<Rightarrow> error + unit" where
  "ValidateScoringParameters params =
     (if fless (EdenWeight params) (Fin 0) \<or> fless (UsdcFeeWeight params) (Fin 0)
         \<or> fless (PriceImpactWeight params) (Fin 0) then
        Inl (Failure ''APR weights cannot be negative'')
      else if fle (fadd (fadd (EdenWeight params) (UsdcFeeWeight params)) (PriceImpactWeight params))
                (Fin 0) then
        Inl (Failure ''total APR weights must be positive'')
      else if list_ex (\<lambda>coeff. IsNaN coeff \<or> IsInf coeff)
                [AprCoefficient params, TradingVolumeCoefficient params, IlRiskCoefficient params,
                 VolatilityCoefficient params, TvlCoefficient params, NewPoolCoefficient params,
                 ContinuityCoefficient params, SmartShieldBonus params,
                 SentimentImpactFactor params] then
        Inl (Failure ''coefficient must be finite'')
      else if fless (MinTVLThreshold params) (Fin 0) then
        Inl (Failure ''MinTVLThreshold cannot be negative'')
      else if PoolMaturityDays params < 0 then Inl (Failure ''PoolMaturityDays cannot be negative'')
      else if ContinuityLookbackDays params < 0 then
        Inl (Failure ''ContinuityLookbackDays cannot be negative'')
      else if fle (IlHoldingPeriodYears params) (Fin 0) then
        Inl (Failure ''IlHoldingPeriodYears must be positive'')
      else if fle (IlConfidenceFactor params) (Fin 0) then
        Inl (Failure ''IlConfidenceFactor must be positive'')
      else if fless (SmartShieldReductionFactor params) (Fin 0)
              \<or> fless (Fin 1) (SmartShieldReductionFactor params) then
        Inl (Failure ''SmartShieldReductionFactor must be between 0 and 1'')
      else Inr ())"

definition CalculateSmartShieldBonus :: "Pool \<Rightarrow> ScoringParameters \<Rightarrow> error + f64" where
  "CalculateSmartShieldBonus pool params =
     (if IsNaN (SmartShieldBonus params) \<or> IsInf (SmartShieldBonus params) then
        Inl (Failure ''SmartShieldBonus parameter is not finite'')
      else if IsSmartShielded pool then Inr (SmartShieldBonus params)
      else Inr (Fin 0))"

definition CalculateRewardScore :: "f64 \<Rightarrow> Pool \<Rightarrow> ScoringParameters \<Rightarrow> error + f64" where
  "CalculateRewardScore weightedAPR pool params =
     (if IsNaN weightedAPR \<or> IsInf weightedAPR then Inl (Failure ''weighted APR is not finite'')
      else
        let aprScorePart = fmul (AprCoefficient params) weightedAPR in
        if IsNaN aprScorePart \<or> IsInf aprScorePart then
          Inl (Failure ''APR score component calculation resulted in non-finite value'')
        else if fless (Volume7dUSD pool) (Fin 0) then Inl (Failure ''volume cannot be negative'')
        else
          (case (if feq (Volume7dUSD pool) (Fin 0) then Inr (Fin 0)
                 else
                   let logVolume = flog10 (Volume7dUSD pool) in
                   if IsNaN logVolume \<or> IsInf logVolume then
                     Inl (Failure ''log volume calculation resulted in non-finite value'')
                   else
                     let volumeScorePart = fmul (TradingVolumeCoefficient params) logVolume in
                     if IsNaN volumeScorePart \<or> IsInf volumeScorePart then
                       Inl (Failure ''volume score component calculation resulted in non-finite value'')
                     else Inr volumeScorePart) of
             Inl e \<Rightarrow> Inl e
           | Inr volumeScorePart \<Rightarrow>
               let totalRewardScore = fadd aprScorePart volumeScorePart in
               if IsNaN totalRewardScore \<or> IsInf totalRewardScore then
                 Inl (Failure ''total reward score calculation resulted in non-finite value'')
               else Inr totalRewardScore))"

definition CalculateContinuityBonus :: "Pool \<Rightarrow> ScoringParameters \<Rightarrow> error + f64" where
  "CalculateContinuityBonus pool params =
     (if \<not> HasCurrentPosition pool then Inr (Fin 0)
      else if ContinuityLookbackDays params \<le> 0 then
        Inl (Failure ''ContinuityLookbackDays must be positive'')
      else if CurrentPositionAgeDays pool < 0 then
        Inl (Failure ''CurrentPositionAgeDays cannot be negative when position exists'')
      else if IsNaN (ContinuityCoefficient params) \<or> IsInf (ContinuityCoefficient params) then
        Inl (Failure ''ContinuityCoefficient is not finite'')
      else
        let scale = fmin (Fin 1) (fdiv (Fin (of_int (CurrentPositionAgeDays pool)))
                                       (Fin (of_int (ContinuityLookbackDays params))))
        in if IsNaN scale \<or> IsInf scale then
             Inl (Failure ''scale calculation resulted in non-finite value'')
           else
             let continuityBonus = fmul (ContinuityCoefficient params) scale in
             if IsNaN continuityBonus \<or> IsInf continuityBonus then
               Inl (Failure ''continuity bonus calculation resulted in non-finite value'')
             else Inr continuityBonus)"

definition CalculateTotalBonusScore :: "f64 \<Rightarrow> f64 \<Rightarrow> error + f64" where
  "CalculateTotalBonusScore shieldBonus continuityBonus =
     (if IsNaN shieldBonus \<or> IsInf shieldBonus then Inl (Failure ''shield bonus is not finite'')
      else if IsNaN continuityBonus \<or> IsInf continuityBonus then
        Inl (Failure ''continuity bonus is not finite'')
      else
        let totalBonus = fadd shieldBonus continuityBonus in
        if IsNaN totalBonus \<or> IsInf totalBonus then
          Inl (Failure ''total bonus calculation resulted in non-finite value'')
        else Inr totalBonus)"

definition CalculateWeightedAPR :: "Pool \<Rightarrow> ScoringParameters \<Rightarrow> error + f64" where
  "CalculateWeightedAPR pool params =
     (if IsNaN (EdenRewardsAPR pool) \<or> IsInf (EdenRewardsAPR pool) then
        Inl (Failure ''EdenRewardsAPR is not finite'')
      else if IsNaN (UsdcFeesAPR pool) \<or> IsInf (UsdcFeesAPR pool) then
        Inl (Failure ''UsdcFeesAPR is not finite'')
      else if IsNaN (PriceImpactAPR pool) \<or> IsInf (PriceImpactAPR pool) then
        Inl (Failure ''PriceImpactAPR is not finite'')
      else if IsNaN (EdenWeight params) \<or> IsInf (EdenWeight params) then
        Inl (Failure ''EdenWeight is not finite'')
      else if IsNaN (UsdcFeeWeight params) \<or> IsInf (UsdcFeeWeight params) then
        Inl (Failure ''UsdcFeeWeight is not finite'')
      else if IsNaN (PriceImpactWeight params) \<or> IsInf (PriceImpactWeight params) then
        Inl (Failure ''PriceImpactWeight is not finite'')
      else
        let edenComponent = fmul (EdenRewardsAPR pool) (EdenWeight params) in
        if IsNaN edenComponent \<or> IsInf edenComponent then
          Inl (Failure ''eden component calculation resulted in non-finite value'')
        else
          let usdcComponent = fmul (UsdcFeesAPR pool) (UsdcFeeWeight params) in
          if IsNaN usdcComponent \<or> IsInf usdcComponent then
            Inl (Failure ''usdc component calculation resulted in non-finite value'')
          else
            let impactComponent = fmul (PriceImpactAPR pool) (PriceImpactWeight params) in
            if IsNaN impactComponent \<or> IsInf impactComponent then
              Inl (Failure ''price impact component calculation resulted in non-finite value'')
            else
              let totalWeight = fadd (fadd (EdenWeight params) (UsdcFeeWeight params))
                                     (PriceImpactWeight params)
              in if fle totalWeight (Fin 0) then
                   Inl (Failure ''total APR weight is non-positive, cannot calculate weighted average'')
                 else if IsNaN totalWeight \<or> IsInf totalWeight then
                   Inl (Failure ''total weight calculation resulted in non-finite value'')
                 else
                   let weightedAPR =
                         fdiv (fadd (fadd edenComponent usdcComponent) impactComponent) totalWeight
                   in if IsNaN weightedAPR \<or> IsInf weightedAPR then
                        Inl (Failure ''weighted APR calculation resulted in non-finite value'')
                      else Inr weightedAPR)"

definition CalculateRiskScore ::
  "f64 \<Rightarrow> f64 \<Rightarrow> f64 \<Rightarrow> Pool \<Rightarrow> ScoringParameters \<Rightarrow> error + f64" where
  "CalculateRiskScore ilRisk agePenalty sentimentAdjustment pool params =
     (if list_ex (\<lambda>input. IsNaN input \<or> IsInf input) [ilRisk, agePenalty, sentimentAdjustment] then
        Inl (Failure ''input is not finite'')
      else if IsNaN (IlRiskCoefficient params) \<or> IsInf (IlRiskCoefficient params) then
        Inl (Failure ''IlRiskCoefficient is not finite'')
      else if IsNaN (VolatilityCoefficient params) \<or> IsInf (VolatilityCoefficient params) then
        Inl (Failure ''VolatilityCoefficient is not finite'')
      else
        let ilPenalty = fmul (IlRiskCoefficient params) ilRisk in
        if IsNaN ilPenalty \<or> IsInf ilPenalty then
          Inl (Failure ''IL penalty calculation resulted in non-finite value'')
        else
          let volatilityPenalty = fmul (VolatilityCoefficient params) (Volatility (TokenA pool)) in
          if IsNaN volatilityPenalty \<or> IsInf volatilityPenalty then
            Inl (Failure ''volatility penalty calculation resulted in non-finite value'')
          else
            let totalRiskScore =
                  fadd (fadd (fadd ilPenalty volatilityPenalty) agePenalty) sentimentAdjustment
            in if IsNaN totalRiskScore \<or> IsInf totalRiskScore then
                 Inl (Failure ''total risk score calculation resulted in non-finite value'')
               else Inr totalRiskScore)"

definition CalculateLiquidityScore :: "Pool \<Rightarrow> ScoringParameters \<Rightarrow> error + f64" where
  "CalculateLiquidityScore pool params =
     (if IsNaN (MinTVLThreshold params) \<or> IsInf (MinTVLThreshold params) then
        Inl (Failure ''MinTVLThreshold is not finite'')
      else if IsNaN (TvlCoefficient params) \<or> IsInf (TvlCoefficient params) then
        Inl (Failure ''TvlCoefficient is not finite'')
      else if IsNaN (TvlUSD pool) \<or> IsInf (TvlUSD pool) then
        Inl (Failure ''pool TVL is not finite'')
      else if fle (MinTVLThreshold params) (Fin 0) then
        Inl (Failure ''MinTVLThreshold must be positive'')
      else if fle (TvlUSD pool) (Fin 0) then Inl (Failure ''pool TVL must be positive'')
      else
        let logInput = fmax (MinTVLThreshold params) (TvlUSD pool) in
        if fle logInput (Fin 0) then Inl (Failure ''log input must be positive'')
        else
          let logTvl = flog10 logInput in
          if IsNaN logTvl \<or> IsInf logTvl then
            Inl (Failure ''log TVL calculation resulted in non-finite value'')
          else
            let liquidityScore = fmul (TvlCoefficient params) logTvl in
            if IsNaN liquidityScore \<or> IsInf liquidityScore then
              Inl (Failure ''liquidity score calculation resulted in non-finite value'')
            else Inr liquidityScore)"

definition CalculateILRisk :: "f64 \<Rightarrow> bool \<Rightarrow> ScoringParameters \<Rightarrow> error + f64" where
  "CalculateILRisk annualizedVolatility isSmartShielded params =
     (if IsNaN annualizedVolatility \<or> IsInf annualizedVolatility then
        Inl (Failure ''annualized volatility is not finite'')
      else if fless annualizedVolatility (Fin 0) then
        Inl (Failure ''annualized volatility cannot be negative'')
      else if IsNaN (IlHoldingPeriodYears params) \<or> IsInf (IlHoldingPeriodYears params) then
        Inl (Failure ''IlHoldingPeriodYears is not finite'')
      else if IsNaN (IlConfidenceFactor params) \<or> IsInf (IlConfidenceFactor params) then
        Inl (Failure ''IlConfidenceFactor is not finite'')
      else if IsNaN (SmartShieldReductionFactor params) \<or> IsInf (SmartShieldReductionFactor params) then
        Inl (Failure ''SmartShieldReductionFactor is not finite'')
      else if feq annualizedVolatility (Fin 0) then Inr (Fin 0)
      else
        let variance = fmul annualizedVolatility annualizedVolatility in
        if IsNaN variance \<or> IsInf variance then
          Inl (Failure ''variance calculation resulted in non-finite value'')
        else
          let timeScaledVariance = fmul variance (IlHoldingPeriodYears params) in
          if IsNaN timeScaledVariance \<or> IsInf timeScaledVariance then
            Inl (Failure ''time-scaled variance calculation resulted in non-finite value'')
          else
            let ilRiskBase = fmul (IlConfidenceFactor params) timeScaledVariance in
            if IsNaN ilRiskBase \<or> IsInf ilRiskBase then
              Inl (Failure ''base IL risk calculation resulted in non-finite value'')
            else if isSmartShielded \<and> fless (Fin 0) (SmartShieldReductionFactor params) then
              let reductionMultiplier = fsub (Fin 1) (SmartShieldReductionFactor params) in
              if fless reductionMultiplier (Fin 0) then
                Inl (Failure ''smart shield reduction factor results in negative multiplier'')
              else
                let ilRiskFinal = fmul ilRiskBase reductionMultiplier in
                if IsNaN ilRiskFinal \<or> IsInf ilRiskFinal then
                  Inl (Failure ''smart shield reduction calculation resulted in non-finite value'')
                else Inr ilRiskFinal
            else Inr ilRiskBase)"

definition CalculateAgePenalty :: "Pool \<Rightarrow> ScoringParameters \<Rightarrow> error + f64" where
  "CalculateAgePenalty pool params =
     (if IsNaN (NewPoolCoefficient params) \<or> IsInf (NewPoolCoefficient params) then
        Inl (Failure ''NewPoolCoefficient is not finite'')
      else if PoolMaturityDays params < 0 then Inl (Failure ''PoolMaturityDays cannot be negative'')
      else if PoolMaturityDays params = 0 then Inr (Fin 0)
      else if AgeInDays pool < 0 then Inl (Failure ''pool age cannot be negative'')
      else if PoolMaturityDays params \<le> AgeInDays pool then Inr (Fin 0)
      else
        let maturityScale = fdiv (Fin (of_int (AgeInDays pool)))
                                 (Fin (of_int (PoolMaturityDays params)))
        in if IsNaN maturityScale \<or> IsInf maturityScale then
             Inl (Failure ''maturity scale calculation resulted in non-finite value'')
           else
             let penaltyScale = fsub (Fin 1) maturityScale in
             if IsNaN penaltyScale \<or> IsInf penaltyScale then
               Inl (Failure ''penalty scale calculation resulted in non-finite value'')
             else
               let agePenalty = fmul (NewPoolCoefficient params) penaltyScale in
               if IsNaN agePenalty \<or> IsInf agePenalty then
                 Inl (Failure ''age penalty calculation resulted in non-finite value'')
               else Inr agePenalty)"

definition CalculateSentimentAdjustment :: "Pool \<Rightarrow> ScoringParameters \<Rightarrow> error + f64" where
  "CalculateSentimentAdjustment pool params =
     (if IsNaN (SentimentScore pool) \<or> IsInf (SentimentScore pool) then
        Inl (Failure ''sentiment score is not finite'')
      else if IsNaN (SentimentImpactFactor params) \<or> IsInf (SentimentImpactFactor params) then
        Inl (Failure ''sentiment impact factor is not finite'')
      else if feq (SentimentScore pool) (Fin 0) \<or> feq (SentimentImpactFactor params) (Fin 0) then
        Inr (Fin 0)
      else
        let sentimentAdjustment = fmul (SentimentScore pool) (SentimentImpactFactor params) in
        if IsNaN sentimentAdjustment \<or> IsInf sentimentAdjustment then
          Inl (Failure ''sentiment adjustment calculation resulted in non-finite value'')
        else Inr sentimentAdjustment)"

text \<open>
  \<^verbatim>\<open>CalculatePoolScore\<close>. It reads the pool and the parameters and nothing else (the logger
  is written to, never read).
\<close>

definition CalculatePoolScore :: "Pool \<Rightarrow> ScoringParameters \<Rightarrow> error + PoolScoreResult" where
  "CalculatePoolScore pool params =
     (case ValidatePoolData pool of
        Inl e \<Rightarrow> Inl ErrInvalidPoolData
      | Inr _ \<Rightarrow>
     (case ValidateScoringParameters params of
        Inl e \<Rightarrow> Inl ErrInvalidScoringParameters
      | Inr _ \<Rightarrow>
     (case CalculateWeightedAPR pool params of
        Inl e \<Rightarrow> Inl e
      | Inr weightedAPR \<Rightarrow>
     (case CalculateRewardScore weightedAPR pool params of
        Inl e \<Rightarrow> Inl e
      | Inr rewardScoreComponent \<Rightarrow>
     (case CalculateAgePenalty pool params of
        Inl e \<Rightarrow> Inl e
      | Inr agePenalty \<Rightarrow>
     (case CalculateSentimentAdjustment pool params of
        Inl e \<Rightarrow> Inl e
      | Inr sentimentAdjustment \<Rightarrow>
     (case CalculateILRisk (Volatility (TokenA pool)) (IsSmartShielded pool) params of
        Inl e \<Rightarrow> Inl e
      | Inr ilRisk \<Rightarrow>
     (case CalculateRiskScore ilRisk agePenalty sentimentAdjustment pool params of
        Inl e \<Rightarrow> Inl e
      | Inr riskScoreComponent \<Rightarrow>
     (case CalculateLiquidityScore pool params of
        Inl e \<Rightarrow> Inl e
      | Inr liquidityScoreComponent \<Rightarrow>
     (case CalculateSmartShieldBonus pool params of
        Inl e \<Rightarrow> Inl e
      | Inr shieldBonus \<Rightarrow>
     (case CalculateContinuityBonus pool params of
        Inl e \<Rightarrow> Inl e
      | Inr continuityBonus \<Rightarrow>
     (case CalculateTotalBonusScore shieldBonus continuityBonus of
        Inl e \<Rightarrow> Inl e
      | Inr bonusScoreComponent \<Rightarrow>
        let finalScore = fadd (fadd (fadd rewardScoreComponent riskScoreComponent)
                                    liquidityScoreComponent) bonusScoreComponent
        in if IsNaN finalScore \<or> IsInf finalScore then
             Inl (Failure ''final score calculation resulted in NaN or Inf'')
           else if list_ex (\<lambda>comp. IsNaN comp \<or> IsInf comp)
                     [rewardScoreComponent, riskScoreComponent, liquidityScoreComponent,
                      bonusScoreComponent] then
             Inl (Failure ''component calculation resulted in NaN or Inf'')
           else
             Inr \<lparr>PoolID = ID pool, Score = finalScore,
                  Components =
                    \<lparr>WeightedAPR = weightedAPR, ILRisk = ilRisk,
                     AnnualizedVolatility = Volatility (TokenA pool),
                     RewardScoreComponent = rewardScoreComponent,
                     RiskScoreComponent = riskScoreComponent,
                     TvlScoreComponent = liquidityScoreComponent,
                     BonusScoreComponent = bonusScoreComponent,
                     SentimentAdjustment = sentimentAdjustment\<rparr>\<rparr>))))))))))))"

text \<open>A pool and parameters on which the score can be computed by hand (0.85).\<close>

definition scoredPool0 :: Pool where
  "scoredPool0 =
     zeroPool\<lparr>ID := 7,
       TokenA := zeroToken\<lparr>Symbol := ''ATOM'', TokenDenom := ''uatom'', Volatility := Fin (1 / 2)\<rparr>,
       TokenB := zeroToken\<lparr>Symbol := ''USDC'', TokenDenom := ''uusdc''\<rparr>,
       WeightA := Fin (1 / 2), WeightB := Fin (1 / 2), TvlUSD := Fin 10, Volume7dUSD := Fin 10,
       EdenRewardsAPR := Fin (1 / 10), UsdcFeesAPR := Fin (1 / 10), PriceImpactAPR := Fin (1 / 10),
       AgeInDays := 30\<rparr>"

definition scoreParams0 :: ScoringParameters where
  "scoreParams0 =
     zeroParams\<lparr>AprCoefficient := Fin 1, TradingVolumeCoefficient := Fin 1, EdenWeight := Fin 1,
       UsdcFeeWeight := Fin 1, PriceImpactWeight := Fin 1, IlRiskCoefficient := Fin (- 1),
       VolatilityCoefficient := Fin (- 1), NewPoolCoefficient := Fin (- 1), PoolMaturityDays := 60,
       IlHoldingPeriodYears := Fin 1, IlConfidenceFactor := Fin 1,
       SmartShieldReductionFactor := Fin (1 / 2), TvlCoefficient := Fin 1, MinTVLThreshold := Fin 10,
       SmartShieldBonus := Fin 1, ContinuityCoefficient := Fin 1, ContinuityLookbackDays := 10\<rparr>"

section \<open>Cycle orchestrator (internal/avm/avm.go)\<close>

text \<open>
  The snapshot types. Names that are fields of earlier records carry a prefix
  (\<open>SnapshotTimestamp\<close>, \<open>SnapshotPoolID\<close>, \<open>TxSuccess\<close>, ...). LP shares are kept as
  integers (the source stores their decimal string).
\<close>

record PositionSnapshot =
  SnapshotPoolID :: PoolID
  SnapshotLPShares :: int
  EstimatedValueUSD :: f64
  AllocationPercent :: f64
  SnapshotAgeDays :: int
  PoolTokenA :: string
  PoolTokenB :: string
  PoolTVL :: f64
  SnapshotPoolScore :: f64

record ActionPlan =
  GoalDescription :: string
  SubActions :: "SubAction list"
  EstimatedNetUSDChange :: f64

record ActionReceipt =
  OriginalSubAction :: SubAction
  Success :: bool
  Message :: string
  ReceiptTimestamp :: int
  ActualAmountUSD :: f64

record TransactionResult =
  TxHash :: string
  GasUsed :: int
  GasWanted :: int
  GasFeeUSD :: f64
  TxSuccess :: bool
  ErrorMessage :: string

record CycleSnapshot =
  CycleNumber :: int
  SnapshotTimestamp :: int
  ScoringParamsID :: "int option"
  InitialVaultValueUSD :: f64
  InitialLiquidUSDC :: f64
  InitialPositions :: "PositionSnapshot list"
  TargetAllocations :: "f64 gomap"
  CyclePlan :: ActionPlan
  FinalVaultValueUSD :: f64
  FinalLiquidUSDC :: f64
  FinalPositions :: "PositionSnapshot list"
  TransactionHashes :: "string list"
  ActionReceipts :: "ActionReceipt list"
  AllocationEfficiencyPercent :: f64
  NetReturnUSD :: f64
  TotalSlippageUSD :: f64
  TotalGasFeeUSD :: f64

text \<open>
  Everything a cycle reads from outside: \<open>None\<close> is a returned error. The vault is read at
  six places of a cycle (0: step 2, 1 and 2: before and after the withdrawals, 3 and 4:
  before and after the deposits, 5: the final state), so its reads take the place as
  argument. \<open>SaveSucceeds\<close> tells whether the database insert works. The computation of a
  receipt's \<^verbatim>\<open>ActualAmountUSD\<close> (three helper methods that compare the vault states) is not
  modelled; it is the field \<open>ActualAmount\<close>.
\<close>

record World =
  TradableDenoms :: "string list option"
  FetchPools :: "string list \<Rightarrow> Pool list option"
  FetchTokens :: "(string \<times> Token) list option"
  VaultPoolPositions :: "nat \<Rightarrow> Position list option"
  VaultLiquidUSDC :: "nat \<Rightarrow> f64 option"
  VaultTotalValue :: "nat \<Rightarrow> f64 option"
  ExecuteActionPlan :: "SubAction list \<Rightarrow> TransactionResult option"
  IncrementCycleNumber :: "int option"
  ActiveScoringParametersID :: "int option"
  SaveSucceeds :: bool
  Now :: int
  CycleParams :: ScoringParameters
  SelectSort :: "PoolScoreResult list \<Rightarrow> PoolScoreResult list"
  PlannerExternals :: Externals
  NodeRPC :: string
  ActualAmount :: "SubAction \<Rightarrow> Position list \<Rightarrow> Position list \<Rightarrow> f64 \<Rightarrow> f64 \<Rightarrow> f64"

text \<open>\<^verbatim>\<open>CalculatePoolScores\<close>: every pool is scored; the first failure fails the batch.\<close>

fun scoreAll :: "Pool list \<Rightarrow> ScoringParameters \<Rightarrow> error + PoolScoreResult list" where
  "scoreAll [] params = Inr []"
| "scoreAll (pool # rest) params =
     (case CalculatePoolScore pool params of
        Inl e \<Rightarrow> Inl e
      | Inr result \<Rightarrow>
          (case scoreAll rest params of
             Inl e \<Rightarrow> Inl e
           | Inr results \<Rightarrow> Inr (result # results)))"

definition CalculatePoolScores :: "Pool list \<Rightarrow> ScoringParameters \<Rightarrow> error + PoolScoreResult list" where
  "CalculatePoolScores pools params =
     (if pools = [] then Inl (Failure ''no pools provided for scoring'')
      else case ValidateScoringParameters params of
        Inl e \<Rightarrow> Inl ErrInvalidScoringParameters
      | Inr _ \<Rightarrow> scoreAll pools params)"

definition convertToPositionSnapshots ::
  "Position list \<Rightarrow> (PoolID \<rightharpoonup> Pool) \<Rightarrow> f64 \<Rightarrow> PositionSnapshot list" where
  "convertToPositionSnapshots positions poolsDataMap totalVaultValue =
     map (\<lambda>pos.
        \<lparr>SnapshotPoolID = PositionPoolID pos,
         SnapshotLPShares = LPShares pos,
         EstimatedValueUSD = EstimatedValue pos,
         AllocationPercent =
           (if fless (Fin 0) totalVaultValue
            then fmul (fdiv (EstimatedValue pos) totalVaultValue) (Fin 100) else Fin 0),
         SnapshotAgeDays = AgeDays pos,
         PoolTokenA = (case poolsDataMap (PositionPoolID pos) of
                         Some pool \<Rightarrow> Symbol (TokenA pool) | None \<Rightarrow> []),
         PoolTokenB = (case poolsDataMap (PositionPoolID pos) of
                         Some pool \<Rightarrow> Symbol (TokenB pool) | None \<Rightarrow> []),
         PoolTVL = (case poolsDataMap (PositionPoolID pos) of
                      Some pool \<Rightarrow> TvlUSD pool | None \<Rightarrow> Fin 0),
         SnapshotPoolScore = (case poolsDataMap (PositionPoolID pos) of
                                Some pool \<Rightarrow> Score (PoolScore pool) | None \<Rightarrow> Fin 0)\<rparr>)
       positions"

definition calculateAllocationEfficiency :: "PositionSnapshot list \<Rightarrow> f64 gomap \<Rightarrow> f64" where
  "calculateAllocationEfficiency finalPositions targetAllocations =
     (if targetAllocations = [] then Fin 100
      else
        let actualAllocations =
              foldl (\<lambda>m pos. AList.update (SnapshotPoolID pos)
                                 (fdiv (AllocationPercent pos) (Fin 100)) m) [] finalPositions;
            totalDifference =
              foldl (\<lambda>total (poolID, targetPercent).
                       let actualPercent = (case map_of actualAllocations poolID of
                                              Some a \<Rightarrow> a | None \<Rightarrow> Fin 0);
                           difference = fsub targetPercent actualPercent;
                           difference = (if fless difference (Fin 0) then fneg difference
                                         else difference)
                       in fadd total difference) (Fin 0) targetAllocations;
            efficiency = fsub (Fin 100) (fmul totalDifference (Fin 100))
        in if fless efficiency (Fin 0) then Fin 0 else efficiency)"

definition finalizeFailedSnapshot ::
  "CycleSnapshot \<Rightarrow> f64 \<Rightarrow> f64 \<Rightarrow> Position list \<Rightarrow> (PoolID \<rightharpoonup> Pool) \<Rightarrow> CycleSnapshot" where
  "finalizeFailedSnapshot snapshot totalVaultValue liquidUSDC positions poolsDataMap =
     snapshot\<lparr>FinalVaultValueUSD := totalVaultValue,
              FinalLiquidUSDC := liquidUSDC,
              FinalPositions := convertToPositionSnapshots positions poolsDataMap totalVaultValue,
              AllocationEfficiencyPercent := Fin 0,
              NetReturnUSD := Fin 0,
              TotalSlippageUSD := Fin 0,
              TotalGasFeeUSD := Fin 0\<rparr>"

text \<open>\<^verbatim>\<open>saveCycleSnapshot\<close>: the persisted snapshots are a list; a failed insert is logged and lost.\<close>

definition saveCycleSnapshot :: "World \<Rightarrow> CycleSnapshot \<Rightarrow> CycleSnapshot list \<Rightarrow> CycleSnapshot list" where
  "saveCycleSnapshot world snapshot db = (if SaveSucceeds world then db @ [snapshot] else db)"

definition getCycleNumber :: "World \<Rightarrow> int" where
  "getCycleNumber world =
     (case IncrementCycleNumber world of
        Some cycleNumber \<Rightarrow> cycleNumber
      | None \<Rightarrow> Now world mod 1000000)"

definition captureVaultState :: "World \<Rightarrow> nat \<Rightarrow> (Position list \<times> f64) option" where
  "captureVaultState world place =
     (case VaultPoolPositions world place of
        None \<Rightarrow> None
      | Some positions \<Rightarrow>
          (case VaultLiquidUSDC world place of
             None \<Rightarrow> None
           | Some liquidUSDC \<Rightarrow> Some (positions, liquidUSDC)))"

text \<open>
  One execution phase of step 5 (withdrawals at places 1 and 2, deposits at places 3 and
  4): \<open>None\<close> when the transaction fails, otherwise the snapshot with the hash and the
  receipts added, and the gas fee.
\<close>

definition executePhase ::
  "World \<Rightarrow> nat \<Rightarrow> string \<Rightarrow> SubAction list \<Rightarrow> Position list \<Rightarrow> f64 \<Rightarrow> CycleSnapshot
   \<Rightarrow> (CycleSnapshot \<times> f64) option" where
  "executePhase world place message actions currentPositions liquidUSDC snapshot =
     (let (prePositions, preUSDC) =
            (case captureVaultState world place of
               Some st \<Rightarrow> st | None \<Rightarrow> (currentPositions, liquidUSDC))
      in case ExecuteActionPlan world actions of
           None \<Rightarrow> None
         | Some txResult \<Rightarrow>
             let snapshot = snapshot\<lparr>TransactionHashes :=
                                       TransactionHashes snapshot @ [TxHash txResult]\<rparr>;
                 (postPositions, postUSDC) =
                   (case captureVaultState world (Suc place) of
                      Some st \<Rightarrow> st | None \<Rightarrow> (currentPositions, liquidUSDC));
                 receipts =
                   map (\<lambda>action.
                      \<lparr>OriginalSubAction = action, Success = True, Message = message,
                       ReceiptTimestamp = Now world,
                       ActualAmountUSD =
                         ActualAmount world action prePositions postPositions preUSDC postUSDC\<rparr>)
                     actions
             in Some (snapshot\<lparr>ActionReceipts := ActionReceipts snapshot @ receipts\<rparr>,
                      GasFeeUSD txResult))"

text \<open>
  \<^verbatim>\<open>RunCycle\<close>: from the persisted snapshots before the cycle to those after it. Every
  \<open>db\<close> that is returned unchanged is a \<^verbatim>\<open>return\<close> of the source with no call of
  \<^verbatim>\<open>saveCycleSnapshot\<close> before it.
\<close>

definition RunCycle :: "World \<Rightarrow> CycleSnapshot list \<Rightarrow> CycleSnapshot list" where
  "RunCycle world db =
     (let cycleSnapshot =
            \<lparr>CycleNumber = getCycleNumber world, SnapshotTimestamp = Now world,
             ScoringParamsID = ActiveScoringParametersID world,
             InitialVaultValueUSD = Fin 0, InitialLiquidUSDC = Fin 0, InitialPositions = [],
             TargetAllocations = [],
             CyclePlan = \<lparr>GoalDescription = [], SubActions = [], EstimatedNetUSDChange = Fin 0\<rparr>,
             FinalVaultValueUSD = Fin 0, FinalLiquidUSDC = Fin 0, FinalPositions = [],
             TransactionHashes = [], ActionReceipts = [], AllocationEfficiencyPercent = Fin 0,
             NetReturnUSD = Fin 0, TotalSlippageUSD = Fin 0, TotalGasFeeUSD = Fin 0\<rparr>
      in
      case TradableDenoms world of None \<Rightarrow> db | Some supportedTokens \<Rightarrow>
     (case FetchPools world supportedTokens of None \<Rightarrow> db | Some pools \<Rightarrow>
     (let poolsDataMap = map_of (rev (map (\<lambda>p. (ID p, p)) pools)) in
      case FetchTokens world of None \<Rightarrow> db | Some tokenDataMap \<Rightarrow>
     (case VaultPoolPositions world 0 of None \<Rightarrow> db | Some currentPositions \<Rightarrow>
     (case VaultLiquidUSDC world 0 of None \<Rightarrow> db | Some liquidUSDC \<Rightarrow>
     (case VaultTotalValue world 0 of None \<Rightarrow> db | Some totalVaultValue \<Rightarrow>
     (let cycleSnapshot = cycleSnapshot
            \<lparr>InitialVaultValueUSD := totalVaultValue, InitialLiquidUSDC := liquidUSDC,
             InitialPositions :=
               convertToPositionSnapshots currentPositions poolsDataMap totalVaultValue\<rparr>
      in
      case CalculatePoolScores pools (CycleParams world) of Inl e \<Rightarrow> db | Inr scoredPools \<Rightarrow>
     (case SelectTopPools (SelectSort world) scoredPools (CycleParams world) poolsDataMap of
        Inl e \<Rightarrow> db
      | Inr (selectedPoolIDs, elysPoolID) \<Rightarrow>
          if selectedPoolIDs = [] then
            saveCycleSnapshot world
              (cycleSnapshot
                 \<lparr>TargetAllocations := [],
                  CyclePlan := \<lparr>GoalDescription = ''No rebalancing needed - no pools selected'',
                                SubActions = [], EstimatedNetUSDChange = Fin 0\<rparr>,
                  FinalVaultValueUSD := totalVaultValue, FinalLiquidUSDC := liquidUSDC,
                  FinalPositions := InitialPositions cycleSnapshot,
                  AllocationEfficiencyPercent := Fin 100, NetReturnUSD := Fin 0,
                  TotalSlippageUSD := Fin 0, TotalGasFeeUSD := Fin 0\<rparr>) db
          else
            let scoredPoolsMap = map_of (rev (map (\<lambda>sp. (PoolID sp, sp)) scoredPools)) in
            (case DetermineTargetAllocations selectedPoolIDs scoredPoolsMap (CycleParams world)
                    elysPoolID of
               Inl e \<Rightarrow> db
             | Inr allocations \<Rightarrow>
                 let targetAllocations = map (\<lambda>(pid, a). (pid, Fin a)) allocations;
                     cycleSnapshot = cycleSnapshot\<lparr>TargetAllocations := targetAllocations\<rparr>
                 in
                 (case GenerateActionPlan (PlannerExternals world) currentPositions liquidUSDC
                         (Some targetAllocations) totalVaultValue (Some poolsDataMap)
                         (Some tokenDataMap) (CycleParams world) (NodeRPC world) of
                    Inl e \<Rightarrow> db
                  | Inr (withdrawalActions, depositActions) \<Rightarrow>
                      let cycleSnapshot = cycleSnapshot
                            \<lparr>CyclePlan := \<lparr>GoalDescription = ''Rebalancing to target allocations'',
                                           SubActions = withdrawalActions @ depositActions,
                                           EstimatedNetUSDChange = Fin 0\<rparr>\<rparr>
                      in
                      if withdrawalActions = [] \<and> depositActions = [] then
                        saveCycleSnapshot world
                          (cycleSnapshot
                             \<lparr>FinalVaultValueUSD := totalVaultValue, FinalLiquidUSDC := liquidUSDC,
                              FinalPositions := InitialPositions cycleSnapshot,
                              AllocationEfficiencyPercent :=
                                calculateAllocationEfficiency (InitialPositions cycleSnapshot)
                                  targetAllocations,
                              NetReturnUSD := Fin 0, TotalSlippageUSD := Fin 0,
                              TotalGasFeeUSD := Fin 0\<rparr>) db
                      else
                        (case (if withdrawalActions \<noteq> [] then
                                 executePhase world 1 ''Withdrawal executed successfully''
                                   withdrawalActions currentPositions liquidUSDC cycleSnapshot
                               else Some (cycleSnapshot, Fin 0)) of
                           None \<Rightarrow>
                             saveCycleSnapshot world
                               (finalizeFailedSnapshot cycleSnapshot totalVaultValue liquidUSDC
                                  currentPositions poolsDataMap) db
                         | Some (cycleSnapshot, withdrawGas) \<Rightarrow>
                             (case (if depositActions \<noteq> [] then
                                      executePhase world 3 ''Deposit executed successfully''
                                        depositActions currentPositions liquidUSDC cycleSnapshot
                                    else Some (cycleSnapshot, Fin 0)) of
                                None \<Rightarrow>
                                  saveCycleSnapshot world
                                    (finalizeFailedSnapshot cycleSnapshot totalVaultValue liquidUSDC
                                       currentPositions poolsDataMap) db
                              | Some (cycleSnapshot, depositGas) \<Rightarrow>
                                  let totalGasFeeUSD = fadd (fadd (Fin 0) withdrawGas) depositGas;
                                      finalLiquidUSDC =
                                        (case VaultLiquidUSDC world 5 of
                                           Some v \<Rightarrow> v | None \<Rightarrow> liquidUSDC);
                                      finalPositions =
                                        (case VaultPoolPositions world 5 of
                                           Some v \<Rightarrow> v | None \<Rightarrow> currentPositions);
                                      finalTotalValue =
                                        (case VaultTotalValue world 5 of
                                           Some v \<Rightarrow> v | None \<Rightarrow> totalVaultValue);
                                      netValueChange = fsub finalTotalValue totalVaultValue;
                                      valueChangeExcludingGas = fadd netValueChange totalGasFeeUSD;
                                      actualSlippageUSD =
                                        (if fless valueChangeExcludingGas (Fin 0)
                                         then fneg valueChangeExcludingGas else Fin 0);
                                      finalSnapshots =
                                        convertToPositionSnapshots finalPositions poolsDataMap
                                          finalTotalValue
                                  in saveCycleSnapshot world
                                       (cycleSnapshot
                                          \<lparr>FinalVaultValueUSD := finalTotalValue,
                                           FinalLiquidUSDC := finalLiquidUSDC,
                                           FinalPositions := finalSnapshots,
                                           AllocationEfficiencyPercent :=
                                             calculateAllocationEfficiency finalSnapshots
                                               targetAllocations,
                                           NetReturnUSD := netValueChange,
                                           TotalSlippageUSD := actualSlippageUSD,
                                           TotalGasFeeUSD := totalGasFeeUSD\<rparr>) db))))))))))))"

text \<open>
  A world in which the vault and the token registry answer, the chain lists no pool (so
  that scoring fails with "no pools provided"), and the database accepts every insert.
\<close>

definition world0 :: World where
  "world0 =
     \<lparr>TradableDenoms = Some [''uatom'', ''uusdc''],
      FetchPools = (\<lambda>supportedTokens. Some []),
      FetchTokens = Some [(''uusdc'', usdcToken0)],
      VaultPoolPositions = (\<lambda>place. Some positions0),
      VaultLiquidUSDC = (\<lambda>place. Some (Fin 2000)),
      VaultTotalValue = (\<lambda>place. Some (Fin 4000)),
      ExecuteActionPlan = (\<lambda>actions. None),
      IncrementCycleNumber = Some 1,
      ActiveScoringParametersID = Some 1,
      SaveSucceeds = True,
      Now = 0,
      CycleParams = scoreParams0,
      SelectSort = sortByScoreDesc,
      PlannerExternals = externals0,
      NodeRPC = ''http://node:26657'',
      ActualAmount = (\<lambda>action prePositions postPositions preUSDC postUSDC. Fin 0)\<rparr>"

section \<open>Facts about the numeric model\<close>

lemma rhe_of_int [simp]: "rhe (of_int k) = k"
  by (simp add: rhe_def)

lemma rhe_zero [simp]: "rhe 0 = 0"
  by (simp add: rhe_def)

lemma rhe_numeral [simp]: "rhe (numeral n) = numeral n"
  using rhe_of_int [of "numeral n"] by simp

lemma rhe_close: "\<bar>of_int (rhe y) - y\<bar> \<le> 1 / 2"
proof -
  have "of_int \<lfloor>y\<rfloor> \<le> y" "y < of_int \<lfloor>y\<rfloor> + 1" by linarith+
  then show ?thesis by (auto simp: rhe_def Let_def)
qed

lemma rhe_nonneg: "0 \<le> y \<Longrightarrow> 0 \<le> rhe y"
  by (auto simp: rhe_def Let_def)

lemma rhe_mono_int: "of_int k \<le> y \<Longrightarrow> k \<le> rhe y"
proof -
  assume "of_int k \<le> y"
  then have "k \<le> \<lfloor>y\<rfloor>" by (simp add: le_floor_iff)
  then show ?thesis by (auto simp: rhe_def Let_def)
qed

lemma dec_round_exact: "y * 10 ^ 18 = of_int k \<Longrightarrow> dec_round y = y"
proof -
  assume h: "y * 10 ^ 18 = of_int k"
  then have "dec_round y = of_int k / 10 ^ 18" by (simp add: dec_round_def)
  also have "\<dots> = y" using h by (simp add: field_simps)
  finally show ?thesis .
qed

lemma dec_factor_eq: "n \<le> 18 \<Longrightarrow> dec_factor n = 10 ^ n"
proof (induction n)
  case 0
  then show ?case by simp
next
  case (Suc n)
  then have ih: "dec_factor n = 10 ^ n" by simp
  have "(10::real) ^ Suc n * 10 ^ 18 = of_int (10 ^ (Suc n + 18))"
    by (simp add: power_add)
  then have "dec_round (10 ^ Suc n) = 10 ^ Suc n" by (rule dec_round_exact)
  then show ?case by (simp add: ih dec_mul_def mult.commute)
qed

lemma dec_quo_pow10:
  assumes "n \<le> 18"
  shows "dec_quo (of_int a) (10 ^ n) = of_int a / 10 ^ n"
proof -
  have "of_int a / 10 ^ n * (10::real) ^ m = of_int (a * 10 ^ (m - n))" if "n \<le> m" for m
  proof -
    have "(10::real) ^ m = 10 ^ n * 10 ^ (m - n)"
      using that by (simp flip: power_add)
    then show ?thesis by simp
  qed
  from this [OF assms] show ?thesis unfolding dec_quo_def by (rule dec_round_exact)
qed

lemma dec_mul_sprintf:
  assumes "n \<le> 18"
  shows "dec_mul (sprintf_f n x) (10 ^ n) = of_int (rhe (x * 10 ^ n))"
proof -
  have "sprintf_f n x * 10 ^ n = of_int (rhe (x * 10 ^ n))"
    by (simp add: sprintf_f_def)
  moreover have "of_int (rhe (x * 10 ^ n)) * (10::real) ^ 18 = of_int (rhe (x * 10 ^ n) * 10 ^ 18)"
    by simp
  ultimately show ?thesis
    unfolding dec_mul_def using dec_round_exact by metis
qed

lemma TruncateInt_of_int [simp]: "TruncateInt (of_int k) = k"
  by (simp add: TruncateInt_def)

lemma pow10_18_less: "(10::int) ^ 18 < 2 ^ 60"
  by simp

lemma dec_range_int:
  "dec_out_of_range (of_int n) \<longleftrightarrow> 2 ^ 315 \<le> \<bar>n\<bar> * 10 ^ 18"
proof -
  have "\<bar>of_int n\<bar> * (10::real) ^ 18 = of_int (\<bar>n\<bar> * 10 ^ 18)" by simp
  moreover have "(2::real) ^ 315 = of_int (2 ^ 315)" by simp
  ultimately show ?thesis
    unfolding dec_out_of_range_def maxDecBitLen_def by (simp only: of_int_le_iff)
qed

lemma dec_range_fraction:
  assumes "n \<le> 18"
  shows "dec_out_of_range (of_int a / 10 ^ n) \<longleftrightarrow> 2 ^ 315 \<le> \<bar>a\<bar> * 10 ^ (18 - n)"
proof -
  have e: "(10::real) ^ 18 = 10 ^ n * 10 ^ (18 - n)"
    using assms by (simp flip: power_add)
  have "\<bar>of_int a / 10 ^ n\<bar> * ((10::real) ^ n * 10 ^ (18 - n)) = of_int (\<bar>a\<bar> * 10 ^ (18 - n))"
    by (simp add: abs_divide)
  then have "\<bar>of_int a / 10 ^ n\<bar> * (10::real) ^ 18 = of_int (\<bar>a\<bar> * 10 ^ (18 - n))"
    by (simp only: e)
  moreover have "(2::real) ^ 315 = of_int (2 ^ 315)" by simp
  ultimately show ?thesis
    unfolding dec_out_of_range_def maxDecBitLen_def by (simp only: of_int_le_iff)
qed

lemma in_dec_range_fraction:
  assumes "n \<le> 18" "\<bar>a\<bar> * 10 ^ 18 < (2::int) ^ 315"
  shows "\<not> dec_out_of_range (of_int a / 10 ^ n)"
proof -
  have "(10::int) ^ (18 - n) \<le> 10 ^ 18" by (rule power_increasing) simp_all
  then have "\<bar>a\<bar> * 10 ^ (18 - n) \<le> \<bar>a\<bar> * 10 ^ 18" by (rule mult_left_mono) simp
  with assms(2) show ?thesis by (simp add: dec_range_fraction [OF assms(1)])
qed

lemma TruncateInt_abs: "\<bar>of_int (TruncateInt d)\<bar> \<le> \<bar>d\<bar>"
proof (cases "0 \<le> d")
  case True
  then show ?thesis by (simp add: TruncateInt_def)
next
  case False
  then have "d \<le> of_int \<lceil>d\<rceil>" "\<lceil>d\<rceil> \<le> 0" by (simp_all add: ceiling_le_iff)
  then show ?thesis using False by (simp add: TruncateInt_def)
qed

lemma TruncateInt_in_range:
  assumes "\<not> dec_out_of_range d"
  shows "\<not> int_out_of_range (TruncateInt d)"
proof
  assume "int_out_of_range (TruncateInt d)"
  then have "(2::int) ^ 256 \<le> \<bar>TruncateInt d\<bar>"
    by (simp add: int_out_of_range_def MaxBitLen_def)
  then have "of_int ((2::int) ^ 256) \<le> (of_int \<bar>TruncateInt d\<bar> :: real)"
    by (simp only: of_int_le_iff)
  then have "(2::real) ^ 256 \<le> \<bar>d\<bar>" using TruncateInt_abs [of d] by simp
  then have "(2::real) ^ 256 * 10 ^ 18 \<le> \<bar>d\<bar> * 10 ^ 18" by (rule mult_right_mono) simp
  moreover have "(2::real) ^ 315 \<le> 2 ^ 256 * 10 ^ 18" by simp
  ultimately have "(2::real) ^ 315 \<le> \<bar>d\<bar> * 10 ^ 18" by linarith
  with assms show False by (simp add: dec_out_of_range_def maxDecBitLen_def)
qed

text \<open>
  What \<^verbatim>\<open>Float64ToSDKInt\<close> returns on a finite non-negative amount, with \<open>n\<close> the amount
  in units of the last decimal, rounded half to even.
\<close>

lemma Float64ToSDKInt_cases:
  assumes "0 \<le> x" "0 \<le> p" "p \<le> 18"
  shows "Float64ToSDKInt (Fin x) p =
     (let n = rhe (x * 10 ^ nat p) in
      if 2 ^ 315 \<le> n * 10 ^ (18 - nat p) then Inl ErrConversionFailed
      else if 2 ^ 315 \<le> n * 10 ^ 18 then Inl (Panic ''Int overflow'')
      else Inr n)"
proof -
  define n where "n = rhe (x * 10 ^ nat p)"
  have p18: "nat p \<le> 18" using assms by simp
  have nn: "0 \<le> n" using assms by (simp add: n_def rhe_nonneg)
  have sp: "sprintf_f (nat p) x = of_int n / 10 ^ nat p" by (simp add: sprintf_f_def n_def)
  have r1: "dec_out_of_range (sprintf_f (nat p) x) \<longleftrightarrow> 2 ^ 315 \<le> n * 10 ^ (18 - nat p)"
    using dec_range_fraction [OF p18, of n] nn by (simp add: sp)
  have mul: "dec_mul (sprintf_f (nat p) x) (10 ^ nat p) = of_int n"
    using dec_mul_sprintf [OF p18, of x] by (simp add: n_def)
  have r2: "dec_out_of_range (of_int n) \<longleftrightarrow> 2 ^ 315 \<le> n * 10 ^ 18"
    using dec_range_int [of n] nn by simp
  show ?thesis
  proof (cases "x = 0")
    case True
    then show ?thesis using assms by (simp add: Float64ToSDKInt_def)
  next
    case False
    then show ?thesis
      using assms nn
      by (simp add: Float64ToSDKInt_def Let_def dec_factor_eq [OF p18] r1 mul r2
          LegacyDec_Mul_def flip: n_def)
  qed
qed

lemma Float64ToSDKInt_value:
  assumes "0 \<le> x" "0 \<le> p" "p \<le> 18" "rhe (x * 10 ^ nat p) * 10 ^ 18 < 2 ^ 315"
  shows "Float64ToSDKInt (Fin x) p = Inr (rhe (x * 10 ^ nat p))"
proof -
  have "0 \<le> rhe (x * 10 ^ nat p)" using assms by (simp add: rhe_nonneg)
  then have "\<not> dec_out_of_range (of_int (rhe (x * 10 ^ nat p)) / 10 ^ nat p)"
    using in_dec_range_fraction [of "nat p" "rhe (x * 10 ^ nat p)"] assms by simp
  then have "\<not> 2 ^ 315 \<le> rhe (x * 10 ^ nat p) * 10 ^ (18 - nat p)"
    using dec_range_fraction [of "nat p" "rhe (x * 10 ^ nat p)"] assms
      \<open>0 \<le> rhe (x * 10 ^ nat p)\<close> by simp
  then show ?thesis
    using assms by (simp add: Float64ToSDKInt_cases Let_def)
qed

lemma Float64ToSDKInt_result:
  assumes "Float64ToSDKInt (Fin x) p = Inr n" "0 \<le> x"
  shows "n = rhe (x * 10 ^ nat p) \<and> 0 \<le> n \<and> n * 10 ^ 18 < 2 ^ 315 \<and> 0 \<le> p \<and> p \<le> 18"
proof -
  from assms(1) have p: "0 \<le> p" "p \<le> 18"
    by (auto simp: Float64ToSDKInt_def split: if_splits)
  from assms(1) Float64ToSDKInt_cases [OF assms(2) p]
  have "n = rhe (x * 10 ^ nat p) \<and> n * 10 ^ 18 < 2 ^ 315"
    by (auto simp: Let_def split: if_splits)
  moreover have "0 \<le> rhe (x * 10 ^ nat p)" using assms(2) by (simp add: rhe_nonneg)
  ultimately show ?thesis using p by blast
qed

lemma SDKIntToFloat64_value:
  assumes "0 \<le> a" "0 \<le> p" "p \<le> 18" "a * 10 ^ 18 < 2 ^ 315"
  shows "SDKIntToFloat64 (Some a) p = Inr (of_int a / 10 ^ nat p)"
proof -
  have n: "nat p \<le> 18" using assms by simp
  have "\<not> dec_out_of_range (of_int a / 10 ^ nat p)"
    using in_dec_range_fraction [OF n, of a] assms by simp
  then show ?thesis
    using assms
    by (simp add: SDKIntToFloat64_def LegacyDec_Quo_def dec_factor_eq [OF n] dec_quo_pow10 [OF n])
qed

subsection \<open>Rounding to float64\<close>

lemma rhe_le_int: "y \<le> of_int k \<Longrightarrow> rhe y \<le> k"
proof -
  assume h: "y \<le> of_int k"
  have f: "\<lfloor>y\<rfloor> \<le> k" using h by (simp add: floor_le_iff)
  show ?thesis
  proof (cases "\<lfloor>y\<rfloor> = k")
    case True
    then have "y - of_int \<lfloor>y\<rfloor> \<le> 0" using h by simp
    then show ?thesis using True by (auto simp: rhe_def Let_def)
  next
    case False
    then have "\<lfloor>y\<rfloor> + 1 \<le> k" using f by simp
    then show ?thesis by (auto simp: rhe_def Let_def)
  qed
qed

lemma ulp_pos: "0 < ulp x"
  by (simp add: ulp_def)

lemma two_powr_nonneg: "0 \<le> k \<Longrightarrow> (2::real) powr of_int k = 2 ^ nat k"
  by (simp add: powr_int)

lemma two_powr_neg: "0 \<le> k \<Longrightarrow> (2::real) powr of_int (- k) = 1 / 2 ^ nat k"
  using two_powr_nonneg [of k] by (simp add: powr_minus inverse_eq_divide)


lemma float_exponent_lower: "- 1022 \<le> float_exponent x"
  by (simp add: float_exponent_def)

lemma float_exponent_binade:
  assumes "0 < x"
  shows "x < 2 powr of_int (float_exponent x + 1)"
    and "2 powr of_int (float_exponent x) \<le> x \<or> float_exponent x = - 1022"
proof -
  define k where "k = \<lfloor>log 2 x\<rfloor>"
  have b: "2 powr of_int k \<le> x" "x < 2 powr of_int (k + 1)"
    using floor_log_eq_powr_iff [of x 2 k] assms by (simp_all add: k_def)
  have e: "float_exponent x = max k (- 1022)" using assms by (simp add: float_exponent_def k_def)
  have "2 powr of_int (k + 1) \<le> (2::real) powr of_int (float_exponent x + 1)"
    unfolding e by (rule powr_mono) simp_all
  with b(2) show "x < 2 powr of_int (float_exponent x + 1)" by linarith
  show "2 powr of_int (float_exponent x) \<le> x \<or> float_exponent x = - 1022"
    using b(1) e by (cases "k \<le> - 1022") (auto simp: max_def)
qed



lemma round_f64_half:
  assumes "1 / 2 \<le> x" "x < 1"
  shows "round_f64 x = Fin (of_int (rhe (x * 2 ^ 53)) / 2 ^ 53)"
proof -
  have x0: "0 < x" using assms by simp
  have "(2::real) powr of_int (- 1) = 1 / 2" using two_powr_neg [of 1] by simp
  then have "\<lfloor>log 2 x\<rfloor> = - 1"
    using floor_log_eq_powr_iff [of x 2 "- 1"] assms x0 by simp
  then have "float_exponent x = - 1" using x0 by (simp add: float_exponent_def)
  then have u: "ulp x = 1 / 2 ^ 53" using two_powr_neg [of 53] by (simp add: ulp_def)
  define r where "r = of_int (rhe (x * 2 ^ 53)) / (2::real) ^ 53"
  have "x * 2 ^ 53 \<le> of_int (2 ^ 53)" using assms by simp
  then have "rhe (x * 2 ^ 53) \<le> 2 ^ 53" by (rule rhe_le_int)
  then have "of_int (rhe (x * 2 ^ 53)) \<le> (2::real) ^ 53"
    by (metis of_int_le_iff of_int_numeral of_int_power)
  moreover have "0 \<le> rhe (x * 2 ^ 53)" using x0 by (simp add: rhe_nonneg)
  ultimately have "0 \<le> r" "r \<le> 1" by (simp_all add: r_def field_simps)
  then have "\<bar>r\<bar> \<le> 1" by simp
  also have "(1::real) < 2 ^ 1024" by simp
  finally have "\<not> 2 ^ 1024 \<le> \<bar>r\<bar>" by simp
  moreover have "of_int (rhe (x / ulp x)) * ulp x = r" by (simp add: u r_def)
  ultimately show ?thesis using x0 by (simp add: round_f64_def Let_def r_def)
qed

lemma rhe_nearest: "\<bar>of_int (rhe z) - z\<bar> \<le> \<bar>of_int k - z\<bar>"
proof (cases "\<bar>of_int k - z\<bar> < 1 / 2")
  case False
  then show ?thesis using rhe_close [of z] by linarith
next
  case True
  have "\<bar>of_int (rhe z) - (of_int k :: real)\<bar> < 1" using True rhe_close [of z] by linarith
  then have "\<bar>rhe z - k\<bar> < 1"
    by (metis of_int_diff of_int_abs of_int_less_iff of_int_1)
  then have "rhe z = k" by simp
  then show ?thesis by simp
qed

lemma two_powr_split:
  assumes "a \<le> b"
  shows "(2::real) powr of_int b = 2 powr of_int a * of_int (2 ^ nat (b - a))"
proof -
  have "(2::real) powr of_int b = 2 powr (of_int a + of_int (b - a))" by simp
  also have "\<dots> = 2 powr of_int a * 2 powr of_int (b - a)" by (simp only: powr_add)
  also have "(2::real) powr of_int (b - a) = 2 ^ nat (b - a)"
    using assms by (intro two_powr_nonneg) simp
  finally show ?thesis by simp
qed

text \<open>
  The value that \<open>round_f64\<close> computes for a positive number is at least as close to it as
  any non-negative float64.
\<close>

lemma round_f64_nearest:
  assumes v: "0 < v" and y: "representable y" "0 \<le> y"
  shows "\<bar>of_int (rhe (v / ulp v)) * ulp v - v\<bar> \<le> \<bar>y - v\<bar>"
proof -
  define e where "e = float_exponent v"
  define u where "u = ulp v"
  have u: "u = 2 powr of_int (e - 52)" "0 < u" by (simp_all add: u_def ulp_def e_def)
  have mult: "\<bar>of_int (rhe (v / u)) * u - v\<bar> \<le> \<bar>of_int k * u - v\<bar>" for k :: int
  proof -
    have "\<bar>of_int (rhe (v / u)) - v / u\<bar> \<le> \<bar>of_int k - v / u\<bar>" by (rule rhe_nearest)
    then have "\<bar>of_int (rhe (v / u)) - v / u\<bar> * u \<le> \<bar>of_int k - v / u\<bar> * u"
      using u(2) by (simp add: mult_right_mono)
    moreover have "\<bar>of_int j - v / u\<bar> * u = \<bar>of_int j * u - v\<bar>" for j :: int
    proof -
      have "(of_int j - v / u) * u = of_int j * u - v" using u(2) by (simp add: field_simps)
      then have "\<bar>of_int j * u - v\<bar> = \<bar>of_int j - v / u\<bar> * \<bar>u\<bar>" by (metis abs_mult)
      then show ?thesis using u(2) by simp
    qed
    ultimately show ?thesis by simp
  qed
  show ?thesis
  proof (cases "y = 0")
    case True
    then show ?thesis using mult [of 0] by (simp add: u_def)
  next
    case False
    then have y0: "0 < y" using y(2) by simp
    define ey where "ey = float_exponent y"
    define uy where "uy = ulp y"
    have uy: "uy = 2 powr of_int (ey - 52)" by (simp add: uy_def ulp_def ey_def)
    from y(1) False have yr: "y = of_int (rhe (y / uy)) * uy"
      by (auto simp: representable_def round_f64_def Let_def uy_def split: if_splits)
    show ?thesis
    proof (cases "e \<le> ey")
      case True
      then have "uy = u * of_int (2 ^ nat (ey - e))"
        using two_powr_split [of "e - 52" "ey - 52"] by (simp add: u uy)
      then have "y = of_int (rhe (y / uy) * 2 ^ nat (ey - e)) * u"
        using yr by (simp add: mult.commute mult.left_commute)
      then show ?thesis using mult [of "rhe (y / uy) * 2 ^ nat (ey - e)"] by (simp add: u_def)
    next
      case False
      have "- 1022 \<le> ey" by (simp add: ey_def float_exponent_lower)
      with False have "e \<noteq> - 1022" by simp
      with float_exponent_binade(2) [OF v] have lo: "2 powr of_int e \<le> v" by (simp add: e_def)
      have "y < 2 powr of_int (ey + 1)" using float_exponent_binade(1) [OF y0] by (simp add: ey_def)
      also have "\<dots> \<le> 2 powr of_int e" using False by (intro powr_mono) simp_all
      finally have ylt: "y < 2 powr of_int e" .
      have "(2::real) powr of_int e = 2 powr of_int (e - 52) * of_int (2 ^ nat 52)"
        using two_powr_split [of "e - 52" e] by simp
      then have "of_int (2 ^ 52) * u = 2 powr of_int e" by (simp add: u mult.commute)
      with mult [of "2 ^ 52"] have "\<bar>of_int (rhe (v / u)) * u - v\<bar> \<le> \<bar>2 powr of_int e - v\<bar>"
        by simp
      also have "\<dots> \<le> \<bar>y - v\<bar>" using lo ylt by simp
      finally show ?thesis by (simp add: u_def)
    qed
  qed
qed

text \<open>
  The rounding of a number of the binade \<open>[2\<^sup>k, 2\<^sup>k\<^sup>+\<^sup>1)\<close>, for evaluating \<open>round_f64\<close> at a
  given number.
\<close>

lemma round_f64_binade:
  assumes lo: "2 powr of_int k \<le> \<bar>x\<bar>" and hi: "\<bar>x\<bar> < 2 powr of_int (k + 1)"
    and k: "- 1022 \<le> k" "k \<le> 1022"
  shows "round_f64 x = Fin (of_int (rhe (x / 2 powr of_int (k - 52))) * 2 powr of_int (k - 52))"
proof -
  have x0: "x \<noteq> 0"
  proof
    assume "x = 0"
    with lo have "(2::real) powr of_int k \<le> 0" by simp
    then show False by (simp add: not_le)
  qed
  then have ax: "0 < \<bar>x\<bar>" by simp
  have "\<lfloor>log 2 \<bar>x\<bar>\<rfloor> = k"
    using floor_log_eq_powr_iff [OF ax, of 2 k] lo hi by simp
  then have e: "float_exponent x = k" using k by (simp add: float_exponent_def)
  define u where "u = (2::real) powr of_int (k - 52)"
  have u: "ulp x = u" "0 < u" by (simp_all add: ulp_def e u_def)
  have top: "of_int (2 ^ 53) * u = 2 powr of_int (k + 1)"
    using two_powr_split [of "k - 52" "k + 1"] by (simp add: u_def mult.commute)
  have "\<bar>x\<bar> / u < of_int (2 ^ 53)"
    using hi u(2) top by (simp add: field_simps)
  moreover have "\<bar>u\<bar> = u" using u(2) by simp
  then have "\<bar>x / u\<bar> = \<bar>x\<bar> / u" by (simp only: abs_divide)
  ultimately have "\<bar>x / u\<bar> < of_int (2 ^ 53)" by (simp only:)
  then have b: "x / u \<le> of_int (2 ^ 53)" "of_int (- (2 ^ 53)) \<le> x / u"
    by linarith+
  have "rhe (x / u) \<le> 2 ^ 53" using b(1) by (rule rhe_le_int)
  moreover have "- (2 ^ 53) \<le> rhe (x / u)" using b(2) by (rule rhe_mono_int)
  ultimately have "\<bar>rhe (x / u)\<bar> \<le> 2 ^ 53" by simp
  then have "\<bar>of_int (rhe (x / u)) :: real\<bar> \<le> of_int (2 ^ 53)"
    by (metis of_int_abs of_int_le_iff)
  then have "\<bar>of_int (rhe (x / u)) * u\<bar> \<le> of_int (2 ^ 53) * u"
    using u(2) by (simp add: abs_mult mult_right_mono)
  also have "\<dots> = 2 powr of_int (k + 1)" by (rule top)
  also have "\<dots> \<le> 2 powr of_int 1023" using k by (intro powr_mono) simp_all
  also have "\<dots> = 2 ^ 1023" using two_powr_nonneg [of 1023] by simp
  also have "\<dots> < (2::real) ^ 1024" by simp
  finally have "\<not> 2 ^ 1024 \<le> \<bar>of_int (rhe (x / u)) * u\<bar>" by simp
  then show ?thesis using x0 by (simp add: round_f64_def Let_def u(1) u_def)
qed

lemma representable_example: "representable (3 / 2)"
proof -
  have p: "(2::real) powr of_int (0 - 52) = 1 / 2 ^ 52" using two_powr_neg [of 52] by simp
  have "(3::real) / 2 / (1 / 2 ^ 52) = of_int (3 * 2 ^ 51)" by simp
  then have r: "rhe (3 / 2 / (1 / 2 ^ 52)) = 3 * 2 ^ 51" by (simp only: rhe_of_int)
  have "round_f64 (3 / 2) = Fin (of_int (rhe (3 / 2 / 2 powr of_int (0 - 52))) * 2 powr of_int (0 - 52))"
    by (rule round_f64_binade) simp_all
  then show ?thesis unfolding representable_def p r by simp
qed

text \<open>The largest float64 below 1 is \<open>1 - 2\<^sup>-\<^sup>5\<^sup>3\<close>.\<close>

lemma representable_below_one:
  assumes "representable t" "t < 1"
  shows "t \<le> 1 - 1 / 2 ^ 53"
proof (cases "1 / 2 \<le> t")
  case False
  have "(1::real) / 2 \<le> 1 - 1 / 2 ^ 53" by simp
  with False show ?thesis by linarith
next
  case True
  define m where "m = rhe (t * 2 ^ 53)"
  from round_f64_half [OF True assms(2)] assms(1)
  have t: "t = of_int m / 2 ^ 53" by (simp add: representable_def m_def)
  then have "of_int m = t * 2 ^ 53" by simp
  also have "\<dots> < 1 * 2 ^ 53" using assms(2) by (intro mult_strict_right_mono) simp_all
  finally have "(of_int m :: real) < of_int (2 ^ 53)" by simp
  then have "m < 2 ^ 53" by (simp only: of_int_less_iff)
  then have "m \<le> 2 ^ 53 - 1" by simp
  then have "(of_int m :: real) \<le> of_int (2 ^ 53 - 1)" by (simp only: of_int_le_iff)
  then have "of_int m / (2::real) ^ 53 \<le> of_int (2 ^ 53 - 1) / 2 ^ 53"
    by (rule divide_right_mono) simp
  also have "(of_int (2 ^ 53 - 1) :: real) / 2 ^ 53 = 1 - 1 / 2 ^ 53" by simp
  finally show ?thesis using t by simp
qed

section \<open>Round trip of the fixed-point conversion\<close>

lemma pow300_representable: "representable (2 ^ 300)"
proof -
  have p: "(2::real) powr of_int (300 - 52) = 2 ^ 248" using two_powr_nonneg [of 248] by simp
  have lo: "(2::real) powr of_int 300 = 2 ^ 300" using two_powr_nonneg [of 300] by simp
  have hi: "(2::real) powr of_int (300 + 1) = 2 ^ 301" using two_powr_nonneg [of 301] by simp
  have "(2::real) ^ 300 / 2 ^ 248 = of_int (2 ^ 52)" by simp
  then have r: "rhe ((2::real) ^ 300 / 2 ^ 248) = 2 ^ 52" by (simp only: rhe_of_int)
  have "round_f64 (2 ^ 300)
          = Fin (of_int (rhe (2 ^ 300 / 2 powr of_int (300 - 52))) * 2 powr of_int (300 - 52))"
    by (rule round_f64_binade) (simp_all only: lo hi, simp_all)
  then show ?thesis unfolding representable_def p r by simp
qed

text \<open>
  C8 as stated fails for large amounts. \<open>2\<^sup>3\<^sup>0\<^sup>0\<close> is a finite non-negative float64
  (\<open>pow300_representable\<close>); at precision 0 its digits, as an SDK decimal, need more than
  \<open>maxDecBitLen\<close> bits, so \<^verbatim>\<open>Float64ToSDKInt\<close> returns \<^verbatim>\<open>ErrConversionFailed\<close> and there is no
  integer to convert back.
\<close>

theorem conversion_out_of_range_counterexample:
  "Float64ToSDKInt (Fin (2 ^ 300)) 0 = Inl ErrConversionFailed"
proof -
  have "(2::real) ^ 300 = of_int (2 ^ 300)" by simp
  then have r: "rhe ((2::real) ^ 300) = 2 ^ 300" by (simp only: rhe_of_int)
  show ?thesis
    using Float64ToSDKInt_cases [of "2 ^ 300" 0] by (simp add: Let_def r)
qed

text \<open>
  C8, amended. Let \<open>x\<close> be finite and non-negative, \<open>p\<close> a precision in \<open>[0,18]\<close> and \<open>n\<close> the
  amount \<open>x \<cdot> 10\<^sup>p\<close> rounded half to even. When \<open>n \<cdot> 10\<^sup>1\<^sup>8 < 2\<^sup>3\<^sup>1\<^sup>5\<close> (the range of the SDK
  decimal: \<open>n\<close> below about \<open>6.6 \<cdot> 10\<^sup>7\<^sup>6\<close>), \<^verbatim>\<open>Float64ToSDKInt\<close> succeeds,
  \<^verbatim>\<open>SDKIntToFloat64\<close> succeeds on its result, and the value that comes back differs from
  \<open>x\<close> by at most \<open>10\<^sup>-\<^sup>p\<close>. Otherwise \<^verbatim>\<open>Float64ToSDKInt\<close> fails, with \<^verbatim>\<open>ErrConversionFailed\<close>
  or with the overflow panic of \<^verbatim>\<open>Mul\<close>. (In the exact arithmetic of the model the value
  that comes back is within half of \<open>10\<^sup>-\<^sup>p\<close>; \<open>roundtrip_parsed\<close> below shows that the bound
  \<open>10\<^sup>-\<^sup>p\<close> also holds for the float64 that \<^verbatim>\<open>result.Float64()\<close> parses from it.)
\<close>

theorem conversion_roundtrip:
  assumes "0 \<le> x" "0 \<le> p" "p \<le> 18"
  shows "(rhe (x * 10 ^ nat p) * 10 ^ 18 < 2 ^ 315 \<longrightarrow>
           (\<exists>n y. Float64ToSDKInt (Fin x) p = Inr n
              \<and> SDKIntToFloat64 (Some n) p = Inr y
              \<and> \<bar>y - x\<bar> \<le> 1 / 10 ^ nat p))
       \<and> (2 ^ 315 \<le> rhe (x * 10 ^ nat p) * 10 ^ 18 \<longrightarrow>
           Float64ToSDKInt (Fin x) p = Inl ErrConversionFailed
           \<or> Float64ToSDKInt (Fin x) p = Inl (Panic ''Int overflow''))"
proof (intro conjI impI)
  assume r: "rhe (x * 10 ^ nat p) * 10 ^ 18 < 2 ^ 315"
  let ?n = "rhe (x * 10 ^ nat p)"
  let ?y = "of_int ?n / (10::real) ^ nat p"
  have a: "Float64ToSDKInt (Fin x) p = Inr ?n"
    using assms r by (rule Float64ToSDKInt_value)
  have nn: "0 \<le> ?n" using assms by (simp add: rhe_nonneg)
  have b: "SDKIntToFloat64 (Some ?n) p = Inr ?y"
    using nn assms(2,3) r by (rule SDKIntToFloat64_value)
  have "\<bar>of_int ?n - x * 10 ^ nat p\<bar> \<le> 1 / 2" by (rule rhe_close)
  then have "\<bar>of_int ?n - x * 10 ^ nat p\<bar> / 10 ^ nat p \<le> (1 / 2) / 10 ^ nat p"
    by (rule divide_right_mono) simp_all
  moreover have "\<bar>of_int ?n - x * 10 ^ nat p\<bar> / 10 ^ nat p = \<bar>?y - x\<bar>"
  proof -
    have "?y - x = (of_int ?n - x * 10 ^ nat p) / 10 ^ nat p"
      by (simp add: field_simps)
    then show ?thesis by (simp add: abs_divide)
  qed
  ultimately have "\<bar>?y - x\<bar> \<le> (1 / 2) / 10 ^ nat p" by simp
  also have "\<dots> \<le> 1 / 10 ^ nat p" by (simp add: field_simps)
  finally have c: "\<bar>?y - x\<bar> \<le> 1 / 10 ^ nat p" .
  from a b c show "\<exists>n y. Float64ToSDKInt (Fin x) p = Inr n
              \<and> SDKIntToFloat64 (Some n) p = Inr y
              \<and> \<bar>y - x\<bar> \<le> 1 / 10 ^ nat p" by blast
next
  assume r: "2 ^ 315 \<le> rhe (x * 10 ^ nat p) * 10 ^ 18"
  show "Float64ToSDKInt (Fin x) p = Inl ErrConversionFailed
           \<or> Float64ToSDKInt (Fin x) p = Inl (Panic ''Int overflow'')"
    using r by (simp add: Float64ToSDKInt_cases [OF assms] Let_def)
qed

theorem conversion_roundtrip_witness:
  "(\<exists>n y. Float64ToSDKInt (Fin (12345678 / 10 ^ 7)) 6 = Inr n
       \<and> SDKIntToFloat64 (Some n) 6 = Inr y
       \<and> \<bar>y - 12345678 / 10 ^ 7\<bar> \<le> 1 / 10 ^ nat 6)
   \<and> (Float64ToSDKInt (Fin (2 ^ 300)) 0 = Inl ErrConversionFailed
        \<or> Float64ToSDKInt (Fin (2 ^ 300)) 0 = Inl (Panic ''Int overflow''))"
proof -
  have r: "rhe (12345678 / 10 ^ 7 * 10 ^ nat 6) = 1234568"
    by (simp add: rhe_def Let_def)
  have "(2::real) ^ 300 * 10 ^ nat 0 = of_int (2 ^ 300)" by simp
  then have r2: "rhe ((2::real) ^ 300 * 10 ^ nat 0) = 2 ^ 300" by (simp only: rhe_of_int)
  have a: "\<exists>n y. Float64ToSDKInt (Fin (12345678 / 10 ^ 7)) 6 = Inr n
       \<and> SDKIntToFloat64 (Some n) 6 = Inr y
       \<and> \<bar>y - 12345678 / 10 ^ 7\<bar> \<le> 1 / 10 ^ nat 6"
    using conversion_roundtrip [of "12345678 / 10 ^ 7" 6] by (simp only: r) simp
  have b: "Float64ToSDKInt (Fin (2 ^ 300)) 0 = Inl ErrConversionFailed
        \<or> Float64ToSDKInt (Fin (2 ^ 300)) 0 = Inl (Panic ''Int overflow'')"
    using conversion_roundtrip [of "2 ^ 300" 0] by (simp only: r2) simp
  from a b show ?thesis by (rule conjI)
qed

text \<open>
  The final \<^verbatim>\<open>result.Float64()\<close> of \<^verbatim>\<open>SDKIntToFloat64\<close> keeps the round trip within
  \<open>10\<^sup>-\<^sup>p\<close>: when \<open>x\<close> is a float64, the float64 nearest to the decimal that comes back
  is no farther from the decimal than \<open>x\<close> is.
\<close>

lemma roundtrip_parsed:
  assumes x: "0 \<le> x" "representable x" and p: "0 \<le> p" "p \<le> 18"
    and r: "rhe (x * 10 ^ nat p) * 10 ^ 18 < 2 ^ 315"
  shows "\<exists>n y z. Float64ToSDKInt (Fin x) p = Inr n
            \<and> SDKIntToFloat64 (Some n) p = Inr y
            \<and> round_f64 y = Fin z \<and> \<bar>z - x\<bar> \<le> 1 / 10 ^ nat p"
proof -
  let ?n = "rhe (x * 10 ^ nat p)"
  let ?y = "of_int ?n / (10::real) ^ nat p"
  have a: "Float64ToSDKInt (Fin x) p = Inr ?n"
    using x(1) p r by (rule Float64ToSDKInt_value)
  have nn: "0 \<le> ?n" using x(1) by (simp add: rhe_nonneg)
  have b: "SDKIntToFloat64 (Some ?n) p = Inr ?y"
    using nn p r by (rule SDKIntToFloat64_value)
  have "\<bar>of_int ?n - x * 10 ^ nat p\<bar> \<le> 1 / 2" by (rule rhe_close)
  then have "\<bar>of_int ?n - x * 10 ^ nat p\<bar> / 10 ^ nat p \<le> (1 / 2) / 10 ^ nat p"
    by (rule divide_right_mono) simp_all
  moreover have "\<bar>of_int ?n - x * 10 ^ nat p\<bar> / 10 ^ nat p = \<bar>?y - x\<bar>"
  proof -
    have "?y - x = (of_int ?n - x * 10 ^ nat p) / 10 ^ nat p"
      by (simp add: field_simps)
    then show ?thesis by (simp add: abs_divide)
  qed
  ultimately have half: "\<bar>?y - x\<bar> \<le> (1 / 2) / 10 ^ nat p" by simp
  have "\<exists>z. round_f64 ?y = Fin z \<and> \<bar>z - x\<bar> \<le> 1 / 10 ^ nat p"
  proof (cases "?n = 0")
    case True
    then have "round_f64 ?y = Fin 0" by (simp add: round_f64_def)
    moreover have "\<bar>0 - x\<bar> \<le> 1 / 10 ^ nat p"
    proof -
      have "(1 / 2) / (10::real) ^ nat p \<le> 1 / 10 ^ nat p" by (simp add: field_simps)
      moreover have "\<bar>?y - x\<bar> = \<bar>0 - x\<bar>" using True by simp
      ultimately show ?thesis using half by linarith
    qed
    ultimately show ?thesis by blast
  next
    case False
    then have ypos: "0 < ?y" using nn by simp
    define z where "z = of_int (rhe (?y / ulp ?y)) * ulp ?y"
    have near: "\<bar>z - ?y\<bar> \<le> \<bar>x - ?y\<bar>"
      unfolding z_def using ypos x(2,1) by (rule round_f64_nearest)
    have d: "\<bar>z - x\<bar> \<le> 1 / 10 ^ nat p"
    proof -
      have "\<bar>z - x\<bar> \<le> \<bar>z - ?y\<bar> + \<bar>?y - x\<bar>" by simp
      also have "\<dots> \<le> 2 * \<bar>?y - x\<bar>"
        using near abs_minus_commute [of x ?y] by linarith
      also have "\<dots> \<le> 2 * ((1 / 2) / 10 ^ nat p)" using half by simp
      finally show ?thesis by simp
    qed
    have "(1::real) / 10 ^ nat p \<le> 1" by simp
    with d x(1) have "\<bar>z\<bar> \<le> x + 1" by linarith
    moreover have "x < 2 ^ 1024 - 1"
    proof -
      have "x \<le> \<bar>?y - x\<bar> + ?y" by simp
      also have "\<dots> \<le> 1 / 2 + ?y"
      proof -
        have "(1 / 2) / (10::real) ^ nat p \<le> (1 / 2) / 1"
          by (rule divide_left_mono) simp_all
        with half show ?thesis by linarith
      qed
      also have "?y \<le> of_int ?n"
      proof -
        have "of_int ?n / (10::real) ^ nat p \<le> of_int ?n / 1"
          by (rule divide_left_mono) (use nn in simp_all)
        then show ?thesis by simp
      qed
      also have "(of_int ?n :: real) < 2 ^ 315"
      proof -
        have "?n * 1 \<le> ?n * 10 ^ 18" by (rule mult_left_mono) (use nn in simp_all)
        with r have "?n < 2 ^ 315" by simp
        then have "(of_int ?n :: real) < of_int (2 ^ 315)" by (simp only: of_int_less_iff)
        then show ?thesis by simp
      qed
      finally have "x < 1 / 2 + 2 ^ 315" by simp
      also have "(1::real) / 2 + 2 ^ 315 < 2 ^ 1024 - 1" by simp
      finally show ?thesis .
    qed
    ultimately have "\<not> 2 ^ 1024 \<le> \<bar>z\<bar>" by linarith
    then have "round_f64 ?y = Fin z"
      using ypos by (simp add: round_f64_def Let_def z_def)
    with d show ?thesis by blast
  qed
  with a b show ?thesis by blast
qed

section \<open>Minimum-output embedding\<close>















lemma tolerance003_representable: "representable (1080863910568919 / 36028797018963968)"
proof -
  let ?t = "1080863910568919 / 36028797018963968 :: real"
  have p: "(2::real) powr of_int (- 6 - 52) = 1 / 2 ^ 58" using two_powr_neg [of 58] by simp
  have lo: "(2::real) powr of_int (- 6) = 1 / 2 ^ 6" using two_powr_neg [of 6] by simp
  have hi: "(2::real) powr of_int (- 6 + 1) = 1 / 2 ^ 5" using two_powr_neg [of 5] by simp
  have "?t / (1 / 2 ^ 58) = of_int 8646911284551352" by simp
  then have r: "rhe (?t / (1 / 2 ^ 58)) = 8646911284551352" by (simp only: rhe_of_int)
  have "round_f64 ?t = Fin (of_int (rhe (?t / 2 powr of_int (- 6 - 52))) * 2 powr of_int (- 6 - 52))"
    by (rule round_f64_binade) (simp_all only: lo hi, simp_all)
  then show ?thesis unfolding representable_def p r by simp
qed




section \<open>Volatility\<close>

lemma logReturns_loop_usable: "logReturns_loop ps = usable_returns ps"
proof (induction ps rule: logReturns_loop.induct)
  case (1 previous current rest)
  then show ?case by (auto simp: usable_returns_def not_le)
qed (simp_all add: usable_returns_def)

lemma foldl_plus_sum_list: "foldl (\<lambda>s r. s + f r) a xs = a + (\<Sum>x\<leftarrow>xs. f x)" for a :: real
  by (induction xs arbitrary: a) (simp_all add: add.assoc)

text \<open>
  C7 as stated fails with exactly one usable return: two positive prices give one log-return,
  which is fewer than 2, and the function returns volatility 0 instead of failing. It fails
  only below two price samples or with no usable return at all.
\<close>

theorem volatility_one_return_counterexample:
  "length (usable_returns (sort_key Timestamp
      [\<lparr>Timestamp = 1, Price = 1\<rparr>, \<lparr>Timestamp = 2, Price = 2\<rparr>])) < 2
   \<and> CalculateVolatility (sort_key Timestamp)
      [\<lparr>Timestamp = 1, Price = 1\<rparr>, \<lparr>Timestamp = 2, Price = 2\<rparr>] 8760 = Inr (Fin 0)"
  by (simp add: usable_returns_def CalculateVolatility_def Let_def)

text \<open>
  C7, amended. \<^verbatim>\<open>CalculateVolatility\<close> fails with \<open>ErrInsufficientData\<close> exactly when there are
  fewer than 2 price samples or no usable return; otherwise, for a non-negative
  annualization factor, it returns the population standard deviation of the usable
  log-returns of the sorted series times the square root of the factor.
\<close>

theorem volatility_result:
  "CalculateVolatility srt prices af =
     (if length prices < 2 \<or> usable_returns (srt prices) = [] then Inl ErrInsufficientData
      else if af < 0 then Inr NaN
      else Inr (Fin (population_stddev (usable_returns (srt prices)) * sqrt af)))"
proof -
  have "foldl (\<lambda>s r. s + r) (0::real) xs = sum_list xs" for xs
    using foldl_plus_sum_list [of "\<lambda>r. r" 0 xs] by simp
  moreover have "foldl (\<lambda>s r. s + (r - m)\<^sup>2) (0::real) xs = (\<Sum>x\<leftarrow>xs. (x - m)\<^sup>2)" for xs m
    using foldl_plus_sum_list [of "\<lambda>r. (r - m)\<^sup>2" 0 xs] by simp
  ultimately show ?thesis
    by (simp add: CalculateVolatility_def Let_def logReturns_loop_usable
        population_stddev_def mean_of_def)
qed

theorem volatility_result_witness:
  "CalculateVolatility (sort_key Timestamp)
      [\<lparr>Timestamp = 2, Price = 4\<rparr>, \<lparr>Timestamp = 1, Price = 4\<rparr>, \<lparr>Timestamp = 3, Price = 4\<rparr>] 4
     = Inr (Fin 0)
   \<and> CalculateVolatility (sort_key Timestamp) [\<lparr>Timestamp = 1, Price = 4\<rparr>] 4 = Inl ErrInsufficientData
   \<and> CalculateVolatility (sort_key Timestamp)
        [\<lparr>Timestamp = 1, Price = 0\<rparr>, \<lparr>Timestamp = 2, Price = 4\<rparr>] 4 = Inl ErrInsufficientData"
  using volatility_result [of "sort_key Timestamp"
      "[\<lparr>Timestamp = 2, Price = 4\<rparr>, \<lparr>Timestamp = 1, Price = 4\<rparr>, \<lparr>Timestamp = 3, Price = 4\<rparr>]" 4]
    volatility_result [of "sort_key Timestamp" "[\<lparr>Timestamp = 1, Price = 4\<rparr>]" 4]
    volatility_result [of "sort_key Timestamp"
      "[\<lparr>Timestamp = 1, Price = 0\<rparr>, \<lparr>Timestamp = 2, Price = 4\<rparr>]" 4]
  by (simp add: usable_returns_def population_stddev_def mean_of_def)

section \<open>Target allocations\<close>

lemma update_fresh: "k \<notin> fst ` set al \<Longrightarrow> AList.update k v al = al @ [(k, v)]"
  by (induction al) auto

lemma assignFinal_fresh:
  "distinct pids \<Longrightarrow> set pids \<inter> fst ` set tgt = {} \<Longrightarrow>
   assignFinal L A pids (tgt, s) = Inr (tgt', s') \<Longrightarrow>
   \<exists>new. tgt' = tgt @ new \<and> map fst new = pids \<and> s' = s + sum_list (map snd new)"
proof (induction pids arbitrary: tgt s)
  case Nil
  then show ?case by simp
next
  case (Cons p pids)
  from Cons.prems have fresh: "p \<notin> fst ` set tgt" by auto
  obtain v where v: "assignFinal L A pids (tgt @ [(p, v)], s + v) = Inr (tgt', s')"
    using Cons.prems(3) fresh by (auto simp: update_fresh split: option.splits)
  have "set pids \<inter> fst ` set (tgt @ [(p, v)]) = {}" using Cons.prems by auto
  with Cons.IH [OF _ this v] Cons.prems(1)
  obtain new where "tgt' = (tgt @ [(p, v)]) @ new" "map fst new = pids"
    "s' = s + v + sum_list (map snd new)" by auto
  then show ?case by (intro exI [of _ "(p, v) # new"]) simp
qed

lemma DTA_success:
  assumes "DetermineTargetAllocations selected scoredPoolsMap params elys = Inr A" "selected \<noteq> []"
  shows "\<exists>L Al tgt fs. assignFinal L Al selected ([], 0) = Inr (tgt, fs) \<and> 0 < fs
           \<and> A = map (\<lambda>(pid, alloc). (pid, alloc * (1 / fs))) tgt
           \<and> \<not> list_ex (\<lambda>(pid, alloc). alloc < minRequired params elys pid - 1 / 100000
                    \<or> val (MaxAllocation params) + 1 / 100000 < alloc) A"
  using assms
  by (auto simp: DetermineTargetAllocations_def Let_def split: if_splits sum.splits prod.splits)


lemma sum_scaled:
  fixes fs :: real
  assumes "0 < fs" "fs = sum_list (map snd tgt)"
  shows "sum_list (map snd (map (\<lambda>(pid, alloc). (pid, alloc * (1 / fs))) tgt)) = 1"
proof -
  have "sum_list (map snd (map (\<lambda>(pid, alloc). (pid, alloc * (1 / fs))) tgt))
      = sum_list (map snd tgt) * (1 / fs)"
    by (induction tgt) (auto simp: algebra_simps add_divide_distrib)
  then show ?thesis using assms by simp
qed

text \<open>
  C10. With an empty selection the result is the empty map and no error, whatever the
  scores, the parameters (valid or not) and the forced pool ID are.
\<close>

theorem empty_selection_allocation:
  "DetermineTargetAllocations [] scoredPoolsMap params elysPoolID = Inr []"
  by (simp add: DetermineTargetAllocations_def)

text \<open>
  C3 as stated fails in three ways. (1) The final re-check allows a deviation of \<open>10\<^sup>-\<^sup>5\<close>:
  with scores 3 and 1, minimum 0.3 and maximum 0.699995 both pools are locked, the sum
  0.999995 passes the \<open>10\<^sup>-\<^sup>3\<close> test, and after normalisation pool 1 holds
  \<open>139999/199999 > 0.699995\<close>. (2) The empty selection returns the empty map, whose sum is 0.
  (3) A selection that names pool 1 twice returns the single entry \<open>1 \<mapsto> 0.5\<close>.
\<close>

theorem target_allocations_counterexample:
  "DetermineTargetAllocations [1, 2] [1 \<mapsto> scored 1 3, 2 \<mapsto> scored 2 1]
      (zeroParams\<lparr>MinAllocation := Fin (3 / 10), MaxAllocation := Fin (699995 / 1000000)\<rparr>) 0
     = Inr [(1, 139999 / 199999), (2, 60000 / 199999)]
   \<and> (699995 / 1000000 :: real) < 139999 / 199999
   \<and> DetermineTargetAllocations [] [1 \<mapsto> scored 1 3] zeroParams 0 = Inr []
   \<and> DetermineTargetAllocations [1, 1] [1 \<mapsto> scored 1 1]
      (zeroParams\<lparr>MinAllocation := Fin (1 / 10), MaxAllocation := Fin (1 / 2)\<rparr>) 0
     = Inr [(1, 1 / 2)]"
  by (simp add: DetermineTargetAllocations_def Let_def zeroParams_def scored_def
        enforceConstraints.simps minRequired_def maxAllocationIterations_def)

text \<open>
  C3, amended. For a non-empty selection of distinct pool IDs, every allocation map
  returned without error has exactly the selected pools as keys, sums to 1 (within
  \<open>10\<^sup>-\<^sup>6\<close>), gives each pool an allocation in
  \<open>[effective_min - 10\<^sup>-\<^sup>5, max_alloc + 10\<^sup>-\<^sup>5]\<close>, and gives the forced pool, when it is in the
  selection, at least \<open>forced_min - 10\<^sup>-\<^sup>5\<close>.
\<close>

theorem target_allocations_constraints:
  assumes "DetermineTargetAllocations selected scoredPoolsMap params elys = Inr A"
    and "selected \<noteq> []" and "distinct selected"
  shows "map fst A = selected
       \<and> \<bar>sum_list (map snd A) - 1\<bar> \<le> 1 / 10 ^ 6
       \<and> (\<forall>(pid, a) \<in> set A.
            minRequired params elys pid - 1 / 10 ^ 5 \<le> a \<and> a \<le> val (MaxAllocation params) + 1 / 10 ^ 5)
       \<and> (elys \<in> set selected \<and> elys \<noteq> 0 \<longrightarrow>
            (\<exists>a. (elys, a) \<in> set A \<and> val (ElysForcedAllocationMinimum params) - 1 / 10 ^ 5 \<le> a))"
proof -
  obtain L Al tgt fs where af: "assignFinal L Al selected ([], 0) = Inr (tgt, fs)"
    and fs: "0 < fs"
    and A: "A = map (\<lambda>(pid, alloc). (pid, alloc * (1 / fs))) tgt"
    and ok: "\<not> list_ex (\<lambda>(pid, alloc). alloc < minRequired params elys pid - 1 / 100000
                    \<or> val (MaxAllocation params) + 1 / 100000 < alloc) A"
    using DTA_success [OF assms(1,2)] by blast
  from assignFinal_fresh [OF assms(3) _ af]
  have keys: "map fst tgt = selected" and sum: "fs = sum_list (map snd tgt)" by auto
  have k: "map fst A = selected"
    unfolding A using keys by (simp add: case_prod_beta comp_def)
  have s: "sum_list (map snd A) = 1"
    unfolding A using fs sum by (rule sum_scaled)
  have b: "\<forall>(pid, a) \<in> set A.
            minRequired params elys pid - 1 / 10 ^ 5 \<le> a \<and> a \<le> val (MaxAllocation params) + 1 / 10 ^ 5"
    using ok by (auto simp: list_ex_iff not_less)
  have f: "\<exists>a. (elys, a) \<in> set A \<and> val (ElysForcedAllocationMinimum params) - 1 / 10 ^ 5 \<le> a"
    if "elys \<in> set selected" "elys \<noteq> 0"
  proof -
    from that(1) k have "elys \<in> fst ` set A" by (metis set_map)
    then obtain a where a: "(elys, a) \<in> set A" by auto
    with b have "minRequired params elys elys - 1 / 10 ^ 5 \<le> a" by auto
    with that(2) a show ?thesis by (auto simp: minRequired_def)
  qed
  from k s b f show ?thesis by simp
qed

theorem target_allocations_constraints_witness:
  "DetermineTargetAllocations [1, 2] [1 \<mapsto> scored 1 3, 2 \<mapsto> scored 2 1]
      (zeroParams\<lparr>MinAllocation := Fin (1 / 10), MaxAllocation := Fin (7 / 10),
                  ElysForcedAllocationMinimum := Fin (3 / 10)\<rparr>) 2
     = Inr [(1, 7 / 10), (2, 3 / 10)]
   \<and> \<bar>sum_list (map snd [(1::nat, 7 / 10 :: real), (2, 3 / 10)]) - 1\<bar> \<le> 1 / 10 ^ 6
   \<and> (\<exists>a. (2, a) \<in> set [(1::nat, 7 / 10 :: real), (2, 3 / 10)] \<and> 3 / 10 - 1 / 10 ^ 5 \<le> a)"
proof -
  have ev: "DetermineTargetAllocations [1, 2] [1 \<mapsto> scored 1 3, 2 \<mapsto> scored 2 1]
      (zeroParams\<lparr>MinAllocation := Fin (1 / 10), MaxAllocation := Fin (7 / 10),
                  ElysForcedAllocationMinimum := Fin (3 / 10)\<rparr>) 2
     = Inr [(1, 7 / 10), (2, 3 / 10)]"
    by (simp add: DetermineTargetAllocations_def Let_def zeroParams_def scored_def
        enforceConstraints.simps minRequired_def maxAllocationIterations_def)
  show ?thesis
    using target_allocations_constraints [OF ev] ev by (simp add: zeroParams_def)
qed

section \<open>Pool selection\<close>

lemma finite_score_cases: "\<not> IsNaN x \<Longrightarrow> \<not> IsInf x \<Longrightarrow> \<exists>r. x = Fin r"
  by (cases x) auto

lemma filterValid_step:
  assumes dist: "distinct (map PoolID all)"
    and all: "all = seen @ ps # rest"
    and fin: "\<forall>r \<in> set seen. \<not> IsNaN (Score r) \<and> \<not> IsInf (Score r)"
    and finps: "\<not> IsNaN (Score ps)" "\<not> IsInf (Score ps)"
    and inv: "elysInv pm seen elys found"
  shows "elysInv pm (seen @ [ps])
           (if containsElys pm (PoolID ps) then
              (if \<not> found then PoolID ps
               else if list_ex (\<lambda>ex. PoolID ex = elys \<and> fless (Score ex) (Score ps)) all
                    then PoolID ps else elys)
            else elys)
           (if containsElys pm (PoolID ps) then True else found)"
proof (cases "containsElys pm (PoolID ps)")
  case False
  then have "elysCandidates pm (seen @ [ps]) = elysCandidates pm seen"
    by (simp add: elysCandidates_def)
  then show ?thesis using inv False by (auto simp: elysInv_def isBestCandidate_def split: if_splits)
next
  case ce: True
  show ?thesis
  proof (cases found)
    case False
    with inv have "elysCandidates pm seen = []"
      by (auto simp: elysInv_def split: if_splits)
    then show ?thesis using ce False
      by (simp add: elysInv_def elysCandidates_def isBestCandidate_def)
  next
    case True
    with inv obtain c where c: "c \<in> set (elysCandidates pm seen)" "PoolID c = elys"
      "\<forall>c' \<in> set (elysCandidates pm seen). val (Score c') \<le> val (Score c)"
      by (auto simp: elysInv_def isBestCandidate_def split: if_splits)
    from c(1) have cseen: "c \<in> set seen" by (simp add: elysCandidates_def)
    then have call: "c \<in> set all" using all by simp
    have inj: "inj_on PoolID (set all)" using dist by (simp add: distinct_map)
    have uniq: "ex = c" if "ex \<in> set all" "PoolID ex = elys" for ex
      using inj that call c(2) by (auto dest: inj_onD)
    obtain rc where rc: "Score c = Fin rc" using fin cseen finite_score_cases by blast
    obtain rp where rp: "Score ps = Fin rp" using finps finite_score_cases by blast
    have cond: "list_ex (\<lambda>ex. PoolID ex = elys \<and> fless (Score ex) (Score ps)) all \<longleftrightarrow> rc < rp"
    proof
      assume "list_ex (\<lambda>ex. PoolID ex = elys \<and> fless (Score ex) (Score ps)) all"
      then obtain ex where "ex \<in> set all" "PoolID ex = elys" "fless (Score ex) (Score ps)"
        by (auto simp: list_ex_iff)
      with uniq rc rp show "rc < rp" by auto
    next
      assume "rc < rp"
      then show "list_ex (\<lambda>ex. PoolID ex = elys \<and> fless (Score ex) (Score ps)) all"
        using call c(2) rc rp by (auto simp: list_ex_iff)
    qed
    have cands: "elysCandidates pm (seen @ [ps]) = elysCandidates pm seen @ [ps]"
      using ce by (simp add: elysCandidates_def)
    show ?thesis
    proof (cases "rc < rp")
      case lt: True
      have "isBestCandidate pm (seen @ [ps]) (PoolID ps)"
        unfolding isBestCandidate_def cands using c(3) lt rc rp
        by (intro bexI [of _ ps]) (auto simp: less_imp_le dest: order_trans)
      then show ?thesis using ce True cond lt by (simp add: elysInv_def cands)
    next
      case ge: False
      have "isBestCandidate pm (seen @ [ps]) elys"
        unfolding isBestCandidate_def cands using c ge rc rp
        by (intro bexI [of _ c]) auto
      then show ?thesis using ce True cond ge by (simp add: elysInv_def cands)
    qed
  qed
qed

lemma filterValid_inv:
  assumes dist: "distinct (map PoolID all)"
  shows "all = seen @ rest \<Longrightarrow>
     \<forall>r \<in> set seen. \<not> IsNaN (Score r) \<and> \<not> IsInf (Score r) \<Longrightarrow>
     elysInv pm seen elys found \<Longrightarrow>
     filterValid all pm rest (valid, elys, found) = Inr (valid', elys', found') \<Longrightarrow>
     valid' = valid @ rest \<and> elysInv pm all elys' found'"
proof (induction rest arbitrary: seen valid elys found)
  case Nil
  then show ?case by simp
next
  case (Cons ps rest)
  from Cons.prems(4) have finps: "\<not> IsNaN (Score ps)" "\<not> IsInf (Score ps)"
    by (auto split: if_splits)
  let ?elys = "(if containsElys pm (PoolID ps) then
              (if \<not> found then PoolID ps
               else if list_ex (\<lambda>ex. PoolID ex = elys \<and> fless (Score ex) (Score ps)) all
                    then PoolID ps else elys)
            else elys)"
  let ?found = "(if containsElys pm (PoolID ps) then True else found)"
  have step: "elysInv pm (seen @ [ps]) ?elys ?found"
    using dist Cons.prems(1,2) finps Cons.prems(3) by (rule filterValid_step)
  have run: "filterValid all pm rest (valid @ [ps], ?elys, ?found) = Inr (valid', elys', found')"
    using Cons.prems(4) finps step by (auto simp: Let_def elysInv_def split: if_splits)
  have a: "all = (seen @ [ps]) @ rest" using Cons.prems(1) by simp
  have f: "\<forall>r \<in> set (seen @ [ps]). \<not> IsNaN (Score r) \<and> \<not> IsInf (Score r)"
    using Cons.prems(2) finps by auto
  from Cons.IH [OF a f step run] show ?case by simp
qed


lemma filterValid_finite:
  "filterValid all pm rest st = Inr st' \<Longrightarrow> \<forall>r \<in> set rest. \<not> IsNaN (Score r) \<and> \<not> IsInf (Score r)"
proof (induction rest arbitrary: st)
  case Nil
  then show ?case by simp
next
  case (Cons ps rest)
  obtain v e f where st: "st = (v, e, f)" by (cases st)
  from Cons.prems st have fin: "\<not> IsNaN (Score ps) \<and> \<not> IsInf (Score ps)"
    by (auto split: if_splits)
  from Cons.prems st fin obtain st2 where "filterValid all pm rest st2 = Inr st'"
    by (auto simp: Let_def split: if_splits)
  from Cons.IH [OF this] fin show ?case by simp
qed

lemma sorted_wrt_last:
  "sorted_wrt P xs \<Longrightarrow> x \<in> set xs \<Longrightarrow> x = last xs \<or> P x (last xs)"
  by (induction xs) (auto split: if_splits)

text \<open>
  What a successful \<^verbatim>\<open>SelectTopPools\<close> returns on results with distinct pool IDs.
\<close>

lemma SelectTopPools_result:
  assumes sel: "SelectTopPools srt scoredPools params pm = Inr (selected, forced)"
    and dist: "distinct (map PoolID scoredPools)"
    and srt: "sortsDescending srt scoredPools"
  shows "(elysCandidates pm scoredPools \<noteq> [] \<longrightarrow>
            isBestCandidate pm scoredPools forced
            \<and> (forced \<in> PoolID ` set (topN srt scoredPools params) \<longrightarrow>
                 selected = map PoolID (topN srt scoredPools params))
            \<and> (forced \<notin> PoolID ` set (topN srt scoredPools params) \<longrightarrow>
                 selected = butlast (map PoolID (topN srt scoredPools params)) @ [forced]
                 \<and> (\<forall>r \<in> set (topN srt scoredPools params).
                       val (Score (last (topN srt scoredPools params))) \<le> val (Score r))))
       \<and> (elysCandidates pm scoredPools = [] \<longrightarrow>
            forced = 0 \<and> selected = map PoolID (topN srt scoredPools params))"
proof -
  from sel have ne: "scoredPools \<noteq> []" and mp: "0 < MaxPools params"
    by (auto simp: SelectTopPools_def split: if_splits)
  from sel ne mp obtain valid elys found where
    fv: "filterValid scoredPools pm scoredPools ([], 0, False) = Inr (valid, elys, found)"
    by (auto simp: SelectTopPools_def split: sum.splits)
  have inv0: "elysInv pm [] 0 False" by (simp add: elysInv_def elysCandidates_def)
  from filterValid_inv [OF dist _ _ inv0 fv]
  have valid: "valid = scoredPools" and inv: "elysInv pm scoredPools elys found" by auto
  have fin: "\<forall>r \<in> set scoredPools. \<not> IsNaN (Score r) \<and> \<not> IsInf (Score r)"
    using filterValid_finite [OF fv] .
  from srt have ms: "mset (srt scoredPools) = mset scoredPools"
    and sorted: "sorted_wrt (\<lambda>a b. \<not> fless (Score a) (Score b)) (srt scoredPools)"
    by (auto simp: sortsDescending_def)
  have len: "length (srt scoredPools) = length scoredPools"
    using ms by (metis size_mset)
  define n where "n = (if int (length (srt scoredPools)) < MaxPools params
                       then length (srt scoredPools) else nat (MaxPools params))"
  have tk: "take n (srt scoredPools) = topN srt scoredPools params"
    by (auto simp: n_def topN_def)
  define top where "top = map PoolID (topN srt scoredPools params)"
  have topne: "topN srt scoredPools params \<noteq> []"
    using ne mp len by (auto simp: topN_def)
  have res: "forced = elys"
    "selected = (if found \<and> elys \<notin> set top then butlast top @ [elys] else top)"
    using sel ne mp fv valid topne tk
    by (auto simp: SelectTopPools_def Let_def n_def top_def split: if_splits)
  have low: "val (Score (last (topN srt scoredPools params))) \<le> val (Score r)"
    if r: "r \<in> set (topN srt scoredPools params)" for r
  proof -
    let ?l = "last (topN srt scoredPools params)"
    have st: "sorted_wrt (\<lambda>a b. \<not> fless (Score a) (Score b)) (topN srt scoredPools params)"
      unfolding topN_def using sorted by (rule sorted_wrt_take)
    have inset: "set (topN srt scoredPools params) \<subseteq> set scoredPools"
      unfolding topN_def using ms by (metis set_mset_mset set_take_subset)
    from r inset fin obtain a where a: "Score r = Fin a"
      using finite_score_cases by blast
    from topne inset fin obtain b where b: "Score ?l = Fin b"
      using finite_score_cases last_in_set by blast
    from sorted_wrt_last [OF st r] a b show ?thesis by auto
  qed
  show ?thesis
  proof (cases "elysCandidates pm scoredPools = []")
    case True
    with inv have "\<not> found" "elys = 0" by (auto simp: elysInv_def)
    with res True show ?thesis by (simp add: top_def)
  next
    case False
    with inv have "found" "isBestCandidate pm scoredPools elys" by (auto simp: elysInv_def)
    with res False low show ?thesis by (auto simp: top_def)
  qed
qed


lemma filterValid_total:
  "\<forall>r \<in> set rest. \<not> IsNaN (Score r) \<and> \<not> IsInf (Score r) \<Longrightarrow>
     \<exists>st'. filterValid all pm rest st = Inr st'"
proof (induction rest arbitrary: st)
  case Nil
  show ?case by (intro exI [of _ st]) simp
next
  case (Cons ps rest st)
  obtain v e f where st: "st = (v, e, f)" by (metis prod_cases3)
  from Cons.prems have fin: "\<not> IsNaN (Score ps)" "\<not> IsInf (Score ps)"
    and rest: "\<forall>r \<in> set rest. \<not> IsNaN (Score r) \<and> \<not> IsInf (Score r)" by simp_all
  from Cons.IH [OF rest] show ?case unfolding st using fin by (simp add: Let_def)
qed

lemma filterValid_fails:
  "\<exists>r \<in> set rest. IsNaN (Score r) \<or> IsInf (Score r) \<Longrightarrow>
     \<exists>e. filterValid all pm rest st = Inl e"
proof (induction rest arbitrary: st)
  case Nil
  then show ?case by simp
next
  case (Cons ps rest st)
  obtain v e f where st: "st = (v, e, f)" by (metis prod_cases3)
  show ?case
  proof (cases "IsNaN (Score ps) \<or> IsInf (Score ps)")
    case True
    then show ?thesis unfolding st by simp
  next
    case False
    with Cons.prems have "\<exists>r \<in> set rest. IsNaN (Score r) \<or> IsInf (Score r)" by auto
    from Cons.IH [OF this] show ?thesis unfolding st using False by (simp add: Let_def)
  qed
qed

lemma SelectTopPools_succeeds:
  assumes "scoredPools \<noteq> []" "0 < MaxPools params"
    and "\<forall>r \<in> set scoredPools. \<not> IsNaN (Score r) \<and> \<not> IsInf (Score r)"
    and dist: "distinct (map PoolID scoredPools)"
  shows "\<exists>selected forced. SelectTopPools srt scoredPools params pm = Inr (selected, forced)"
proof -
  from filterValid_total [OF assms(3)] obtain valid elys found where
    fv: "filterValid scoredPools pm scoredPools ([], 0, False) = Inr (valid, elys, found)"
    by (metis prod_cases3)
  have inv0: "elysInv pm [] 0 False" by (simp add: elysInv_def elysCandidates_def)
  from filterValid_inv [OF dist _ _ inv0 fv] have "valid = scoredPools" by auto
  then show ?thesis
    using assms(1,2) fv by (simp add: SelectTopPools_def Let_def)
qed

lemma SelectTopPools_fails:
  assumes "scoredPools = [] \<or> MaxPools params \<le> 0
           \<or> (\<exists>r \<in> set scoredPools. IsNaN (Score r) \<or> IsInf (Score r))"
  shows "\<exists>e. SelectTopPools srt scoredPools params pm = Inl e"
proof (cases "scoredPools = [] \<or> MaxPools params \<le> 0")
  case True
  then show ?thesis by (auto simp: SelectTopPools_def)
next
  case False
  with assms have "\<exists>r \<in> set scoredPools. IsNaN (Score r) \<or> IsInf (Score r)" by blast
  from filterValid_fails [OF this] obtain e where
    "filterValid scoredPools pm scoredPools ([], 0, False) = Inl e" by blast
  then show ?thesis using False by (simp add: SelectTopPools_def)
qed

text \<open>
  C4 as stated fails when two results carry the same pool ID: the inner scan looks the
  forced pool's score up by ID and takes the entry of pool 21 that scores 1, so pool 22
  (score 3) replaces pool 21 (score 5) as forced pool, and with \<open>MaxPools = 1\<close> the
  selection is pool 22 alone. It also fails on a result whose score is NaN: the function
  returns an error, and no forced pool.
\<close>

theorem select_top_pools_counterexample:
  "SelectTopPools sortByScoreDesc [scored 21 5, scored 21 1, scored 22 3]
      (zeroParams\<lparr>MaxPools := 1\<rparr>)
      [21 \<mapsto> poolOf 21 ''uelys'' ''uusdc'', 22 \<mapsto> poolOf 22 ''uelys'' ''uatom'']
     = Inr ([22], 22)
   \<and> \<not> isBestCandidate
       [21 \<mapsto> poolOf 21 ''uelys'' ''uusdc'', 22 \<mapsto> poolOf 22 ''uelys'' ''uatom'']
       [scored 21 5, scored 21 1, scored 22 3] 22
   \<and> isBestCandidate
       [21 \<mapsto> poolOf 21 ''uelys'' ''uusdc'', 22 \<mapsto> poolOf 22 ''uelys'' ''uatom'']
       [scored 21 5, scored 21 1, scored 22 3] 21
   \<and> SelectTopPools sortByScoreDesc [(scored 21 5)\<lparr>Score := NaN\<rparr>]
      (zeroParams\<lparr>MaxPools := 1\<rparr>) [21 \<mapsto> poolOf 21 ''uelys'' ''uusdc'']
     = Inl (Failure ''pool has invalid score'')"
proof -
  let ?pools = "[scored 21 5, scored 21 1, scored 22 3]"
  let ?pm = "[21 \<mapsto> poolOf 21 ''uelys'' ''uusdc'', 22 \<mapsto> poolOf 22 ''uelys'' ''uatom'']"
  have sorted: "sortByScoreDesc ?pools = [scored 21 5, scored 22 3, scored 21 1]"
    by (simp add: sortByScoreDesc_def scored_def)
  have ce: "containsElys ?pm 21 = True" "containsElys ?pm 22 = True"
    by (simp_all add: containsElys_def poolOf_def zeroPool_def zeroToken_def)
  have fv: "filterValid ?pools ?pm ?pools ([], 0, False) = Inr (?pools, 22, True)"
    by (simp add: scored_def Let_def ce)
  have mp: "MaxPools (zeroParams\<lparr>MaxPools := 1\<rparr>) = 1" by simp
  have a: "SelectTopPools sortByScoreDesc ?pools (zeroParams\<lparr>MaxPools := 1\<rparr>) ?pm = Inr ([22], 22)"
    unfolding SelectTopPools_def fv mp by (simp add: sorted Let_def)
  have cands: "elysCandidates ?pm ?pools = ?pools"
    by (simp add: elysCandidates_def scored_def ce)
  have b: "\<not> isBestCandidate ?pm ?pools 22"
    unfolding isBestCandidate_def cands by (simp add: scored_def)
  have c: "isBestCandidate ?pm ?pools 21"
    unfolding isBestCandidate_def cands by (simp add: scored_def)
  have ce1: "containsElys [21 \<mapsto> poolOf 21 ''uelys'' ''uusdc''] 21 = True"
    by (simp add: containsElys_def poolOf_def zeroPool_def zeroToken_def)
  have d: "SelectTopPools sortByScoreDesc [(scored 21 5)\<lparr>Score := NaN\<rparr>]
      (zeroParams\<lparr>MaxPools := 1\<rparr>) [21 \<mapsto> poolOf 21 ''uelys'' ''uusdc'']
     = Inl (Failure ''pool has invalid score'')"
    by (simp add: SelectTopPools_def scored_def)
  from a b c d show ?thesis by (intro conjI)
qed

text \<open>
  C4, amended. Let the results have pairwise distinct pool IDs (one result per pool).
  \<^verbatim>\<open>SelectTopPools\<close> returns an error when the list is empty, \<open>MaxPools\<close> is not positive or a
  score is NaN or infinite. Otherwise it succeeds, and: if some scored pool contains the
  forced asset, the forced pool returned is a highest-scoring such pool; if it is among
  the top \<open>MaxPools\<close> by score the selection is that top list, otherwise the last
  (lowest-scoring) member of the top list is dropped and the forced pool appended. If no
  scored pool contains the forced asset, the forced pool ID is 0 and the selection is the
  top list.
\<close>

theorem select_top_pools_forced:
  assumes dist: "distinct (map PoolID scoredPools)"
    and srt: "sortsDescending srt scoredPools"
  shows "(scoredPools \<noteq> [] \<and> 0 < MaxPools params
          \<and> (\<forall>r \<in> set scoredPools. \<not> IsNaN (Score r) \<and> \<not> IsInf (Score r)) \<longrightarrow>
          (\<exists>selected forced.
             SelectTopPools srt scoredPools params pm = Inr (selected, forced)
             \<and> (elysCandidates pm scoredPools \<noteq> [] \<longrightarrow>
                  isBestCandidate pm scoredPools forced
                  \<and> (forced \<in> PoolID ` set (topN srt scoredPools params) \<longrightarrow>
                       selected = map PoolID (topN srt scoredPools params))
                  \<and> (forced \<notin> PoolID ` set (topN srt scoredPools params) \<longrightarrow>
                       selected = butlast (map PoolID (topN srt scoredPools params)) @ [forced]
                       \<and> (\<forall>r \<in> set (topN srt scoredPools params).
                             val (Score (last (topN srt scoredPools params))) \<le> val (Score r))))
             \<and> (elysCandidates pm scoredPools = [] \<longrightarrow>
                  forced = 0 \<and> selected = map PoolID (topN srt scoredPools params))))
       \<and> (scoredPools = [] \<or> MaxPools params \<le> 0
          \<or> (\<exists>r \<in> set scoredPools. IsNaN (Score r) \<or> IsInf (Score r)) \<longrightarrow>
          (\<exists>e. SelectTopPools srt scoredPools params pm = Inl e))"
proof (intro conjI impI)
  assume h: "scoredPools \<noteq> [] \<and> 0 < MaxPools params
          \<and> (\<forall>r \<in> set scoredPools. \<not> IsNaN (Score r) \<and> \<not> IsInf (Score r))"
  then obtain selected forced where
    sel: "SelectTopPools srt scoredPools params pm = Inr (selected, forced)"
    using SelectTopPools_succeeds [OF _ _ _ dist] by blast
  from SelectTopPools_result [OF sel dist srt] sel
  show "\<exists>selected forced.
             SelectTopPools srt scoredPools params pm = Inr (selected, forced)
             \<and> (elysCandidates pm scoredPools \<noteq> [] \<longrightarrow>
                  isBestCandidate pm scoredPools forced
                  \<and> (forced \<in> PoolID ` set (topN srt scoredPools params) \<longrightarrow>
                       selected = map PoolID (topN srt scoredPools params))
                  \<and> (forced \<notin> PoolID ` set (topN srt scoredPools params) \<longrightarrow>
                       selected = butlast (map PoolID (topN srt scoredPools params)) @ [forced]
                       \<and> (\<forall>r \<in> set (topN srt scoredPools params).
                             val (Score (last (topN srt scoredPools params))) \<le> val (Score r))))
             \<and> (elysCandidates pm scoredPools = [] \<longrightarrow>
                  forced = 0 \<and> selected = map PoolID (topN srt scoredPools params))"
    by blast
next
  assume "scoredPools = [] \<or> MaxPools params \<le> 0
          \<or> (\<exists>r \<in> set scoredPools. IsNaN (Score r) \<or> IsInf (Score r))"
  then show "\<exists>e. SelectTopPools srt scoredPools params pm = Inl e"
    by (rule SelectTopPools_fails)
qed

theorem select_top_pools_forced_witness:
  "SelectTopPools sortByScoreDesc [scored 14 2, scored 11 5, scored 13 3, scored 12 4]
      (zeroParams\<lparr>MaxPools := 2\<rparr>)
      [11 \<mapsto> poolOf 11 ''uatom'' ''uusdc'', 12 \<mapsto> poolOf 12 ''uosmo'' ''uusdc'',
       13 \<mapsto> poolOf 13 ''uelys'' ''uusdc'', 14 \<mapsto> poolOf 14 ''uusdc'' ''uelys'']
     = Inr ([11, 13], 13)
   \<and> isBestCandidate
       [11 \<mapsto> poolOf 11 ''uatom'' ''uusdc'', 12 \<mapsto> poolOf 12 ''uosmo'' ''uusdc'',
        13 \<mapsto> poolOf 13 ''uelys'' ''uusdc'', 14 \<mapsto> poolOf 14 ''uusdc'' ''uelys'']
       [scored 14 2, scored 11 5, scored 13 3, scored 12 4] 13
   \<and> map PoolID (topN sortByScoreDesc [scored 14 2, scored 11 5, scored 13 3, scored 12 4]
        (zeroParams\<lparr>MaxPools := 2\<rparr>)) = [11, 12]
   \<and> (\<exists>e. SelectTopPools sortByScoreDesc [] (zeroParams\<lparr>MaxPools := 2\<rparr>) Map.empty = Inl e)"
proof -
  let ?pools = "[scored 14 2, scored 11 5, scored 13 3, scored 12 4]"
  let ?pm = "[11 \<mapsto> poolOf 11 ''uatom'' ''uusdc'', 12 \<mapsto> poolOf 12 ''uosmo'' ''uusdc'',
       13 \<mapsto> poolOf 13 ''uelys'' ''uusdc'', 14 \<mapsto> poolOf 14 ''uusdc'' ''uelys'']"
  let ?params = "zeroParams\<lparr>MaxPools := 2\<rparr>"
  have sorted: "sortByScoreDesc ?pools = [scored 11 5, scored 12 4, scored 13 3, scored 14 2]"
    by (simp add: sortByScoreDesc_def scored_def)
  have ce: "containsElys ?pm 11 = False" "containsElys ?pm 12 = False"
    "containsElys ?pm 13 = True" "containsElys ?pm 14 = True"
    by (simp_all add: containsElys_def poolOf_def zeroPool_def zeroToken_def)
  have mp: "MaxPools ?params = 2" by simp
  have d: "distinct (map PoolID ?pools)" by (simp add: scored_def)
  have s: "sortsDescending sortByScoreDesc ?pools"
    unfolding sortsDescending_def sorted by (simp add: scored_def)
  have pre: "?pools \<noteq> [] \<and> 0 < MaxPools ?params
          \<and> (\<forall>r \<in> set ?pools. \<not> IsNaN (Score r) \<and> \<not> IsInf (Score r))"
    by (simp add: scored_def)
  have c: "elysCandidates ?pm ?pools \<noteq> []"
    by (simp add: elysCandidates_def scored_def ce)
  have t: "map PoolID (topN sortByScoreDesc ?pools ?params) = [11, 12]"
    unfolding topN_def mp sorted by (simp add: scored_def)
  from select_top_pools_forced [OF d s, of ?params ?pm] pre c obtain selected forced where
    r: "SelectTopPools sortByScoreDesc ?pools ?params ?pm = Inr (selected, forced)"
      "isBestCandidate ?pm ?pools forced"
      "forced \<in> PoolID ` set (topN sortByScoreDesc ?pools ?params) \<longrightarrow>
         selected = map PoolID (topN sortByScoreDesc ?pools ?params)"
      "forced \<notin> PoolID ` set (topN sortByScoreDesc ?pools ?params) \<longrightarrow>
         selected = butlast (map PoolID (topN sortByScoreDesc ?pools ?params)) @ [forced]"
    by blast
  have cands: "elysCandidates ?pm ?pools = [scored 14 2, scored 13 3]"
    by (simp add: elysCandidates_def scored_def ce)
  from r(2) have f13: "forced = 13"
    unfolding isBestCandidate_def cands by (auto simp: scored_def)
  have "PoolID ` set (topN sortByScoreDesc ?pools ?params) = set [11, 12]"
    using t by (metis set_map)
  then have notin: "forced \<notin> PoolID ` set (topN sortByScoreDesc ?pools ?params)"
    unfolding f13 by simp
  with r(4) have "selected = butlast (map PoolID (topN sortByScoreDesc ?pools ?params)) @ [forced]"
    by blast
  then have sl: "selected = [11, 13]" unfolding t f13 by simp
  have s0: "sortsDescending sortByScoreDesc []"
    by (simp add: sortsDescending_def sortByScoreDesc_def)
  have fl: "\<exists>e. SelectTopPools sortByScoreDesc [] ?params Map.empty = Inl e"
    using select_top_pools_forced [of "[]" sortByScoreDesc ?params Map.empty, OF _ s0] by simp
  from r(1) r(2) t fl show ?thesis unfolding sl f13 by simp
qed

section \<open>Action planner\<close>

lemma validated_deposit_factor:
  assumes "validateScoringParams params = Inr ()"
  shows "\<exists>f. ViableDepositReductionFactor params = Fin f \<and> 0 < f \<and> f \<le> 1"
proof -
  from assms have "\<not> fle (ViableDepositReductionFactor params) (Fin 0)"
    "\<not> fless (Fin 1) (ViableDepositReductionFactor params)"
    "\<not> IsNaN (ViableDepositReductionFactor params)" "\<not> IsInf (ViableDepositReductionFactor params)"
    by (simp_all add: validateScoringParams_def split: if_splits)
  then show ?thesis by (cases "ViableDepositReductionFactor params") auto
qed

lemma Quo_reduced:
  assumes "0 \<le> a" "0 \<le> r" "r \<le> 100"
  shows "0 \<le> Quo (a * r) 100 \<and> Quo (a * r) 100 \<le> a"
proof -
  have nn: "0 \<le> a * r" using assms by simp
  have q: "Quo (a * r) 100 = (a * r) div 100"
    using nn by (cases "a * r = 0") (auto simp: Quo_def sgn_if)
  have "a * r \<le> a * 100" using assms by (simp add: mult_left_mono)
  then have "(a * r) div 100 \<le> a" by simp
  moreover have "0 \<le> (a * r) div 100" using nn by simp
  ultimately show ?thesis using q by simp
qed

lemma findViableDepositAmount_bound:
  assumes vp: "validateScoringParams params = Inr ()"
    and a: "0 \<le> a"
    and r: "findViableDepositAmount ext pid [\<lparr>Denom = dn, Amount = a\<rparr>] poolInfo params = Some (je, fa)"
  shows "0 \<le> fa \<and> fa \<le> a"
proof -
  obtain f where f: "ViableDepositReductionFactor params = Fin f" "0 < f" "f \<le> 1"
    using validated_deposit_factor [OF vp] by blast
  let ?r = "TruncateInt (val (fmul (ViableDepositReductionFactor params) (Fin 100)))"
  have "?r = \<lfloor>f * 100\<rfloor>" using f by (simp add: TruncateInt_def)
  moreover have "0 \<le> \<lfloor>f * 100\<rfloor>" using f by simp
  moreover have "\<lfloor>f * 100\<rfloor> \<le> 100" using f by (simp add: floor_le_iff)
  ultimately have rr: "0 \<le> ?r" "?r \<le> 100" by simp_all
  from r have "fa = a \<or> fa = Quo (a * ?r) 100"
    by (auto simp: findViableDepositAmount_def Let_def split: sum.splits if_splits option.splits)
  with Quo_reduced [OF a rr] a show ?thesis by auto
qed


lemma depositStep_cases:
  assumes buf: "MinLiquidUSDCBuffer params = Fin b"
    and st: "depositStep ext pd usdc params d (acts, Fin s) = Inr (acts1, sim1)"
  shows "(acts1 = acts \<and> sim1 = Fin s) \<or>
     (\<exists>poolInfo tgt ua je fa used.
        pd (ActionPoolID d) = Some poolInfo
        \<and> tgt = (if fless (Fin (allowable s b)) (DeltaUSD d) then Fin (allowable s b)
                 else DeltaUSD d)
        \<and> \<not> fless tgt (Fin 1)
        \<and> Float64ToSDKInt tgt (Precision usdc) = Inr ua
        \<and> findViableDepositAmount ext (ActionPoolID d) [\<lparr>Denom = IBCDenom usdc, Amount = ua\<rparr>]
             poolInfo params = Some (je, fa)
        \<and> fa \<noteq> 0
        \<and> SDKIntToFloat64 (Some fa) (Precision usdc) = Inr used
        \<and> acts1 = acts @
              [zeroSubAction\<lparr>Type := SubActionDepositLP,
                 PoolIDToDeposit := ActionPoolID d,
                 AmountsToDeposit := [\<lparr>Denom = IBCDenom usdc, Amount = fa\<rparr>],
                 ExpectedSharesOut := Amount (ShareAmountOut je),
                 ExpectedSlippage := JoinSlippage je,
                 SlippageTolerancePct := getSlippageLimit poolInfo params\<rparr>]
        \<and> sim1 = Fin (s - used))"
  using st
  by (auto simp: depositStep_def Let_def buf fsub_def allowable_def max_def
      split: option.splits if_splits sum.splits prod.splits)

lemma Float64ToSDKInt_finite:
  assumes "Float64ToSDKInt x p = Inr n"
  shows "\<exists>t. x = Fin t \<and> 0 \<le> t"
  using assms by (cases x) (auto simp: Float64ToSDKInt_def split: if_splits)

lemma depositStep_clamped:
  assumes vp: "validateScoringParams params = Inr ()"
    and buf: "MinLiquidUSDCBuffer params = Fin b"
    and st: "depositStep ext pd usdc params d (acts, Fin s) = Inr (acts1, sim1)"
  shows "(acts1 = acts \<and> sim1 = Fin s) \<or>
     (\<exists>a. acts1 = acts @ [a] \<and> Type a = SubActionDepositLP
          \<and> PoolIDToDeposit a = ActionPoolID d
          \<and> 0 < depositedUSDC usdc a \<and> 1 \<le> allowable s b
          \<and> depositedUSDC usdc a \<le> allowable s b + 1 / (2 * 10 ^ nat (Precision usdc))
          \<and> sim1 = Fin (s - depositedUSDC usdc a))"
proof -
  let ?p = "Precision usdc"
  let ?m = "Fin (allowable s b)"
  from depositStep_cases [OF buf st]
  consider "acts1 = acts \<and> sim1 = Fin s"
    | poolInfo tgt ua je fa used where
      "tgt = (if fless ?m (DeltaUSD d) then ?m else DeltaUSD d)"
      "\<not> fless tgt (Fin 1)"
      "Float64ToSDKInt tgt ?p = Inr ua"
      "findViableDepositAmount ext (ActionPoolID d) [\<lparr>Denom = IBCDenom usdc, Amount = ua\<rparr>]
             poolInfo params = Some (je, fa)"
      "fa \<noteq> 0"
      "SDKIntToFloat64 (Some fa) ?p = Inr used"
      "acts1 = acts @
              [zeroSubAction\<lparr>Type := SubActionDepositLP,
                 PoolIDToDeposit := ActionPoolID d,
                 AmountsToDeposit := [\<lparr>Denom = IBCDenom usdc, Amount = fa\<rparr>],
                 ExpectedSharesOut := Amount (ShareAmountOut je),
                 ExpectedSlippage := JoinSlippage je,
                 SlippageTolerancePct := getSlippageLimit poolInfo params\<rparr>]"
      "sim1 = Fin (s - used)"
    by blast
  then show ?thesis
  proof cases
    case 1
    then show ?thesis by simp
  next
    case 2
    obtain t where t: "tgt = Fin t" "0 \<le> t"
      using Float64ToSDKInt_finite [OF 2(3)] by blast
    from 2(2) t have t1: "1 \<le> t" by simp
    have tle: "t \<le> allowable s b"
    proof (cases "fless ?m (DeltaUSD d)")
      case True
      with 2(1) t show ?thesis by simp
    next
      case False
      with 2(1) t have "DeltaUSD d = Fin t" by simp
      with False show ?thesis by simp
    qed
    from Float64ToSDKInt_result [OF 2(3) [unfolded t(1)] t(2)]
    have ua: "ua = rhe (t * 10 ^ nat ?p)" "0 \<le> ua" "ua * 10 ^ 18 < 2 ^ 315" "0 \<le> ?p" "?p \<le> 18"
      by simp_all
    from findViableDepositAmount_bound [OF vp ua(2) 2(4)] have fa: "0 \<le> fa" "fa \<le> ua" by auto
    have "fa * 10 ^ 18 \<le> ua * 10 ^ 18" using fa(2) by (rule mult_right_mono) simp
    with ua(3) have far: "fa * 10 ^ 18 < 2 ^ 315" by linarith
    have used: "used = of_int fa / 10 ^ nat ?p"
      using 2(6) SDKIntToFloat64_value [OF fa(1) ua(4,5) far] by simp
    have fpos: "0 < fa" using fa(1) 2(5) by simp
    have u0: "0 < used" using used fpos by simp
    have "of_int ua \<le> t * 10 ^ nat ?p + 1 / 2"
      using rhe_close [of "t * 10 ^ nat ?p"] ua(1) by linarith
    then have "of_int fa \<le> t * 10 ^ nat ?p + 1 / 2" using fa(2) by linarith
    then have "of_int fa / 10 ^ nat ?p \<le> (t * 10 ^ nat ?p + 1 / 2) / 10 ^ nat ?p"
      by (rule divide_right_mono) simp
    also have "\<dots> = t + 1 / (2 * 10 ^ nat ?p)" by (simp add: field_simps)
    finally have "used \<le> t + 1 / (2 * 10 ^ nat ?p)" using used by simp
    with tle have ub: "used \<le> allowable s b + 1 / (2 * 10 ^ nat ?p)" by linarith
    have al: "1 \<le> allowable s b" using t1 tle by linarith
    let ?a = "zeroSubAction\<lparr>Type := SubActionDepositLP,
                 PoolIDToDeposit := ActionPoolID d,
                 AmountsToDeposit := [\<lparr>Denom = IBCDenom usdc, Amount = fa\<rparr>],
                 ExpectedSharesOut := Amount (ShareAmountOut je),
                 ExpectedSlippage := JoinSlippage je,
                 SlippageTolerancePct := getSlippageLimit poolInfo params\<rparr>"
    have dep: "depositedUSDC usdc ?a = used" by (simp add: depositedUSDC_def used)
    have "acts1 = acts @ [?a] \<and> Type ?a = SubActionDepositLP
          \<and> PoolIDToDeposit ?a = ActionPoolID d
          \<and> 0 < depositedUSDC usdc ?a \<and> 1 \<le> allowable s b
          \<and> depositedUSDC usdc ?a \<le> allowable s b + 1 / (2 * 10 ^ nat (Precision usdc))
          \<and> sim1 = Fin (s - depositedUSDC usdc ?a)"
      unfolding dep using 2(7,8) u0 ub al by simp
    then show ?thesis by blast
  qed
qed

lemma keepsBuffer_append:
  "keepsBuffer b e s (xs @ ys) \<longleftrightarrow> keepsBuffer b e s xs \<and> keepsBuffer b e (s - sum_list xs) ys"
  by (induction xs arbitrary: s) (auto simp: algebra_simps)

lemma keepsBuffer_final:
  assumes "keepsBuffer b e s xs" "0 \<le> e"
  shows "0 \<le> sum_list xs \<and> (xs = [] \<or> b - e \<le> s - sum_list xs)"
  using assms(1)
proof (induction xs arbitrary: s)
  case Nil
  then show ?case by simp
next
  case (Cons x xs)
  then have x: "0 < x" "1 \<le> allowable s b" "x \<le> allowable s b + e"
    and r: "keepsBuffer b e (s - x) xs" by simp_all
  from x(2) have "allowable s b = s - b" by (simp add: allowable_def max_def split: if_splits)
  with x(3) have fst: "b - e \<le> s - x" by linarith
  from Cons.IH [OF r] have ih: "0 \<le> sum_list xs" "xs = [] \<or> b - e \<le> s - x - sum_list xs"
    by simp_all
  show ?case
  proof (cases "xs = []")
    case True
    then show ?thesis using fst x(1) by simp
  next
    case False
    with ih have "b - e \<le> s - x - sum_list xs" by simp
    then show ?thesis using ih(1) x(1) by (simp add: algebra_simps)
  qed
qed

lemma depositsLoop_clamped:
  assumes vp: "validateScoringParams params = Inr ()"
    and buf: "MinLiquidUSDCBuffer params = Fin b"
    and run: "depositsLoop ext pd usdc params ds (acts, Fin s) = Inr (acts', sim')"
  shows "\<exists>news. acts' = acts @ news
           \<and> (\<forall>a\<in>set news. Type a = SubActionDepositLP)
           \<and> keepsBuffer b (1 / (2 * 10 ^ nat (Precision usdc))) s (map (depositedUSDC usdc) news)
           \<and> sim' = Fin (s - sum_list (map (depositedUSDC usdc) news))"
  using run
proof (induction ds arbitrary: acts s)
  case Nil
  then show ?case by auto
next
  case (Cons d ds)
  let ?e = "1 / (2 * 10 ^ nat (Precision usdc)) :: real"
  from Cons.prems obtain acts1 sim1 where
    st: "depositStep ext pd usdc params d (acts, Fin s) = Inr (acts1, sim1)"
    and rest: "depositsLoop ext pd usdc params ds (acts1, sim1) = Inr (acts', sim')"
    by (auto split: sum.splits)
  from depositStep_clamped [OF vp buf st]
  consider "acts1 = acts \<and> sim1 = Fin s"
    | a where "acts1 = acts @ [a]" "Type a = SubActionDepositLP"
      "0 < depositedUSDC usdc a" "1 \<le> allowable s b"
      "depositedUSDC usdc a \<le> allowable s b + ?e"
      "sim1 = Fin (s - depositedUSDC usdc a)"
    by blast
  then show ?case
  proof cases
    case 1
    with rest have "depositsLoop ext pd usdc params ds (acts, Fin s) = Inr (acts', sim')" by simp
    from Cons.IH [OF this] show ?thesis .
  next
    case 2
    from rest have "depositsLoop ext pd usdc params ds (acts @ [a], Fin (s - depositedUSDC usdc a))
        = Inr (acts', sim')" by (simp add: 2(1,6))
    from Cons.IH [OF this] obtain news where
      n: "acts' = (acts @ [a]) @ news" "\<forall>a\<in>set news. Type a = SubActionDepositLP"
        "keepsBuffer b ?e (s - depositedUSDC usdc a) (map (depositedUSDC usdc) news)"
        "sim' = Fin (s - depositedUSDC usdc a - sum_list (map (depositedUSDC usdc) news))"
      by blast
    have "acts' = acts @ (a # news)" using n(1) by simp
    moreover have "\<forall>x\<in>set (a # news). Type x = SubActionDepositLP" using n(2) 2(2) by simp
    moreover have "keepsBuffer b ?e s (map (depositedUSDC usdc) (a # news))"
      using n(3) 2(3,4,5) by simp
    moreover have "sim' = Fin (s - sum_list (map (depositedUSDC usdc) (a # news)))"
      using n(4) by (simp add: algebra_simps)
    ultimately show ?thesis by blast
  qed
qed

lemma depositStep_emits:
  assumes buf: "MinLiquidUSDCBuffer params = Fin b"
    and pool: "pd (ActionPoolID d) = Some poolInfo"
    and delta: "DeltaUSD d = Fin delta" "0 < delta"
    and t1: "1 \<le> min delta (allowable s b)"
    and p: "0 \<le> Precision usdc" "Precision usdc \<le> 18"
    and rng: "rhe (min delta (allowable s b) * 10 ^ nat (Precision usdc)) * 10 ^ 18 < 2 ^ 315"
    and sim: "SimulateJoinPool ext (ActionPoolID d)
                [\<lparr>Denom = IBCDenom usdc,
                   Amount = rhe (min delta (allowable s b) * 10 ^ nat (Precision usdc))\<rparr>] = Inr je"
    and ok: "fle (JoinSlippage je) (getSlippageLimit poolInfo params)"
  shows "depositStep ext pd usdc params d (acts, Fin s) =
           Inr (acts @
              [zeroSubAction\<lparr>Type := SubActionDepositLP,
                 PoolIDToDeposit := ActionPoolID d,
                 AmountsToDeposit :=
                   [\<lparr>Denom = IBCDenom usdc,
                      Amount = rhe (min delta (allowable s b) * 10 ^ nat (Precision usdc))\<rparr>],
                 ExpectedSharesOut := Amount (ShareAmountOut je),
                 ExpectedSlippage := JoinSlippage je,
                 SlippageTolerancePct := getSlippageLimit poolInfo params\<rparr>],
              Fin (s - of_int (rhe (min delta (allowable s b) * 10 ^ nat (Precision usdc)))
                         / 10 ^ nat (Precision usdc)))"
proof -
  define t where "t = min delta (allowable s b)"
  define ua where "ua = rhe (t * 10 ^ nat (Precision usdc))"
  have t0: "0 \<le> t" "1 \<le> t" using t1 by (simp_all add: t_def)
  have al: "0 \<le> allowable s b" by (simp add: allowable_def)
  have mx: "(if fless (fsub (Fin s) (Fin b)) (Fin 0) then Fin 0 else fsub (Fin s) (Fin b))
              = Fin (allowable s b)"
    by (simp add: fsub_def allowable_def max_def)
  have tg: "(if fless (Fin (allowable s b)) (Fin delta) then Fin (allowable s b) else Fin delta) = Fin t"
    by (simp add: t_def min_def)
  have conv: "Float64ToSDKInt (Fin t) (Precision usdc) = Inr ua"
    unfolding ua_def using t0(1) p rng [folded t_def] by (rule Float64ToSDKInt_value)
  have "of_int 1 \<le> t * 10 ^ nat (Precision usdc)"
  proof -
    have "1 * 1 \<le> t * 10 ^ nat (Precision usdc)" by (rule mult_mono) (use t0 in simp_all)
    then show ?thesis by simp
  qed
  then have ua1: "1 \<le> ua" unfolding ua_def by (rule rhe_mono_int)
  have bk: "SDKIntToFloat64 (Some ua) (Precision usdc) = Inr (of_int ua / 10 ^ nat (Precision usdc))"
    using ua1 p rng [folded t_def, folded ua_def] by (intro SDKIntToFloat64_value) simp_all
  have fv: "findViableDepositAmount ext (ActionPoolID d) [\<lparr>Denom = IBCDenom usdc, Amount = ua\<rparr>]
              poolInfo params = Some (je, ua)"
    using sim [folded t_def, folded ua_def] ok by (simp add: findViableDepositAmount_def Let_def)
  have "depositStep ext pd usdc params d (acts, Fin s) =
           Inr (acts @
              [zeroSubAction\<lparr>Type := SubActionDepositLP,
                 PoolIDToDeposit := ActionPoolID d,
                 AmountsToDeposit := [\<lparr>Denom = IBCDenom usdc, Amount = ua\<rparr>],
                 ExpectedSharesOut := Amount (ShareAmountOut je),
                 ExpectedSlippage := JoinSlippage je,
                 SlippageTolerancePct := getSlippageLimit poolInfo params\<rparr>],
              Fin (s - of_int ua / 10 ^ nat (Precision usdc)))"
  proof -
    have sb: "1 \<le> s - b" "\<not> s < b" "\<not> s - b < 1" "\<not> delta < 1"
      using t0(2) by (simp_all add: t_def allowable_def max_def split: if_splits)
    have c1: "Float64ToSDKInt (Fin (s - b)) (Precision usdc) = Inr ua" if "s - b < delta"
      using conv that sb by (simp add: t_def allowable_def max_def min_def)
    have c2: "Float64ToSDKInt (Fin delta) (Precision usdc) = Inr ua" if "\<not> s - b < delta"
      using conv that sb by (simp add: t_def allowable_def max_def min_def)
    have ua0: "ua \<noteq> 0" using ua1 by simp
    show ?thesis
      using delta sb ua0
      by (simp add: depositStep_def pool buf Let_def c1 c2 fv bk fsub_def)
  qed
  then show ?thesis by (simp only: ua_def t_def)
qed

text \<open>
  C5. With parameters that pass \<^verbatim>\<open>validateScoringParams\<close> (as \<^verbatim>\<open>GenerateActionPlan\<close> checks before
  it plans) and a finite buffer \<open>b\<close>, let \<open>\<epsilon>\<close> be half a unit of the last USDC decimal (the
  rounding of an amount to the token's precision, in the exact arithmetic of the model).

  (1) After any number \<open>k\<close> of deposits of the deposit phase, started with \<open>s\<close> simulated
  liquid USDC: the actions emitted so far are deposit actions; each deposited amount is
  positive, is emitted only when at least one USDC is allowable, and is at most
  \<open>allowable + \<epsilon>\<close>, where \<open>allowable = max 0 (current - b)\<close> and \<open>current\<close> is the simulated
  liquid USDC at that moment (\<open>keepsBuffer\<close>); the simulated liquid USDC is \<open>s\<close> minus the
  amounts deposited so far. Hence it is still \<open>s\<close> (nothing was deposited) or at least
  \<open>b - \<epsilon>\<close>.

  (2) One deposit for a known pool, with a positive delta whose clamp
  \<open>min delta allowable\<close> is at least one USDC and converts within the range of the SDK
  decimal, and with a join simulation within the pool's slippage limit, emits the deposit
  of the clamp (in units of the last USDC decimal, rounded half to even) and subtracts
  that amount from the simulated liquid USDC.
\<close>

theorem deposit_phase_keeps_buffer:
  assumes vp: "validateScoringParams params = Inr ()"
    and buf: "MinLiquidUSDCBuffer params = Fin b"
  shows "(depositsLoop ext poolsData usdc params (take k deposits) (acts, Fin s) = Inr (acts', sim')
           \<longrightarrow> (\<exists>news. acts' = acts @ news
                  \<and> (\<forall>a\<in>set news. Type a = SubActionDepositLP)
                  \<and> keepsBuffer b (1 / (2 * 10 ^ nat (Precision usdc))) s
                       (map (depositedUSDC usdc) news)
                  \<and> sim' = Fin (s - sum_list (map (depositedUSDC usdc) news))
                  \<and> s - sum_list (map (depositedUSDC usdc) news) \<le> s
                  \<and> (news = [] \<or> b - 1 / (2 * 10 ^ nat (Precision usdc))
                                    \<le> s - sum_list (map (depositedUSDC usdc) news))))
       \<and> (poolsData (ActionPoolID d) = Some poolInfo
            \<and> DeltaUSD d = Fin delta \<and> 0 < delta
            \<and> 1 \<le> min delta (allowable s0 b)
            \<and> 0 \<le> Precision usdc \<and> Precision usdc \<le> 18
            \<and> rhe (min delta (allowable s0 b) * 10 ^ nat (Precision usdc)) * 10 ^ 18 < 2 ^ 315
            \<and> SimulateJoinPool ext (ActionPoolID d)
                 [\<lparr>Denom = IBCDenom usdc,
                    Amount = rhe (min delta (allowable s0 b) * 10 ^ nat (Precision usdc))\<rparr>] = Inr je
            \<and> fle (JoinSlippage je) (getSlippageLimit poolInfo params)
           \<longrightarrow> depositStep ext poolsData usdc params d (acts0, Fin s0) =
                 Inr (acts0 @
                   [zeroSubAction\<lparr>Type := SubActionDepositLP,
                      PoolIDToDeposit := ActionPoolID d,
                      AmountsToDeposit :=
                        [\<lparr>Denom = IBCDenom usdc,
                           Amount = rhe (min delta (allowable s0 b) * 10 ^ nat (Precision usdc))\<rparr>],
                      ExpectedSharesOut := Amount (ShareAmountOut je),
                      ExpectedSlippage := JoinSlippage je,
                      SlippageTolerancePct := getSlippageLimit poolInfo params\<rparr>],
                   Fin (s0 - of_int (rhe (min delta (allowable s0 b) * 10 ^ nat (Precision usdc)))
                              / 10 ^ nat (Precision usdc))))"
proof (intro conjI impI)
  assume run: "depositsLoop ext poolsData usdc params (take k deposits) (acts, Fin s) = Inr (acts', sim')"
  let ?e = "1 / (2 * 10 ^ nat (Precision usdc)) :: real"
  from depositsLoop_clamped [OF vp buf run] obtain news where
    n: "acts' = acts @ news" "\<forall>a\<in>set news. Type a = SubActionDepositLP"
      "keepsBuffer b ?e s (map (depositedUSDC usdc) news)"
      "sim' = Fin (s - sum_list (map (depositedUSDC usdc) news))"
    by blast
  have "0 \<le> ?e" by simp
  from keepsBuffer_final [OF n(3) this]
  have "s - sum_list (map (depositedUSDC usdc) news) \<le> s"
    "news = [] \<or> b - ?e \<le> s - sum_list (map (depositedUSDC usdc) news)"
    by simp_all
  with n show "\<exists>news. acts' = acts @ news
                  \<and> (\<forall>a\<in>set news. Type a = SubActionDepositLP)
                  \<and> keepsBuffer b ?e s (map (depositedUSDC usdc) news)
                  \<and> sim' = Fin (s - sum_list (map (depositedUSDC usdc) news))
                  \<and> s - sum_list (map (depositedUSDC usdc) news) \<le> s
                  \<and> (news = [] \<or> b - ?e \<le> s - sum_list (map (depositedUSDC usdc) news))"
    by blast
next
  assume h: "poolsData (ActionPoolID d) = Some poolInfo
            \<and> DeltaUSD d = Fin delta \<and> 0 < delta
            \<and> 1 \<le> min delta (allowable s0 b)
            \<and> 0 \<le> Precision usdc \<and> Precision usdc \<le> 18
            \<and> rhe (min delta (allowable s0 b) * 10 ^ nat (Precision usdc)) * 10 ^ 18 < 2 ^ 315
            \<and> SimulateJoinPool ext (ActionPoolID d)
                 [\<lparr>Denom = IBCDenom usdc,
                    Amount = rhe (min delta (allowable s0 b) * 10 ^ nat (Precision usdc))\<rparr>] = Inr je
            \<and> fle (JoinSlippage je) (getSlippageLimit poolInfo params)"
  show "depositStep ext poolsData usdc params d (acts0, Fin s0) =
                 Inr (acts0 @
                   [zeroSubAction\<lparr>Type := SubActionDepositLP,
                      PoolIDToDeposit := ActionPoolID d,
                      AmountsToDeposit :=
                        [\<lparr>Denom = IBCDenom usdc,
                           Amount = rhe (min delta (allowable s0 b) * 10 ^ nat (Precision usdc))\<rparr>],
                      ExpectedSharesOut := Amount (ShareAmountOut je),
                      ExpectedSlippage := JoinSlippage je,
                      SlippageTolerancePct := getSlippageLimit poolInfo params\<rparr>],
                   Fin (s0 - of_int (rhe (min delta (allowable s0 b) * 10 ^ nat (Precision usdc)))
                              / 10 ^ nat (Precision usdc)))"
    by (rule depositStep_emits [OF buf]) (use h in simp_all)
qed

lemma planParams0_valid: "validateScoringParams planParams0 = Inr ()"
  by (simp add: validateScoringParams_def planParams0_def zeroParams_def)

lemma deposit_step0:
  "depositStep externals0 pools0 usdcToken0 planParams0
        \<lparr>ActionPoolID = 8, DeltaUSD = Fin 4000, TargetLPShares = 4000000\<rparr> ([], Fin 4000)
      = Inr ([zeroSubAction\<lparr>Type := SubActionDepositLP, PoolIDToDeposit := 8,
                AmountsToDeposit := [\<lparr>Denom = ''ibc/usdc'', Amount = 3950000000\<rparr>],
                ExpectedSharesOut := 1975000, ExpectedSlippage := Fin 0,
                SlippageTolerancePct := Fin (3 / 100)\<rparr>], Fin 50)"
proof -
  have p: "Precision usdcToken0 = 6" "IBCDenom usdcToken0 = ''ibc/usdc''"
    by (simp_all add: usdcToken0_def zeroToken_def)
  have b: "MinLiquidUSDCBuffer planParams0 = Fin 50"
    "ViableDepositReductionFactor planParams0 = Fin (9 / 10)"
    "NormalPoolSlippagePercent planParams0 = Fin 3"
    by (simp_all add: planParams0_def zeroParams_def)
  have c: "Float64ToSDKInt (Fin 3950) 6 = Inr 3950000000"
    using Float64ToSDKInt_value [of 3950 6] by simp
  have u: "SDKIntToFloat64 (Some 3950000000) 6 = Inr 3950"
    using SDKIntToFloat64_value [of 3950000000 6] by simp
  show ?thesis
    by (simp add: depositStep_def pools0_def poolOf_def zeroPool_def p b c u fsub_def Let_def
        findViableDepositAmount_def getSlippageLimit_def externals0_def)
qed

lemma deposit_run0: "depositsLoop externals0 pools0 usdcToken0 planParams0
        (take 1 [\<lparr>ActionPoolID = 8, DeltaUSD = Fin 4000, TargetLPShares = 4000000\<rparr>]) ([], Fin 4000)
      = Inr ([zeroSubAction\<lparr>Type := SubActionDepositLP, PoolIDToDeposit := 8,
                AmountsToDeposit := [\<lparr>Denom = ''ibc/usdc'', Amount = 3950000000\<rparr>],
                ExpectedSharesOut := 1975000, ExpectedSlippage := Fin 0,
                SlippageTolerancePct := Fin (3 / 100)\<rparr>], Fin 50)"
  by (simp add: deposit_step0)

theorem deposit_phase_keeps_buffer_witness:
  "depositsLoop externals0 pools0 usdcToken0 planParams0
        (take 1 [\<lparr>ActionPoolID = 8, DeltaUSD = Fin 4000, TargetLPShares = 4000000\<rparr>]) ([], Fin 4000)
      = Inr ([zeroSubAction\<lparr>Type := SubActionDepositLP, PoolIDToDeposit := 8,
                AmountsToDeposit := [\<lparr>Denom = ''ibc/usdc'', Amount = 3950000000\<rparr>],
                ExpectedSharesOut := 1975000, ExpectedSlippage := Fin 0,
                SlippageTolerancePct := Fin (3 / 100)\<rparr>], Fin 50)
   \<and> allowable 4000 50 = 3950
   \<and> keepsBuffer 50 (1 / (2 * 10 ^ 6)) 4000 [3950]
   \<and> (50::real) - 1 / (2 * 10 ^ 6) \<le> 4000 - 3950
   \<and> depositStep externals0 pools0 usdcToken0 planParams0
        \<lparr>ActionPoolID = 8, DeltaUSD = Fin 4000, TargetLPShares = 4000000\<rparr> ([], Fin 4000)
      = Inr ([zeroSubAction\<lparr>Type := SubActionDepositLP, PoolIDToDeposit := 8,
                AmountsToDeposit := [\<lparr>Denom = ''ibc/usdc'', Amount = 3950000000\<rparr>],
                ExpectedSharesOut := 1975000, ExpectedSlippage := Fin 0,
                SlippageTolerancePct := Fin (3 / 100)\<rparr>], Fin 50)"
proof -
  let ?d = "\<lparr>ActionPoolID = 8, DeltaUSD = Fin 4000, TargetLPShares = 4000000\<rparr>"
  let ?a = "zeroSubAction\<lparr>Type := SubActionDepositLP, PoolIDToDeposit := 8,
                AmountsToDeposit := [\<lparr>Denom = ''ibc/usdc'', Amount = 3950000000\<rparr>],
                ExpectedSharesOut := 1975000, ExpectedSlippage := Fin 0,
                SlippageTolerancePct := Fin (3 / 100)\<rparr>"
  let ?pool = "(poolOf 8 ''uelys'' ''uusdc'')\<lparr>TvlUSD := Fin 1000000, TotalShares := 500000000\<rparr>"
  let ?je = "\<lparr>ShareAmountOut = \<lparr>Denom = ''lp'', Amount = 1975000\<rparr>, JoinSlippage = Fin 0\<rparr>"
  have buf: "MinLiquidUSDCBuffer planParams0 = Fin 50"
    by (simp add: planParams0_def zeroParams_def)
  have p: "Precision usdcToken0 = 6" "IBCDenom usdcToken0 = ''ibc/usdc''"
    by (simp_all add: usdcToken0_def zeroToken_def)
  have al: "allowable 4000 50 = 3950" by (simp add: allowable_def)
  have dep: "depositedUSDC usdcToken0 ?a = 3950" by (simp add: depositedUSDC_def p)
  note th = deposit_phase_keeps_buffer [OF planParams0_valid buf,
      of externals0 pools0 usdcToken0 1 "[?d]" "[]" 4000 "[?a]" "Fin 50" ?d ?pool 4000 4000 ?je "[]"]
  from th deposit_run0 obtain news where
    n: "[?a] = [] @ news"
      "keepsBuffer 50 (1 / (2 * 10 ^ nat (Precision usdcToken0))) 4000
         (map (depositedUSDC usdcToken0) news)"
      "news = [] \<or> 50 - 1 / (2 * 10 ^ nat (Precision usdcToken0))
                     \<le> 4000 - sum_list (map (depositedUSDC usdcToken0) news)"
    by blast
  from n(1) have nw: "news = [?a]" by simp
  have k: "keepsBuffer 50 (1 / (2 * 10 ^ 6)) 4000 [3950]"
    using n(2) unfolding nw by (simp only: list.map dep p) simp
  have f: "(50::real) - 1 / (2 * 10 ^ 6) \<le> 4000 - 3950"
    using n(3) unfolding nw by (simp only: list.map dep p) simp
  have lim: "getSlippageLimit ?pool planParams0 = Fin (3 / 100)"
    by (simp add: getSlippageLimit_def poolOf_def zeroPool_def planParams0_def zeroParams_def)
  have pre: "pools0 (ActionPoolID ?d) = Some ?pool
            \<and> DeltaUSD ?d = Fin 4000 \<and> (0::real) < 4000
            \<and> 1 \<le> min 4000 (allowable 4000 50)
            \<and> 0 \<le> Precision usdcToken0 \<and> Precision usdcToken0 \<le> 18
            \<and> rhe (min 4000 (allowable 4000 50) * 10 ^ nat (Precision usdcToken0)) * 10 ^ 18 < 2 ^ 315
            \<and> SimulateJoinPool externals0 (ActionPoolID ?d)
                 [\<lparr>Denom = IBCDenom usdcToken0,
                    Amount = rhe (min 4000 (allowable 4000 50) * 10 ^ nat (Precision usdcToken0))\<rparr>]
                = Inr ?je
            \<and> fle (JoinSlippage ?je) (getSlippageLimit ?pool planParams0)"
    by (simp add: pools0_def p al lim externals0_def)
  from th pre have
    "depositStep externals0 pools0 usdcToken0 planParams0 ?d ([], Fin 4000) =
       Inr ([] @
          [zeroSubAction\<lparr>Type := SubActionDepositLP,
             PoolIDToDeposit := ActionPoolID ?d,
             AmountsToDeposit :=
               [\<lparr>Denom = IBCDenom usdcToken0,
                  Amount = rhe (min 4000 (allowable 4000 50) * 10 ^ nat (Precision usdcToken0))\<rparr>],
             ExpectedSharesOut := Amount (ShareAmountOut ?je),
             ExpectedSlippage := JoinSlippage ?je,
             SlippageTolerancePct := getSlippageLimit ?pool planParams0\<rparr>],
          Fin (4000 - of_int (rhe (min 4000 (allowable 4000 50) * 10 ^ nat (Precision usdcToken0)))
                     / 10 ^ nat (Precision usdcToken0)))"
    by blast
  then have st: "depositStep externals0 pools0 usdcToken0 planParams0 ?d ([], Fin 4000)
      = Inr ([?a], Fin 50)"
    by (simp add: p al lim)
  from deposit_run0 al k f st show ?thesis by (intro conjI)
qed

lemma usdcToken0_fields: "Precision usdcToken0 = 6" "IBCDenom usdcToken0 = ''ibc/usdc''" "Symbol usdcToken0 = ''USDC''"
   "PriceUSD usdcToken0 = Fin 1"
    by (simp_all add: usdcToken0_def zeroToken_def)

lemma planParams0_fields: "MinLiquidUSDCBuffer planParams0 = Fin 50"
    "ViableDepositReductionFactor planParams0 = Fin (9 / 10)"
    "NormalPoolSlippagePercent planParams0 = Fin 3"
    "RebalanceThresholdAmount planParams0 = Fin 5"
    "MaxRebalancePercentPerCycle planParams0 = Fin 25"
    by (simp_all add: planParams0_def zeroParams_def)

lemma validateInputs0: "validateInputs positions0 (Fin 2000) (Some [(8, Fin 1)]) (Fin 4000) (Some pools0)
        (Some [(''uusdc'', usdcToken0)]) planParams0 ''http://node:26657'' = Inr ()"
  by (simp add: validateInputs_def planParams0_valid positions0_def fsub_def)

lemma usdcToken0_found: "validateAndGetUSDCToken [(''uusdc'', usdcToken0)] = Inr usdcToken0"
  by (simp add: validateAndGetUSDCToken_def usdcToken0_fields fsub_def)

lemma analyze0: "analyzeRequiredChanges positions0 [(8, Fin 1)] (Fin 4000) pools0 planParams0
     = Inr ([\<lparr>ActionPoolID = 7, DeltaUSD = Fin (- 2000), TargetLPShares = 0\<rparr>],
            [\<lparr>ActionPoolID = 8, DeltaUSD = Fin 4000, TargetLPShares = 2000000\<rparr>])"
  by (simp add: analyzeRequiredChanges_def positions0_def findPosition_def Let_def planParams0_fields fsub_def
      calculateTargetShares_def pools0_def poolOf_def zeroPool_def sprintf_f_def dec_mul_def dec_round_def
      TruncateInt_def)

lemma cap0: "applyRebalancingLimits [\<lparr>ActionPoolID = 7, DeltaUSD = Fin (- 2000), TargetLPShares = 0\<rparr>]
            [\<lparr>ActionPoolID = 8, DeltaUSD = Fin 4000, TargetLPShares = 2000000\<rparr>] (Fin 4000) planParams0
     = ([\<lparr>ActionPoolID = 7, DeltaUSD = Fin (- 1000), TargetLPShares = 0\<rparr>],
            [\<lparr>ActionPoolID = 8, DeltaUSD = Fin 4000, TargetLPShares = 2000000\<rparr>])"
  by (simp add: applyRebalancingLimits_def planParams0_fields Let_def)

lemma withdraw0: "processWithdrawals externals0 [\<lparr>ActionPoolID = 7, DeltaUSD = Fin (- 1000), TargetLPShares = 0\<rparr>]
      positions0 pools0 (Fin 2000) usdcToken0 planParams0
    = Inr ([zeroSubAction\<lparr>Type := SubActionWithdrawLP, PoolIDToWithdraw := 7,
               LPSharesToWithdraw := 1000000, TargetDenomOnExit := ''ibc/usdc'',
               ExpectedAmountsOut := [\<lparr>Denom = ''ibc/usdc'', Amount = 2000000000\<rparr>],
               ExpectedSlippage := Fin 0, SlippageTolerancePct := Fin (3 / 100)\<rparr>], Fin 4000, [])"
proof -
  have u: "SDKIntToFloat64 (Some 2000000000) 6 = Inr 2000"
    using SDKIntToFloat64_value [of 2000000000 6] by simp
  show ?thesis
    by (simp add: processWithdrawals_def externals0_def positions0_def findPosition_def Let_def
        pools0_def poolOf_def zeroPool_def validateExitEstimation_def getSlippageLimit_def planParams0_fields usdcToken0_fields u)
qed

text \<open>
  C1. The cap scales \<^verbatim>\<open>DeltaUSD\<close> only. On the concrete vault the cap is 1000 USD (a quarter
  of 4000), the only withdrawal has \<open>|DeltaUSD| = 2000\<close> and is scaled to 1000, and the plan
  still withdraws all 1000000 LP shares of pool 7, expected to return 2000 USDC: the
  emitted \<^verbatim>\<open>WithdrawLP\<close> action takes out twice the cap.
\<close>

theorem withdrawal_cap_not_applied:
  "GenerateActionPlan externals0 positions0 (Fin 2000) (Some [(8, Fin 1)]) (Fin 4000) (Some pools0)
      (Some [(''uusdc'', usdcToken0)]) planParams0 ''http://node:26657''
     = Inr ([zeroSubAction\<lparr>Type := SubActionWithdrawLP, PoolIDToWithdraw := 7,
               LPSharesToWithdraw := 1000000, TargetDenomOnExit := ''ibc/usdc'',
               ExpectedAmountsOut := [\<lparr>Denom = ''ibc/usdc'', Amount = 2000000000\<rparr>],
               ExpectedSlippage := Fin 0, SlippageTolerancePct := Fin (3 / 100)\<rparr>],
            [zeroSubAction\<lparr>Type := SubActionDepositLP, PoolIDToDeposit := 8,
                AmountsToDeposit := [\<lparr>Denom = ''ibc/usdc'', Amount = 3950000000\<rparr>],
                ExpectedSharesOut := 1975000, ExpectedSlippage := Fin 0,
                SlippageTolerancePct := Fin (3 / 100)\<rparr>])
   \<and> withdrawnUSD usdcToken0
        [zeroSubAction\<lparr>Type := SubActionWithdrawLP, PoolIDToWithdraw := 7,
               LPSharesToWithdraw := 1000000, TargetDenomOnExit := ''ibc/usdc'',
               ExpectedAmountsOut := [\<lparr>Denom = ''ibc/usdc'', Amount = 2000000000\<rparr>],
               ExpectedSlippage := Fin 0, SlippageTolerancePct := Fin (3 / 100)\<rparr>] = 2000
   \<and> maxWithdrawUSD (Fin 4000) planParams0 = 1000"
proof -
  have dep: "processDeposits externals0 [\<lparr>ActionPoolID = 8, DeltaUSD = Fin 4000, TargetLPShares = 2000000\<rparr>]
        pools0 (Fin 4000) usdcToken0 planParams0
      = Inr [zeroSubAction\<lparr>Type := SubActionDepositLP, PoolIDToDeposit := 8,
                AmountsToDeposit := [\<lparr>Denom = ''ibc/usdc'', Amount = 3950000000\<rparr>],
                ExpectedSharesOut := 1975000, ExpectedSlippage := Fin 0,
                SlippageTolerancePct := Fin (3 / 100)\<rparr>]"
  proof -
    have c: "Float64ToSDKInt (Fin 3950) 6 = Inr 3950000000"
      using Float64ToSDKInt_value [of 3950 6] by simp
    have u: "SDKIntToFloat64 (Some 3950000000) 6 = Inr 3950"
      using SDKIntToFloat64_value [of 3950000000 6] by simp
    show ?thesis
      by (simp add: processDeposits_def depositStep_def pools0_def poolOf_def zeroPool_def
          usdcToken0_fields planParams0_fields c u fsub_def Let_def
          findViableDepositAmount_def getSlippageLimit_def externals0_def)
  qed
  have plan: "GenerateActionPlan externals0 positions0 (Fin 2000) (Some [(8, Fin 1)]) (Fin 4000) (Some pools0)
      (Some [(''uusdc'', usdcToken0)]) planParams0 ''http://node:26657''
     = Inr ([zeroSubAction\<lparr>Type := SubActionWithdrawLP, PoolIDToWithdraw := 7,
               LPSharesToWithdraw := 1000000, TargetDenomOnExit := ''ibc/usdc'',
               ExpectedAmountsOut := [\<lparr>Denom = ''ibc/usdc'', Amount = 2000000000\<rparr>],
               ExpectedSlippage := Fin 0, SlippageTolerancePct := Fin (3 / 100)\<rparr>],
            [zeroSubAction\<lparr>Type := SubActionDepositLP, PoolIDToDeposit := 8,
                AmountsToDeposit := [\<lparr>Denom = ''ibc/usdc'', Amount = 3950000000\<rparr>],
                ExpectedSharesOut := 1975000, ExpectedSlippage := Fin 0,
                SlippageTolerancePct := Fin (3 / 100)\<rparr>])"
    unfolding GenerateActionPlan_def validateInputs0
    by (simp add: usdcToken0_found analyze0 cap0 withdraw0 processConsolidation_def dep)
  have w: "withdrawnUSD usdcToken0
        [zeroSubAction\<lparr>Type := SubActionWithdrawLP, PoolIDToWithdraw := 7,
               LPSharesToWithdraw := 1000000, TargetDenomOnExit := ''ibc/usdc'',
               ExpectedAmountsOut := [\<lparr>Denom = ''ibc/usdc'', Amount = 2000000000\<rparr>],
               ExpectedSlippage := Fin 0, SlippageTolerancePct := Fin (3 / 100)\<rparr>] = 2000"
    by (simp add: withdrawnUSD_def usdcToken0_fields)
  have m: "maxWithdrawUSD (Fin 4000) planParams0 = 1000"
    by (simp add: maxWithdrawUSD_def planParams0_fields)
  from plan w m show ?thesis by simp
qed

section \<open>Pool scoring\<close>

lemma CalculateWeightedAPR_finite: "CalculateWeightedAPR pool params = Inr x \<Longrightarrow> isFinite x"
  by (auto simp: CalculateWeightedAPR_def isFinite_def Let_def split: if_splits)

lemma CalculateRewardScore_finite: "CalculateRewardScore w pool params = Inr x \<Longrightarrow> isFinite x"
  by (auto simp: CalculateRewardScore_def isFinite_def Let_def split: if_splits sum.splits)

lemma CalculateAgePenalty_finite: "CalculateAgePenalty pool params = Inr x \<Longrightarrow> isFinite x"
  by (auto simp: CalculateAgePenalty_def isFinite_def Let_def split: if_splits)

lemma CalculateSentimentAdjustment_finite:
  "CalculateSentimentAdjustment pool params = Inr x \<Longrightarrow> isFinite x"
  by (auto simp: CalculateSentimentAdjustment_def isFinite_def Let_def split: if_splits)

lemma CalculateILRisk_finite: "CalculateILRisk v sh params = Inr x \<Longrightarrow> isFinite x"
  by (auto simp: CalculateILRisk_def isFinite_def Let_def split: if_splits)

lemma CalculateRiskScore_finite: "CalculateRiskScore a b c pool params = Inr x \<Longrightarrow> isFinite x"
  by (auto simp: CalculateRiskScore_def isFinite_def Let_def split: if_splits)

lemma CalculateLiquidityScore_finite: "CalculateLiquidityScore pool params = Inr x \<Longrightarrow> isFinite x"
  by (auto simp: CalculateLiquidityScore_def isFinite_def Let_def split: if_splits)

lemma CalculateTotalBonusScore_finite: "CalculateTotalBonusScore a b = Inr x \<Longrightarrow> isFinite x"
  by (auto simp: CalculateTotalBonusScore_def isFinite_def Let_def split: if_splits)

lemma ValidatePoolData_volatility:
  "ValidatePoolData pool = Inr u \<Longrightarrow> isFinite (Volatility (TokenA pool))"
  by (simp add: ValidatePoolData_def isFinite_def Let_def split: if_splits)

text \<open>
  C9. \<^verbatim>\<open>CalculatePoolScore\<close> is a function of the pool and the parameters: equal arguments
  give equal results. Every result it returns without error has a finite score (neither
  NaN nor infinite) and finite components, all eight of them.
\<close>

theorem pool_score_finite_deterministic:
  "(pool = pool' \<and> params = params' \<longrightarrow>
      CalculatePoolScore pool params = CalculatePoolScore pool' params')
   \<and> (CalculatePoolScore pool params = Inr result \<longrightarrow>
        isFinite (Score result)
        \<and> isFinite (WeightedAPR (Components result))
        \<and> isFinite (ILRisk (Components result))
        \<and> isFinite (AnnualizedVolatility (Components result))
        \<and> isFinite (RewardScoreComponent (Components result))
        \<and> isFinite (RiskScoreComponent (Components result))
        \<and> isFinite (TvlScoreComponent (Components result))
        \<and> isFinite (BonusScoreComponent (Components result))
        \<and> isFinite (SentimentAdjustment (Components result)))"
proof (intro conjI impI)
  assume "pool = pool' \<and> params = params'"
  then show "CalculatePoolScore pool params = CalculatePoolScore pool' params'" by simp
next
  assume r: "CalculatePoolScore pool params = Inr result"
  then obtain u w rw ap sa il rs ls sb cb bs where
    steps: "ValidatePoolData pool = Inr u"
      "CalculateWeightedAPR pool params = Inr w"
      "CalculateRewardScore w pool params = Inr rw"
      "CalculateAgePenalty pool params = Inr ap"
      "CalculateSentimentAdjustment pool params = Inr sa"
      "CalculateILRisk (Volatility (TokenA pool)) (IsSmartShielded pool) params = Inr il"
      "CalculateRiskScore il ap sa pool params = Inr rs"
      "CalculateLiquidityScore pool params = Inr ls"
      "CalculateTotalBonusScore sb cb = Inr bs"
    and fin: "isFinite (fadd (fadd (fadd rw rs) ls) bs)"
    and res: "result = \<lparr>PoolID = ID pool, Score = fadd (fadd (fadd rw rs) ls) bs,
                  Components =
                    \<lparr>WeightedAPR = w, ILRisk = il,
                     AnnualizedVolatility = Volatility (TokenA pool),
                     RewardScoreComponent = rw, RiskScoreComponent = rs,
                     TvlScoreComponent = ls, BonusScoreComponent = bs,
                     SentimentAdjustment = sa\<rparr>\<rparr>"
    unfolding CalculatePoolScore_def Let_def isFinite_def
    by (auto split: sum.splits if_splits)
  show "isFinite (Score result)" using fin res by simp
  show "isFinite (WeightedAPR (Components result))"
    using CalculateWeightedAPR_finite [OF steps(2)] res by simp
  show "isFinite (ILRisk (Components result))"
    using CalculateILRisk_finite [OF steps(6)] res by simp
  show "isFinite (AnnualizedVolatility (Components result))"
    using ValidatePoolData_volatility [OF steps(1)] res by simp
  show "isFinite (RewardScoreComponent (Components result))"
    using CalculateRewardScore_finite [OF steps(3)] res by simp
  show "isFinite (RiskScoreComponent (Components result))"
    using CalculateRiskScore_finite [OF steps(7)] res by simp
  show "isFinite (TvlScoreComponent (Components result))"
    using CalculateLiquidityScore_finite [OF steps(8)] res by simp
  show "isFinite (BonusScoreComponent (Components result))"
    using CalculateTotalBonusScore_finite [OF steps(9)] res by simp
  show "isFinite (SentimentAdjustment (Components result))"
    using CalculateSentimentAdjustment_finite [OF steps(5)] res by simp
qed

lemma scoredPool0_score: "CalculatePoolScore scoredPool0 scoreParams0 =
     Inr \<lparr>PoolID = 7, Score = Fin (17 / 20),
          Components = \<lparr>WeightedAPR = Fin (1 / 10), ILRisk = Fin (1 / 4),
             AnnualizedVolatility = Fin (1 / 2), RewardScoreComponent = Fin (11 / 10),
             RiskScoreComponent = Fin (- (5 / 4)), TvlScoreComponent = Fin 1,
             BonusScoreComponent = Fin 0, SentimentAdjustment = Fin 0\<rparr>\<rparr>"
proof -
  have p: "ValidatePoolData scoredPool0 = Inr ()"
    by (simp add: ValidatePoolData_def scoredPool0_def zeroPool_def zeroToken_def fsub_def)
  have q: "ValidateScoringParameters scoreParams0 = Inr ()"
    by (simp add: ValidateScoringParameters_def scoreParams0_def zeroParams_def)
  have w: "CalculateWeightedAPR scoredPool0 scoreParams0 = Inr (Fin (1 / 10))"
    by (simp add: CalculateWeightedAPR_def scoredPool0_def zeroPool_def scoreParams0_def zeroParams_def)
  have r: "CalculateRewardScore (Fin (1 / 10)) scoredPool0 scoreParams0 = Inr (Fin (11 / 10))"
    by (simp add: CalculateRewardScore_def scoredPool0_def zeroPool_def scoreParams0_def zeroParams_def)
  have a: "CalculateAgePenalty scoredPool0 scoreParams0 = Inr (Fin (- (1 / 2)))"
    by (simp add: CalculateAgePenalty_def scoredPool0_def zeroPool_def scoreParams0_def zeroParams_def fsub_def)
  have s: "CalculateSentimentAdjustment scoredPool0 scoreParams0 = Inr (Fin 0)"
    by (simp add: CalculateSentimentAdjustment_def scoredPool0_def zeroPool_def scoreParams0_def zeroParams_def)
  have v: "Volatility (TokenA scoredPool0) = Fin (1 / 2)" "IsSmartShielded scoredPool0 = False"
    "ID scoredPool0 = 7"
    by (simp_all add: scoredPool0_def zeroPool_def zeroToken_def)
  have i: "CalculateILRisk (Fin (1 / 2)) False scoreParams0 = Inr (Fin (1 / 4))"
    by (simp add: CalculateILRisk_def scoreParams0_def zeroParams_def)
  have k: "CalculateRiskScore (Fin (1 / 4)) (Fin (- (1 / 2))) (Fin 0) scoredPool0 scoreParams0
      = Inr (Fin (- (5 / 4)))"
    by (simp add: CalculateRiskScore_def v scoreParams0_def zeroParams_def)
  have l: "CalculateLiquidityScore scoredPool0 scoreParams0 = Inr (Fin 1)"
    by (simp add: CalculateLiquidityScore_def scoredPool0_def zeroPool_def scoreParams0_def zeroParams_def)
  have b: "CalculateSmartShieldBonus scoredPool0 scoreParams0 = Inr (Fin 0)"
    by (simp add: CalculateSmartShieldBonus_def v scoreParams0_def zeroParams_def)
  have c: "CalculateContinuityBonus scoredPool0 scoreParams0 = Inr (Fin 0)"
    by (simp add: CalculateContinuityBonus_def scoredPool0_def zeroPool_def)
  have t: "CalculateTotalBonusScore (Fin 0) (Fin 0) = Inr (Fin 0)"
    by (simp add: CalculateTotalBonusScore_def)
  show ?thesis
    by (simp add: CalculatePoolScore_def p q w r a s v i k l b c t)
qed

theorem pool_score_finite_deterministic_witness:
  "CalculatePoolScore scoredPool0 scoreParams0 =
     Inr \<lparr>PoolID = 7, Score = Fin (17 / 20),
          Components = \<lparr>WeightedAPR = Fin (1 / 10), ILRisk = Fin (1 / 4),
             AnnualizedVolatility = Fin (1 / 2), RewardScoreComponent = Fin (11 / 10),
             RiskScoreComponent = Fin (- (5 / 4)), TvlScoreComponent = Fin 1,
             BonusScoreComponent = Fin 0, SentimentAdjustment = Fin 0\<rparr>\<rparr>
   \<and> isFinite (Fin (17 / 20)) \<and> isFinite (Fin (11 / 10)) \<and> isFinite (Fin (- (5 / 4)))"
  using pool_score_finite_deterministic [of scoredPool0 scoredPool0 scoreParams0 scoreParams0
      "\<lparr>PoolID = 7, Score = Fin (17 / 20),
          Components = \<lparr>WeightedAPR = Fin (1 / 10), ILRisk = Fin (1 / 4),
             AnnualizedVolatility = Fin (1 / 2), RewardScoreComponent = Fin (11 / 10),
             RiskScoreComponent = Fin (- (5 / 4)), TvlScoreComponent = Fin 1,
             BonusScoreComponent = Fin 0, SentimentAdjustment = Fin 0\<rparr>\<rparr>"]
    scoredPool0_score
  by simp

section \<open>Cycle orchestrator\<close>

text \<open>
  The path that the source comments with "save snapshot even on failure": when the
  withdrawal transaction fails and the insert works, the cycle persists one snapshot, with
  the final state equal to the initial state, allocation efficiency 0 and no hashes.
\<close>

lemma withdrawal_failure_saves_snapshot:
  assumes "TradableDenoms world = Some supportedTokens"
    and "FetchPools world supportedTokens = Some pools"
    and "FetchTokens world = Some tokenDataMap"
    and "VaultPoolPositions world 0 = Some currentPositions"
    and "VaultLiquidUSDC world 0 = Some liquidUSDC"
    and "VaultTotalValue world 0 = Some totalVaultValue"
    and "CalculatePoolScores pools (CycleParams world) = Inr scoredPools"
    and "SelectTopPools (SelectSort world) scoredPools (CycleParams world)
           (map_of (rev (map (\<lambda>p. (ID p, p)) pools))) = Inr (selectedPoolIDs, elysPoolID)"
    and "selectedPoolIDs \<noteq> []"
    and "DetermineTargetAllocations selectedPoolIDs
           (map_of (rev (map (\<lambda>sp. (PoolID sp, sp)) scoredPools))) (CycleParams world) elysPoolID
         = Inr allocations"
    and "GenerateActionPlan (PlannerExternals world) currentPositions liquidUSDC
           (Some (map (\<lambda>(pid, a). (pid, Fin a)) allocations)) totalVaultValue
           (Some (map_of (rev (map (\<lambda>p. (ID p, p)) pools)))) (Some tokenDataMap)
           (CycleParams world) (NodeRPC world) = Inr (withdrawalActions, depositActions)"
    and "withdrawalActions \<noteq> []"
    and "ExecuteActionPlan world withdrawalActions = None"
    and "SaveSucceeds world"
  shows "\<exists>snapshot. RunCycle world db = db @ [snapshot]
           \<and> FinalVaultValueUSD snapshot = InitialVaultValueUSD snapshot
           \<and> FinalLiquidUSDC snapshot = InitialLiquidUSDC snapshot
           \<and> FinalPositions snapshot = InitialPositions snapshot
           \<and> AllocationEfficiencyPercent snapshot = Fin 0
           \<and> TransactionHashes snapshot = []"
  using assms
  by (simp add: RunCycle_def Let_def executePhase_def finalizeFailedSnapshot_def
      saveCycleSnapshot_def split: prod.splits)

text \<open>
  C2. The failures before execution do not take that path: each of them is a plain
  \<^verbatim>\<open>return\<close>. In the world where the chain lists no pool the vault state is read (4000 USD,
  2000 USDC liquid), scoring fails, and the cycle ends with nothing persisted; likewise
  when the tradable denoms or the total vault value cannot be read.
\<close>

theorem failed_cycle_without_snapshot:
  "RunCycle world0 [] = []
   \<and> RunCycle (world0\<lparr>TradableDenoms := None\<rparr>) [] = []
   \<and> RunCycle (world0\<lparr>VaultTotalValue := (\<lambda>place. None)\<rparr>) [] = []"
  by (simp add: RunCycle_def world0_def CalculatePoolScores_def)

end
